theory Spec2Isabelle
  imports Main "HOL-Library.Char_ord" "HOL-Library.List_Lexorder"
begin

section \<open>Python text primitives\<close>

text \<open>
  The texts of exceptions, command-line arguments and dates are modelled as
  \<^typ>\<open>string\<close>: lists of 8-bit characters, that is the code points U+0000 to U+00FF.
  \<open>str.strip\<close> and \<open>str.lower\<close> are written out for that range; the \<open>in\<close> operator is
  the same for every kind of text.
\<close>

definition py_isspace :: "char \<Rightarrow> bool" where
  "py_isspace c = (of_char c \<in> {9, 10, 11, 12, 13, 28, 29, 30, 31, 32, 133, 160 :: nat})"

definition py_strip :: "string \<Rightarrow> string" where
  "py_strip s = rev (dropWhile py_isspace (rev (dropWhile py_isspace s)))"

definition py_lower_char :: "char \<Rightarrow> char" where
  "py_lower_char c =
     (let n = (of_char c :: nat)
      in if (65 \<le> n \<and> n \<le> 90) \<or> (192 \<le> n \<and> n \<le> 222 \<and> n \<noteq> 215)
         then char_of (n + 32) else c)"

definition py_lower :: "string \<Rightarrow> string" where
  "py_lower s = map py_lower_char s"

fun starts_with :: "'a list \<Rightarrow> 'a list \<Rightarrow> bool" where
  "starts_with [] s = True"
| "starts_with (p # ps) [] = False"
| "starts_with (p # ps) (c # cs) = (p = c \<and> starts_with ps cs)"

text \<open>\<open>py_in needle hay\<close> is Python's \<open>needle in hay\<close> on strings.\<close>

fun py_in :: "'a list \<Rightarrow> 'a list \<Rightarrow> bool" where
  "py_in needle [] = (needle = [])"
| "py_in needle (c # cs) = (starts_with needle (c # cs) \<or> py_in needle cs)"

section \<open>Skill runtime: retries (skill_runtime.py)\<close>

datatype provider = claude_cli | codex_cli | openai | anthropic

text \<open>
  An exception raised by a provider call is represented by its \<open>str(exc)\<close> text. An
  exception object is always truthy, so \<open>str(exc or "")\<close> is \<open>str(exc)\<close>.
\<close>

definition is_retryable_claude_error :: "string \<Rightarrow> bool" where
  "is_retryable_claude_error exc =
     (let text = py_lower exc
      in py_in ''timed out'' text \<or> py_in ''failed rc=1'' text
         \<or> py_in ''no json object found'' text)"

definition is_retryable_codex_error :: "string \<Rightarrow> bool" where
  "is_retryable_codex_error exc =
     (let text = py_lower exc
      in py_in ''timed out'' text \<or> py_in ''failed rc=1'' text
         \<or> py_in ''no json object found'' text \<or> py_in ''rate limit'' text)"

text \<open>
  The provider is an oracle: \<open>call k\<close> is the outcome of its \<open>(k+1)\<close>-th invocation,
  \<open>Inl\<close> the text of the exception raised, \<open>Inr\<close> the value returned. The outcome of a
  wrapped inference is the final outcome (\<open>Inl\<close>: the exception re-raised), the number of
  invocations made and the list of \<open>time.sleep\<close> arguments, in seconds, in order.
\<close>

type_synonym 'r attempts = "(string + 'r) \<times> nat \<times> nat list"

text \<open>
  The loop shared, word for word, by \<open>_infer_claude_with_retries\<close>,
  \<open>_infer_codex_with_retries\<close> and their two incremental twins:
  \<^verbatim>\<open>
    attempt = 0
    while True:
        try: return infer(...)
        except Exception as exc:
            if attempt >= max_retries or not is_retryable(exc): raise
            time.sleep(min(2 ** attempt, 4))
            attempt += 1
  \<close>
\<close>

function retry_loop ::
  "(string \<Rightarrow> bool) \<Rightarrow> nat \<Rightarrow> (nat \<Rightarrow> string + 'r) \<Rightarrow> nat \<Rightarrow> nat list \<Rightarrow> 'r attempts"
where
  "retry_loop is_retryable max_retries call attempt sleeps =
     (case call attempt of
        Inr r \<Rightarrow> (Inr r, Suc attempt, sleeps)
      | Inl exc \<Rightarrow>
          if attempt \<ge> max_retries \<or> \<not> is_retryable exc
          then (Inl exc, Suc attempt, sleeps)
          else retry_loop is_retryable max_retries call (Suc attempt)
                 (sleeps @ [min (2 ^ attempt) 4]))"
  by pat_completeness auto
termination
  by (relation "measure (\<lambda>(r, m, c, a, s). m - a)") auto

declare retry_loop.simps [simp del]

definition infer_claude_with_retries :: "(nat \<Rightarrow> string + 'r) \<Rightarrow> 'r attempts" where
  "infer_claude_with_retries call = retry_loop is_retryable_claude_error 2 call 0 []"

definition infer_codex_with_retries :: "(nat \<Rightarrow> string + 'r) \<Rightarrow> 'r attempts" where
  "infer_codex_with_retries call = retry_loop is_retryable_codex_error 2 call 0 []"

text \<open>
  \<open>infer_remote\<close> inside \<open>run_api\<close> calls \<open>_openai_infer_session\<close> or
  \<open>_anthropic_infer_session\<close> directly: one invocation, no sleep.
\<close>

definition infer_remote :: "(nat \<Rightarrow> string + 'r) \<Rightarrow> 'r attempts" where
  "infer_remote call = (call 0, 1, [])"

text \<open>The per-session inference that \<open>run_api\<close> selects for each provider.\<close>

definition run_api_infer :: "provider \<Rightarrow> (nat \<Rightarrow> string + 'r) \<Rightarrow> 'r attempts" where
  "run_api_infer p call =
     (if p = claude_cli then infer_claude_with_retries call
      else if p = codex_cli then infer_codex_with_retries call
      else infer_remote call)"


text \<open>A provider that times out twice and answers \<open>7\<close> from the third invocation on.\<close>

definition flaky_provider :: "nat \<Rightarrow> string + nat" where
  "flaky_provider k = (if k < 2 then Inl ''Network error: <urlopen error timed out>'' else Inr 7)"


section \<open>Unicode text\<close>

text \<open>
  A Python \<open>str\<close> that comes from JSON, from a conversation or from a prompt is the list
  of the code points of its characters (\<open>ord\<close>), from U+0000 to U+10FFFF, lone surrogates
  included. \<open>ustr\<close> reads an 8-bit
  literal as such a text. The tables below are those of the Unicode character database
  14.0.0, with which Python 3.11 computes \<open>str.lower\<close>, \<open>str.isprintable\<close> and the
  regular expression class \<open>\d\<close>; a range is given by its first and last code point.
\<close>

type_synonym utext = "int list"

definition ustr :: "string \<Rightarrow> utext" where
  "ustr s = map of_char s"

definition in_ranges :: "(int \<times> int) list \<Rightarrow> int \<Rightarrow> bool" where
  "in_ranges ranges c = list_ex (\<lambda>r. fst r \<le> c \<and> c \<le> snd r) ranges"

text \<open>Code points that \<open>str.isprintable\<close> rejects.\<close>

definition NONPRINTABLE_RANGES_1 :: "(int \<times> int) list" where
  "NONPRINTABLE_RANGES_1 =
    [(0, 31), (127, 160), (173, 173), (888, 889), (896, 899), (907, 907), (909, 909),
     (930, 930), (1328, 1328), (1367, 1368), (1419, 1420), (1424, 1424), (1480, 1487),
     (1515, 1518), (1525, 1541), (1564, 1564), (1757, 1757), (1806, 1807), (1867, 1868),
     (1970, 1983), (2043, 2044), (2094, 2095), (2111, 2111), (2140, 2141), (2143, 2143),
     (2155, 2159), (2191, 2199), (2274, 2274), (2436, 2436), (2445, 2446), (2449, 2450),
     (2473, 2473), (2481, 2481), (2483, 2485), (2490, 2491), (2501, 2502), (2505, 2506),
     (2511, 2518), (2520, 2523), (2526, 2526), (2532, 2533), (2559, 2560), (2564, 2564),
     (2571, 2574), (2577, 2578), (2601, 2601), (2609, 2609), (2612, 2612), (2615, 2615),
     (2618, 2619), (2621, 2621), (2627, 2630), (2633, 2634), (2638, 2640), (2642, 2648),
     (2653, 2653), (2655, 2661), (2679, 2688), (2692, 2692), (2702, 2702), (2706, 2706),
     (2729, 2729), (2737, 2737), (2740, 2740), (2746, 2747), (2758, 2758), (2762, 2762),
     (2766, 2767), (2769, 2783), (2788, 2789), (2802, 2808), (2816, 2816), (2820, 2820),
     (2829, 2830), (2833, 2834), (2857, 2857), (2865, 2865), (2868, 2868), (2874, 2875),
     (2885, 2886), (2889, 2890), (2894, 2900), (2904, 2907), (2910, 2910), (2916, 2917),
     (2936, 2945), (2948, 2948), (2955, 2957), (2961, 2961), (2966, 2968), (2971, 2971),
     (2973, 2973), (2976, 2978), (2981, 2983), (2987, 2989), (3002, 3005), (3011, 3013),
     (3017, 3017), (3022, 3023), (3025, 3030), (3032, 3045), (3067, 3071), (3085, 3085),
     (3089, 3089), (3113, 3113), (3130, 3131), (3141, 3141), (3145, 3145), (3150, 3156),
     (3159, 3159), (3163, 3164), (3166, 3167), (3172, 3173), (3184, 3190), (3213, 3213),
     (3217, 3217), (3241, 3241), (3252, 3252), (3258, 3259), (3269, 3269)]"

definition NONPRINTABLE_RANGES_2 :: "(int \<times> int) list" where
  "NONPRINTABLE_RANGES_2 =
    [(3273, 3273), (3278, 3284), (3287, 3292), (3295, 3295), (3300, 3301), (3312, 3312),
     (3315, 3327), (3341, 3341), (3345, 3345), (3397, 3397), (3401, 3401), (3408, 3411),
     (3428, 3429), (3456, 3456), (3460, 3460), (3479, 3481), (3506, 3506), (3516, 3516),
     (3518, 3519), (3527, 3529), (3531, 3534), (3541, 3541), (3543, 3543), (3552, 3557),
     (3568, 3569), (3573, 3584), (3643, 3646), (3676, 3712), (3715, 3715), (3717, 3717),
     (3723, 3723), (3748, 3748), (3750, 3750), (3774, 3775), (3781, 3781), (3783, 3783),
     (3790, 3791), (3802, 3803), (3808, 3839), (3912, 3912), (3949, 3952), (3992, 3992),
     (4029, 4029), (4045, 4045), (4059, 4095), (4294, 4294), (4296, 4300), (4302, 4303),
     (4681, 4681), (4686, 4687), (4695, 4695), (4697, 4697), (4702, 4703), (4745, 4745),
     (4750, 4751), (4785, 4785), (4790, 4791), (4799, 4799), (4801, 4801), (4806, 4807),
     (4823, 4823), (4881, 4881), (4886, 4887), (4955, 4956), (4989, 4991), (5018, 5023),
     (5110, 5111), (5118, 5119), (5760, 5760), (5789, 5791), (5881, 5887), (5910, 5918),
     (5943, 5951), (5972, 5983), (5997, 5997), (6001, 6001), (6004, 6015), (6110, 6111),
     (6122, 6127), (6138, 6143), (6158, 6158), (6170, 6175), (6265, 6271), (6315, 6319),
     (6390, 6399), (6431, 6431), (6444, 6447), (6460, 6463), (6465, 6467), (6510, 6511),
     (6517, 6527), (6572, 6575), (6602, 6607), (6619, 6621), (6684, 6685), (6751, 6751),
     (6781, 6782), (6794, 6799), (6810, 6815), (6830, 6831), (6863, 6911), (6989, 6991),
     (7039, 7039), (7156, 7163), (7224, 7226), (7242, 7244), (7305, 7311), (7355, 7356),
     (7368, 7375), (7419, 7423), (7958, 7959), (7966, 7967), (8006, 8007), (8014, 8015),
     (8024, 8024), (8026, 8026), (8028, 8028), (8030, 8030), (8062, 8063), (8117, 8117)]"

definition NONPRINTABLE_RANGES_3 :: "(int \<times> int) list" where
  "NONPRINTABLE_RANGES_3 =
    [(8133, 8133), (8148, 8149), (8156, 8156), (8176, 8177), (8181, 8181), (8191, 8207),
     (8232, 8239), (8287, 8303), (8306, 8307), (8335, 8335), (8349, 8351), (8385, 8399),
     (8433, 8447), (8588, 8591), (9255, 9279), (9291, 9311), (11124, 11125), (11158, 11158),
     (11508, 11512), (11558, 11558), (11560, 11564), (11566, 11567), (11624, 11630),
     (11633, 11646), (11671, 11679), (11687, 11687), (11695, 11695), (11703, 11703),
     (11711, 11711), (11719, 11719), (11727, 11727), (11735, 11735), (11743, 11743),
     (11870, 11903), (11930, 11930), (12020, 12031), (12246, 12271), (12284, 12288),
     (12352, 12352), (12439, 12440), (12544, 12548), (12592, 12592), (12687, 12687),
     (12772, 12783), (12831, 12831), (42125, 42127), (42183, 42191), (42540, 42559),
     (42744, 42751), (42955, 42959), (42962, 42962), (42964, 42964), (42970, 42993),
     (43053, 43055), (43066, 43071), (43128, 43135), (43206, 43213), (43226, 43231),
     (43348, 43358), (43389, 43391), (43470, 43470), (43482, 43485), (43519, 43519),
     (43575, 43583), (43598, 43599), (43610, 43611), (43715, 43738), (43767, 43776),
     (43783, 43784), (43791, 43792), (43799, 43807), (43815, 43815), (43823, 43823),
     (43884, 43887), (44014, 44015), (44026, 44031), (55204, 55215), (55239, 55242),
     (55292, 63743), (64110, 64111), (64218, 64255), (64263, 64274), (64280, 64284),
     (64311, 64311), (64317, 64317), (64319, 64319), (64322, 64322), (64325, 64325),
     (64451, 64466), (64912, 64913), (64968, 64974), (64976, 65007), (65050, 65055),
     (65107, 65107), (65127, 65127), (65132, 65135), (65141, 65141), (65277, 65280),
     (65471, 65473), (65480, 65481), (65488, 65489), (65496, 65497), (65501, 65503),
     (65511, 65511), (65519, 65531), (65534, 65535), (65548, 65548), (65575, 65575),
     (65595, 65595), (65598, 65598), (65614, 65615), (65630, 65663), (65787, 65791),
     (65795, 65798), (65844, 65846), (65935, 65935), (65949, 65951), (65953, 65999),
     (66046, 66175), (66205, 66207)]"

definition NONPRINTABLE_RANGES_4 :: "(int \<times> int) list" where
  "NONPRINTABLE_RANGES_4 =
    [(66257, 66271), (66300, 66303), (66340, 66348), (66379, 66383), (66427, 66431),
     (66462, 66462), (66500, 66503), (66518, 66559), (66718, 66719), (66730, 66735),
     (66772, 66775), (66812, 66815), (66856, 66863), (66916, 66926), (66939, 66939),
     (66955, 66955), (66963, 66963), (66966, 66966), (66978, 66978), (66994, 66994),
     (67002, 67002), (67005, 67071), (67383, 67391), (67414, 67423), (67432, 67455),
     (67462, 67462), (67505, 67505), (67515, 67583), (67590, 67591), (67593, 67593),
     (67638, 67638), (67641, 67643), (67645, 67646), (67670, 67670), (67743, 67750),
     (67760, 67807), (67827, 67827), (67830, 67834), (67868, 67870), (67898, 67902),
     (67904, 67967), (68024, 68027), (68048, 68049), (68100, 68100), (68103, 68107),
     (68116, 68116), (68120, 68120), (68150, 68151), (68155, 68158), (68169, 68175),
     (68185, 68191), (68256, 68287), (68327, 68330), (68343, 68351), (68406, 68408),
     (68438, 68439), (68467, 68471), (68498, 68504), (68509, 68520), (68528, 68607),
     (68681, 68735), (68787, 68799), (68851, 68857), (68904, 68911), (68922, 69215),
     (69247, 69247), (69290, 69290), (69294, 69295), (69298, 69375), (69416, 69423),
     (69466, 69487), (69514, 69551), (69580, 69599), (69623, 69631), (69710, 69713),
     (69750, 69758), (69821, 69821), (69827, 69839), (69865, 69871), (69882, 69887),
     (69941, 69941), (69960, 69967), (70007, 70015), (70112, 70112), (70133, 70143),
     (70162, 70162), (70207, 70271), (70279, 70279), (70281, 70281), (70286, 70286),
     (70302, 70302), (70314, 70319), (70379, 70383), (70394, 70399), (70404, 70404),
     (70413, 70414), (70417, 70418), (70441, 70441), (70449, 70449), (70452, 70452),
     (70458, 70458), (70469, 70470), (70473, 70474), (70478, 70479), (70481, 70486),
     (70488, 70492), (70500, 70501), (70509, 70511), (70517, 70655), (70748, 70748),
     (70754, 70783), (70856, 70863), (70874, 71039), (71094, 71095), (71134, 71167),
     (71237, 71247), (71258, 71263), (71277, 71295), (71354, 71359), (71370, 71423)]"

definition NONPRINTABLE_RANGES_5 :: "(int \<times> int) list" where
  "NONPRINTABLE_RANGES_5 =
    [(71451, 71452), (71468, 71471), (71495, 71679), (71740, 71839), (71923, 71934),
     (71943, 71944), (71946, 71947), (71956, 71956), (71959, 71959), (71990, 71990),
     (71993, 71994), (72007, 72015), (72026, 72095), (72104, 72105), (72152, 72153),
     (72165, 72191), (72264, 72271), (72355, 72367), (72441, 72703), (72713, 72713),
     (72759, 72759), (72774, 72783), (72813, 72815), (72848, 72849), (72872, 72872),
     (72887, 72959), (72967, 72967), (72970, 72970), (73015, 73017), (73019, 73019),
     (73022, 73022), (73032, 73039), (73050, 73055), (73062, 73062), (73065, 73065),
     (73103, 73103), (73106, 73106), (73113, 73119), (73130, 73439), (73465, 73647),
     (73649, 73663), (73714, 73726), (74650, 74751), (74863, 74863), (74869, 74879),
     (75076, 77711), (77811, 77823), (78895, 82943), (83527, 92159), (92729, 92735),
     (92767, 92767), (92778, 92781), (92863, 92863), (92874, 92879), (92910, 92911),
     (92918, 92927), (92998, 93007), (93018, 93018), (93026, 93026), (93048, 93052),
     (93072, 93759), (93851, 93951), (94027, 94030), (94088, 94094), (94112, 94175),
     (94181, 94191), (94194, 94207), (100344, 100351), (101590, 101631), (101641, 110575),
     (110580, 110580), (110588, 110588), (110591, 110591), (110883, 110927), (110931, 110947),
     (110952, 110959), (111356, 113663), (113771, 113775), (113789, 113791), (113801, 113807),
     (113818, 113819), (113824, 118527), (118574, 118575), (118599, 118607), (118724, 118783),
     (119030, 119039), (119079, 119080), (119155, 119162), (119275, 119295), (119366, 119519),
     (119540, 119551), (119639, 119647), (119673, 119807), (119893, 119893), (119965, 119965),
     (119968, 119969), (119971, 119972), (119975, 119976), (119981, 119981), (119994, 119994),
     (119996, 119996), (120004, 120004), (120070, 120070), (120075, 120076), (120085, 120085),
     (120093, 120093), (120122, 120122), (120127, 120127), (120133, 120133), (120135, 120137),
     (120145, 120145), (120486, 120487), (120780, 120781), (121484, 121498), (121504, 121504),
     (121520, 122623), (122655, 122879), (122887, 122887), (122905, 122906), (122914, 122914)]"

definition NONPRINTABLE_RANGES_6 :: "(int \<times> int) list" where
  "NONPRINTABLE_RANGES_6 =
    [(122917, 122917), (122923, 123135), (123181, 123183), (123198, 123199), (123210, 123213),
     (123216, 123535), (123567, 123583), (123642, 123646), (123648, 124895), (124903, 124903),
     (124908, 124908), (124911, 124911), (124927, 124927), (125125, 125126), (125143, 125183),
     (125260, 125263), (125274, 125277), (125280, 126064), (126133, 126208), (126270, 126463),
     (126468, 126468), (126496, 126496), (126499, 126499), (126501, 126502), (126504, 126504),
     (126515, 126515), (126520, 126520), (126522, 126522), (126524, 126529), (126531, 126534),
     (126536, 126536), (126538, 126538), (126540, 126540), (126544, 126544), (126547, 126547),
     (126549, 126550), (126552, 126552), (126554, 126554), (126556, 126556), (126558, 126558),
     (126560, 126560), (126563, 126563), (126565, 126566), (126571, 126571), (126579, 126579),
     (126584, 126584), (126589, 126589), (126591, 126591), (126602, 126602), (126620, 126624),
     (126628, 126628), (126634, 126634), (126652, 126703), (126706, 126975), (127020, 127023),
     (127124, 127135), (127151, 127152), (127168, 127168), (127184, 127184), (127222, 127231),
     (127406, 127461), (127491, 127503), (127548, 127551), (127561, 127567), (127570, 127583),
     (127590, 127743), (128728, 128732), (128749, 128751), (128765, 128767), (128884, 128895),
     (128985, 128991), (129004, 129007), (129009, 129023), (129036, 129039), (129096, 129103),
     (129114, 129119), (129160, 129167), (129198, 129199), (129202, 129279), (129620, 129631),
     (129646, 129647), (129653, 129655), (129661, 129663), (129671, 129679), (129709, 129711),
     (129723, 129727), (129734, 129743), (129754, 129759), (129768, 129775), (129783, 129791),
     (129939, 129939), (129995, 130031), (130042, 131071), (173792, 173823), (177977, 177983),
     (178206, 178207), (183970, 183983), (191457, 194559), (195102, 196607), (201547, 917759),
     (918000, 1114111)]"

definition NONPRINTABLE_RANGES :: "(int \<times> int) list" where
  "NONPRINTABLE_RANGES = NONPRINTABLE_RANGES_1 @ NONPRINTABLE_RANGES_2 @ NONPRINTABLE_RANGES_3 @ NONPRINTABLE_RANGES_4 @ NONPRINTABLE_RANGES_5 @ NONPRINTABLE_RANGES_6"

text \<open>Code points that are decimal digits.\<close>

definition DECIMAL_RANGES_1 :: "(int \<times> int) list" where
  "DECIMAL_RANGES_1 =
    [(48, 57), (1632, 1641), (1776, 1785), (1984, 1993), (2406, 2415), (2534, 2543),
     (2662, 2671), (2790, 2799), (2918, 2927), (3046, 3055), (3174, 3183), (3302, 3311),
     (3430, 3439), (3558, 3567), (3664, 3673), (3792, 3801), (3872, 3881), (4160, 4169),
     (4240, 4249), (6112, 6121), (6160, 6169), (6470, 6479), (6608, 6617), (6784, 6793),
     (6800, 6809), (6992, 7001), (7088, 7097), (7232, 7241), (7248, 7257), (42528, 42537),
     (43216, 43225), (43264, 43273), (43472, 43481), (43504, 43513), (43600, 43609),
     (44016, 44025), (65296, 65305), (66720, 66729), (68912, 68921), (69734, 69743),
     (69872, 69881), (69942, 69951), (70096, 70105), (70384, 70393), (70736, 70745),
     (70864, 70873), (71248, 71257), (71360, 71369), (71472, 71481), (71904, 71913),
     (72016, 72025), (72784, 72793), (73040, 73049), (73120, 73129), (92768, 92777),
     (92864, 92873), (93008, 93017), (120782, 120831), (123200, 123209), (123632, 123641),
     (125264, 125273), (130032, 130041)]"

definition DECIMAL_RANGES :: "(int \<times> int) list" where
  "DECIMAL_RANGES = DECIMAL_RANGES_1"

text \<open>Case-ignorable code points, and cased code points that are not case-ignorable.\<close>

definition CASE_IGNORABLE_RANGES_1 :: "(int \<times> int) list" where
  "CASE_IGNORABLE_RANGES_1 =
    [(39, 39), (46, 46), (58, 58), (94, 94), (96, 96), (168, 168), (173, 173), (175, 175),
     (180, 180), (183, 184), (688, 879), (884, 885), (890, 890), (900, 901), (903, 903),
     (1155, 1161), (1369, 1369), (1375, 1375), (1425, 1469), (1471, 1471), (1473, 1474),
     (1476, 1477), (1479, 1479), (1524, 1524), (1536, 1541), (1552, 1562), (1564, 1564),
     (1600, 1600), (1611, 1631), (1648, 1648), (1750, 1757), (1759, 1768), (1770, 1773),
     (1807, 1807), (1809, 1809), (1840, 1866), (1958, 1968), (2027, 2037), (2042, 2042),
     (2045, 2045), (2070, 2093), (2137, 2139), (2184, 2184), (2192, 2193), (2200, 2207),
     (2249, 2306), (2362, 2362), (2364, 2364), (2369, 2376), (2381, 2381), (2385, 2391),
     (2402, 2403), (2417, 2417), (2433, 2433), (2492, 2492), (2497, 2500), (2509, 2509),
     (2530, 2531), (2558, 2558), (2561, 2562), (2620, 2620), (2625, 2626), (2631, 2632),
     (2635, 2637), (2641, 2641), (2672, 2673), (2677, 2677), (2689, 2690), (2748, 2748),
     (2753, 2757), (2759, 2760), (2765, 2765), (2786, 2787), (2810, 2815), (2817, 2817),
     (2876, 2876), (2879, 2879), (2881, 2884), (2893, 2893), (2901, 2902), (2914, 2915),
     (2946, 2946), (3008, 3008), (3021, 3021), (3072, 3072), (3076, 3076), (3132, 3132),
     (3134, 3136), (3142, 3144), (3146, 3149), (3157, 3158), (3170, 3171), (3201, 3201),
     (3260, 3260), (3263, 3263), (3270, 3270), (3276, 3277), (3298, 3299), (3328, 3329),
     (3387, 3388), (3393, 3396), (3405, 3405), (3426, 3427), (3457, 3457), (3530, 3530),
     (3538, 3540), (3542, 3542), (3633, 3633), (3636, 3642), (3654, 3662), (3761, 3761),
     (3764, 3772), (3782, 3782), (3784, 3789), (3864, 3865), (3893, 3893), (3895, 3895),
     (3897, 3897), (3953, 3966), (3968, 3972)]"

definition CASE_IGNORABLE_RANGES_2 :: "(int \<times> int) list" where
  "CASE_IGNORABLE_RANGES_2 =
    [(3974, 3975), (3981, 3991), (3993, 4028), (4038, 4038), (4141, 4144), (4146, 4151),
     (4153, 4154), (4157, 4158), (4184, 4185), (4190, 4192), (4209, 4212), (4226, 4226),
     (4229, 4230), (4237, 4237), (4253, 4253), (4348, 4348), (4957, 4959), (5906, 5908),
     (5938, 5939), (5970, 5971), (6002, 6003), (6068, 6069), (6071, 6077), (6086, 6086),
     (6089, 6099), (6103, 6103), (6109, 6109), (6155, 6159), (6211, 6211), (6277, 6278),
     (6313, 6313), (6432, 6434), (6439, 6440), (6450, 6450), (6457, 6459), (6679, 6680),
     (6683, 6683), (6742, 6742), (6744, 6750), (6752, 6752), (6754, 6754), (6757, 6764),
     (6771, 6780), (6783, 6783), (6823, 6823), (6832, 6862), (6912, 6915), (6964, 6964),
     (6966, 6970), (6972, 6972), (6978, 6978), (7019, 7027), (7040, 7041), (7074, 7077),
     (7080, 7081), (7083, 7085), (7142, 7142), (7144, 7145), (7149, 7149), (7151, 7153),
     (7212, 7219), (7222, 7223), (7288, 7293), (7376, 7378), (7380, 7392), (7394, 7400),
     (7405, 7405), (7412, 7412), (7416, 7417), (7468, 7530), (7544, 7544), (7579, 7679),
     (8125, 8125), (8127, 8129), (8141, 8143), (8157, 8159), (8173, 8175), (8189, 8190),
     (8203, 8207), (8216, 8217), (8228, 8228), (8231, 8231), (8234, 8238), (8288, 8292),
     (8294, 8303), (8305, 8305), (8319, 8319), (8336, 8348), (8400, 8432), (11388, 11389),
     (11503, 11505), (11631, 11631), (11647, 11647), (11744, 11775), (11823, 11823),
     (12293, 12293), (12330, 12333), (12337, 12341), (12347, 12347), (12441, 12446),
     (12540, 12542), (40981, 40981), (42232, 42237), (42508, 42508), (42607, 42610),
     (42612, 42621), (42623, 42623), (42652, 42655), (42736, 42737), (42752, 42785),
     (42864, 42864), (42888, 42890), (42994, 42996), (43000, 43001), (43010, 43010),
     (43014, 43014), (43019, 43019), (43045, 43046), (43052, 43052), (43204, 43205)]"

definition CASE_IGNORABLE_RANGES_3 :: "(int \<times> int) list" where
  "CASE_IGNORABLE_RANGES_3 =
    [(43232, 43249), (43263, 43263), (43302, 43309), (43335, 43345), (43392, 43394),
     (43443, 43443), (43446, 43449), (43452, 43453), (43471, 43471), (43493, 43494),
     (43561, 43566), (43569, 43570), (43573, 43574), (43587, 43587), (43596, 43596),
     (43632, 43632), (43644, 43644), (43696, 43696), (43698, 43700), (43703, 43704),
     (43710, 43711), (43713, 43713), (43741, 43741), (43756, 43757), (43763, 43764),
     (43766, 43766), (43867, 43871), (43881, 43883), (44005, 44005), (44008, 44008),
     (44013, 44013), (64286, 64286), (64434, 64450), (65024, 65039), (65043, 65043),
     (65056, 65071), (65106, 65106), (65109, 65109), (65279, 65279), (65287, 65287),
     (65294, 65294), (65306, 65306), (65342, 65342), (65344, 65344), (65392, 65392),
     (65438, 65439), (65507, 65507), (65529, 65531), (66045, 66045), (66272, 66272),
     (66422, 66426), (67456, 67461), (67463, 67504), (67506, 67514), (68097, 68099),
     (68101, 68102), (68108, 68111), (68152, 68154), (68159, 68159), (68325, 68326),
     (68900, 68903), (69291, 69292), (69446, 69456), (69506, 69509), (69633, 69633),
     (69688, 69702), (69744, 69744), (69747, 69748), (69759, 69761), (69811, 69814),
     (69817, 69818), (69821, 69821), (69826, 69826), (69837, 69837), (69888, 69890),
     (69927, 69931), (69933, 69940), (70003, 70003), (70016, 70017), (70070, 70078),
     (70089, 70092), (70095, 70095), (70191, 70193), (70196, 70196), (70198, 70199),
     (70206, 70206), (70367, 70367), (70371, 70378), (70400, 70401), (70459, 70460),
     (70464, 70464), (70502, 70508), (70512, 70516), (70712, 70719), (70722, 70724),
     (70726, 70726), (70750, 70750), (70835, 70840), (70842, 70842), (70847, 70848),
     (70850, 70851), (71090, 71093), (71100, 71101), (71103, 71104), (71132, 71133),
     (71219, 71226), (71229, 71229), (71231, 71232), (71339, 71339), (71341, 71341),
     (71344, 71349), (71351, 71351), (71453, 71455), (71458, 71461), (71463, 71467),
     (71727, 71735), (71737, 71738), (71995, 71996), (71998, 71998), (72003, 72003)]"

definition CASE_IGNORABLE_RANGES_4 :: "(int \<times> int) list" where
  "CASE_IGNORABLE_RANGES_4 =
    [(72148, 72151), (72154, 72155), (72160, 72160), (72193, 72202), (72243, 72248),
     (72251, 72254), (72263, 72263), (72273, 72278), (72281, 72283), (72330, 72342),
     (72344, 72345), (72752, 72758), (72760, 72765), (72767, 72767), (72850, 72871),
     (72874, 72880), (72882, 72883), (72885, 72886), (73009, 73014), (73018, 73018),
     (73020, 73021), (73023, 73029), (73031, 73031), (73104, 73105), (73109, 73109),
     (73111, 73111), (73459, 73460), (78896, 78904), (92912, 92916), (92976, 92982),
     (92992, 92995), (94031, 94031), (94095, 94111), (94176, 94177), (94179, 94180),
     (110576, 110579), (110581, 110587), (110589, 110590), (113821, 113822), (113824, 113827),
     (118528, 118573), (118576, 118598), (119143, 119145), (119155, 119170), (119173, 119179),
     (119210, 119213), (119362, 119364), (121344, 121398), (121403, 121452), (121461, 121461),
     (121476, 121476), (121499, 121503), (121505, 121519), (122880, 122886), (122888, 122904),
     (122907, 122913), (122915, 122916), (122918, 122922), (123184, 123197), (123566, 123566),
     (123628, 123631), (125136, 125142), (125252, 125259), (127995, 127999), (917505, 917505),
     (917536, 917631), (917760, 917999)]"

definition CASE_IGNORABLE_RANGES :: "(int \<times> int) list" where
  "CASE_IGNORABLE_RANGES = CASE_IGNORABLE_RANGES_1 @ CASE_IGNORABLE_RANGES_2 @ CASE_IGNORABLE_RANGES_3 @ CASE_IGNORABLE_RANGES_4"

definition CASED_RANGES_1 :: "(int \<times> int) list" where
  "CASED_RANGES_1 =
    [(65, 90), (97, 122), (170, 170), (181, 181), (186, 186), (192, 214), (216, 246),
     (248, 442), (444, 447), (452, 659), (661, 687), (880, 883), (886, 887), (891, 893),
     (895, 895), (902, 902), (904, 906), (908, 908), (910, 929), (931, 1013), (1015, 1153),
     (1162, 1327), (1329, 1366), (1376, 1416), (4256, 4293), (4295, 4295), (4301, 4301),
     (4304, 4346), (4349, 4351), (5024, 5109), (5112, 5117), (7296, 7304), (7312, 7354),
     (7357, 7359), (7424, 7467), (7531, 7543), (7545, 7578), (7680, 7957), (7960, 7965),
     (7968, 8005), (8008, 8013), (8016, 8023), (8025, 8025), (8027, 8027), (8029, 8029),
     (8031, 8061), (8064, 8116), (8118, 8124), (8126, 8126), (8130, 8132), (8134, 8140),
     (8144, 8147), (8150, 8155), (8160, 8172), (8178, 8180), (8182, 8188), (8450, 8450),
     (8455, 8455), (8458, 8467), (8469, 8469), (8473, 8477), (8484, 8484), (8486, 8486),
     (8488, 8488), (8490, 8493), (8495, 8500), (8505, 8505), (8508, 8511), (8517, 8521),
     (8526, 8526), (8544, 8575), (8579, 8580), (9398, 9449), (11264, 11387), (11390, 11492),
     (11499, 11502), (11506, 11507), (11520, 11557), (11559, 11559), (11565, 11565),
     (42560, 42605), (42624, 42651), (42786, 42863), (42865, 42887), (42891, 42894),
     (42896, 42954), (42960, 42961), (42963, 42963), (42965, 42969), (42997, 42998),
     (43002, 43002), (43824, 43866), (43872, 43880), (43888, 43967), (64256, 64262),
     (64275, 64279), (65313, 65338), (65345, 65370), (66560, 66639), (66736, 66771),
     (66776, 66811), (66928, 66938), (66940, 66954), (66956, 66962), (66964, 66965),
     (66967, 66977), (66979, 66993), (66995, 67001), (67003, 67004), (68736, 68786),
     (68800, 68850), (71840, 71903), (93760, 93823), (119808, 119892), (119894, 119964),
     (119966, 119967), (119970, 119970), (119973, 119974), (119977, 119980), (119982, 119993)]"

definition CASED_RANGES_2 :: "(int \<times> int) list" where
  "CASED_RANGES_2 =
    [(119995, 119995), (119997, 120003), (120005, 120069), (120071, 120074), (120077, 120084),
     (120086, 120092), (120094, 120121), (120123, 120126), (120128, 120132), (120134, 120134),
     (120138, 120144), (120146, 120485), (120488, 120512), (120514, 120538), (120540, 120570),
     (120572, 120596), (120598, 120628), (120630, 120654), (120656, 120686), (120688, 120712),
     (120714, 120744), (120746, 120770), (120772, 120779), (122624, 122633), (122635, 122654),
     (125184, 125251), (127280, 127305), (127312, 127337), (127344, 127369)]"

definition CASED_RANGES :: "(int \<times> int) list" where
  "CASED_RANGES = CASED_RANGES_1 @ CASED_RANGES_2"

definition LOWER_RUNS_1 :: "(int \<times> int \<times> int \<times> int) list" where
  "LOWER_RUNS_1 =
    [(192, 214, 1, 224), (216, 222, 1, 248), (256, 302, 2, 257), (306, 310, 2, 307),
     (313, 327, 2, 314), (330, 374, 2, 331), (376, 376, 1, 255), (377, 381, 2, 378),
     (385, 385, 1, 595), (386, 388, 2, 387), (390, 390, 1, 596), (391, 391, 1, 392),
     (393, 394, 1, 598), (395, 395, 1, 396), (398, 398, 1, 477), (399, 399, 1, 601),
     (400, 400, 1, 603), (401, 401, 1, 402), (403, 403, 1, 608), (404, 404, 1, 611),
     (406, 406, 1, 617), (407, 407, 1, 616), (408, 408, 1, 409), (412, 412, 1, 623),
     (413, 413, 1, 626), (415, 415, 1, 629), (416, 420, 2, 417), (422, 422, 1, 640),
     (423, 423, 1, 424), (425, 425, 1, 643), (428, 428, 1, 429), (430, 430, 1, 648),
     (431, 431, 1, 432), (433, 434, 1, 650), (435, 437, 2, 436), (439, 439, 1, 658),
     (440, 440, 1, 441), (444, 444, 1, 445), (452, 452, 1, 454), (453, 453, 1, 454),
     (455, 455, 1, 457), (456, 456, 1, 457), (458, 458, 1, 460), (459, 475, 2, 460),
     (478, 494, 2, 479), (497, 497, 1, 499), (498, 500, 2, 499), (502, 502, 1, 405),
     (503, 503, 1, 447), (504, 542, 2, 505), (544, 544, 1, 414), (546, 562, 2, 547),
     (570, 570, 1, 11365), (571, 571, 1, 572), (573, 573, 1, 410), (574, 574, 1, 11366),
     (577, 577, 1, 578), (579, 579, 1, 384), (580, 580, 1, 649), (581, 581, 1, 652),
     (582, 590, 2, 583), (880, 882, 2, 881), (886, 886, 1, 887), (895, 895, 1, 1011),
     (902, 902, 1, 940), (904, 906, 1, 941), (908, 908, 1, 972), (910, 911, 1, 973),
     (913, 929, 1, 945), (931, 939, 1, 963), (975, 975, 1, 983), (984, 1006, 2, 985),
     (1012, 1012, 1, 952), (1015, 1015, 1, 1016), (1017, 1017, 1, 1010), (1018, 1018, 1, 1019),
     (1021, 1023, 1, 891), (1024, 1039, 1, 1104), (1040, 1071, 1, 1072), (1120, 1152, 2, 1121),
     (1162, 1214, 2, 1163), (1216, 1216, 1, 1231), (1217, 1229, 2, 1218),
     (1232, 1326, 2, 1233), (1329, 1366, 1, 1377), (4256, 4293, 1, 11520),
     (4295, 4295, 1, 11559), (4301, 4301, 1, 11565), (5024, 5103, 1, 43888),
     (5104, 5109, 1, 5112), (7312, 7354, 1, 4304), (7357, 7359, 1, 4349),
     (7680, 7828, 2, 7681), (7838, 7838, 1, 223), (7840, 7934, 2, 7841), (7944, 7951, 1, 7936),
     (7960, 7965, 1, 7952), (7976, 7983, 1, 7968), (7992, 7999, 1, 7984),
     (8008, 8013, 1, 8000), (8025, 8031, 2, 8017), (8040, 8047, 1, 8032),
     (8072, 8079, 1, 8064), (8088, 8095, 1, 8080), (8104, 8111, 1, 8096),
     (8120, 8121, 1, 8112), (8122, 8123, 1, 8048), (8124, 8124, 1, 8115),
     (8136, 8139, 1, 8050), (8140, 8140, 1, 8131), (8152, 8153, 1, 8144),
     (8154, 8155, 1, 8054), (8168, 8169, 1, 8160), (8170, 8171, 1, 8058),
     (8172, 8172, 1, 8165), (8184, 8185, 1, 8056), (8186, 8187, 1, 8060),
     (8188, 8188, 1, 8179), (8486, 8486, 1, 969), (8490, 8490, 1, 107)]"

definition LOWER_RUNS_2 :: "(int \<times> int \<times> int \<times> int) list" where
  "LOWER_RUNS_2 =
    [(8491, 8491, 1, 229), (8498, 8498, 1, 8526), (8544, 8559, 1, 8560), (8579, 8579, 1, 8580),
     (9398, 9423, 1, 9424), (11264, 11311, 1, 11312), (11360, 11360, 1, 11361),
     (11362, 11362, 1, 619), (11363, 11363, 1, 7549), (11364, 11364, 1, 637),
     (11367, 11371, 2, 11368), (11373, 11373, 1, 593), (11374, 11374, 1, 625),
     (11375, 11375, 1, 592), (11376, 11376, 1, 594), (11378, 11378, 1, 11379),
     (11381, 11381, 1, 11382), (11390, 11391, 1, 575), (11392, 11490, 2, 11393),
     (11499, 11501, 2, 11500), (11506, 11506, 1, 11507), (42560, 42604, 2, 42561),
     (42624, 42650, 2, 42625), (42786, 42798, 2, 42787), (42802, 42862, 2, 42803),
     (42873, 42875, 2, 42874), (42877, 42877, 1, 7545), (42878, 42886, 2, 42879),
     (42891, 42891, 1, 42892), (42893, 42893, 1, 613), (42896, 42898, 2, 42897),
     (42902, 42920, 2, 42903), (42922, 42922, 1, 614), (42923, 42923, 1, 604),
     (42924, 42924, 1, 609), (42925, 42925, 1, 620), (42926, 42926, 1, 618),
     (42928, 42928, 1, 670), (42929, 42929, 1, 647), (42930, 42930, 1, 669),
     (42931, 42931, 1, 43859), (42932, 42946, 2, 42933), (42948, 42948, 1, 42900),
     (42949, 42949, 1, 642), (42950, 42950, 1, 7566), (42951, 42953, 2, 42952),
     (42960, 42960, 1, 42961), (42966, 42968, 2, 42967), (42997, 42997, 1, 42998),
     (65313, 65338, 1, 65345), (66560, 66599, 1, 66600), (66736, 66771, 1, 66776),
     (66928, 66938, 1, 66967), (66940, 66954, 1, 66979), (66956, 66962, 1, 66995),
     (66964, 66965, 1, 67003), (68736, 68786, 1, 68800), (71840, 71871, 1, 71872),
     (93760, 93791, 1, 93792), (125184, 125217, 1, 125218)]"

definition LOWER_RUNS :: "(int \<times> int \<times> int \<times> int) list" where
  "LOWER_RUNS = LOWER_RUNS_1 @ LOWER_RUNS_2"

text \<open>
  \<open>LOWER_RUNS\<close> holds the code points above U+007F whose lower case is one other code
  point: \<open>(lo, hi, step, target)\<close> maps \<open>lo\<close>, \<open>lo + step\<close>, ... up to \<open>hi\<close> to
  \<open>target\<close>, \<open>target + step\<close>, ... The ranges \<open>CASE_IGNORABLE_RANGES\<close> and \<open>CASED_RANGES\<close>
  (cased and not case-ignorable) decide the lower case of U+03A3.
\<close>

definition uisspace :: "int \<Rightarrow> bool" where
  "uisspace c =
     in_ranges [(9, 13), (28, 32), (133, 133), (160, 160), (5760, 5760), (8192, 8202),
                (8232, 8233), (8239, 8239), (8287, 8287), (12288, 12288)] c"

text \<open>\<open>str.strip()\<close>.\<close>

definition ustrip :: "utext \<Rightarrow> utext" where
  "ustrip s = rev (dropWhile uisspace (rev (dropWhile uisspace s)))"

definition uisprintable :: "int \<Rightarrow> bool" where
  "uisprintable c = (\<not> in_ranges NONPRINTABLE_RANGES c)"

definition uisdecimal :: "int \<Rightarrow> bool" where
  "uisdecimal c = in_ranges DECIMAL_RANGES c"

definition lower_run :: "int \<Rightarrow> int \<times> int \<times> int \<times> int \<Rightarrow> bool" where
  "lower_run c r =
     (case r of (lo, hi, step, target) \<Rightarrow> lo \<le> c \<and> c \<le> hi \<and> (c - lo) mod step = 0)"

text \<open>The lower case of one code point other than U+03A3; U+0130 gives two code points.\<close>

definition lower_full :: "int \<Rightarrow> utext" where
  "lower_full c =
     (if c < 128 then [if 65 \<le> c \<and> c \<le> 90 then c + 32 else c]
      else if c = 304 then [105, 775]
      else (case find (lower_run c) LOWER_RUNS of
              Some (lo, hi, step, target) \<Rightarrow> [target + (c - lo)]
            | None \<Rightarrow> [c]))"

text \<open>
  U+03A3 becomes U+03C2 when it ends a word: the nearest code point before it that is
  not case-ignorable is cased, and the nearest one after it that is not case-ignorable, if
  there is one, is not cased. \<open>before\<close> is the text before it, nearest code point first.
\<close>

definition final_sigma :: "utext \<Rightarrow> utext \<Rightarrow> bool" where
  "final_sigma before after =
     (case dropWhile (in_ranges CASE_IGNORABLE_RANGES) before of
        [] \<Rightarrow> False
      | b # bs \<Rightarrow>
          in_ranges CASED_RANGES b
          \<and> (case dropWhile (in_ranges CASE_IGNORABLE_RANGES) after of
                [] \<Rightarrow> True
              | a # as \<Rightarrow> \<not> in_ranges CASED_RANGES a))"

fun lower_from :: "utext \<Rightarrow> utext \<Rightarrow> utext" where
  "lower_from before [] = []"
| "lower_from before (c # after) =
     (if c = 931 then [if final_sigma before after then 962 else 963] else lower_full c)
     @ lower_from (c # before) after"

text \<open>\<open>str.lower()\<close>.\<close>

definition ulower :: "utext \<Rightarrow> utext" where
  "ulower s = lower_from [] s"

section \<open>Decoded JSON values\<close>

text \<open>
  What \<open>json.loads\<close> returns. A \<open>dict\<close> is an association list in insertion order
  (keys distinct; a lookup takes the first entry). A \<open>float\<close> is carried as the text Python
  prints for it (\<open>repr\<close>, for example \<open>0.7\<close>), which identifies the float.
\<close>

datatype json =
    JNull
  | JBool bool
  | JInt int
  | JFloat string
  | JStr utext
  | JList "json list"
  | JObj "(utext \<times> json) list"

type_synonym pydict = "(utext \<times> json) list"

text \<open>A string value and a \<open>dict\<close> written with 8-bit literals.\<close>

abbreviation JS :: "string \<Rightarrow> json" where
  "JS s \<equiv> JStr (ustr s)"

definition obj :: "(string \<times> json) list \<Rightarrow> pydict" where
  "obj entries = map (\<lambda>kv. (ustr (fst kv), snd kv)) entries"

datatype pyerr =
    AttributeError | TypeError | ValueError string | OverflowError | RuntimeError utext
  | OSError | UnicodeEncodeError | UnicodeDecodeError

text \<open>\<open>d.get(k)\<close>, \<open>k in d\<close>, \<open>d[k] = v\<close> and \<open>d.setdefault(k, v)\<close> for a literal key \<open>k\<close>.
  In \<open>d[k] = v\<close> an existing key keeps its place and a new key goes to the end.\<close>

definition dict_get :: "pydict \<Rightarrow> string \<Rightarrow> json" where
  "dict_get d k = (case map_of d (ustr k) of Some v \<Rightarrow> v | None \<Rightarrow> JNull)"

definition dict_has :: "pydict \<Rightarrow> string \<Rightarrow> bool" where
  "dict_has d k = (map_of d (ustr k) \<noteq> None)"

fun dict_put :: "pydict \<Rightarrow> utext \<Rightarrow> json \<Rightarrow> pydict" where
  "dict_put [] k v = [(k, v)]"
| "dict_put ((k', v') # d) k v = (if k' = k then (k, v) # d else (k', v') # dict_put d k v)"

definition dict_set :: "pydict \<Rightarrow> string \<Rightarrow> json \<Rightarrow> pydict" where
  "dict_set d k v = dict_put d (ustr k) v"

definition dict_setdefault :: "pydict \<Rightarrow> string \<Rightarrow> json \<Rightarrow> pydict" where
  "dict_setdefault d k v = (if dict_has d k then d else dict_set d k v)"

text \<open>Truthiness, as \<open>x or y\<close>, \<open>not x\<close> and \<open>if x\<close> test it.\<close>

fun truthy :: "json \<Rightarrow> bool" where
  "truthy JNull = False"
| "truthy (JBool b) = b"
| "truthy (JInt i) = (i \<noteq> 0)"
| "truthy (JFloat r) = (r \<noteq> ''0.0'' \<and> r \<noteq> ''-0.0'')"
| "truthy (JStr s) = (s \<noteq> [])"
| "truthy (JList xs) = (xs \<noteq> [])"
| "truthy (JObj d) = (d \<noteq> [])"

definition py_or :: "json \<Rightarrow> json \<Rightarrow> json" where
  "py_or a b = (if truthy a then a else b)"

fun is_str :: "json \<Rightarrow> bool" where
  "is_str (JStr s) = True"
| "is_str v = False"

text \<open>\<open>isinstance(x, int)\<close>: \<open>bool\<close> is a subclass of \<open>int\<close>.\<close>

fun is_int :: "json \<Rightarrow> bool" where
  "is_int (JInt i) = True"
| "is_int (JBool b) = True"
| "is_int v = False"

fun int_value :: "json \<Rightarrow> int" where
  "int_value (JInt i) = i"
| "int_value (JBool b) = (if b then 1 else 0)"
| "int_value v = 0"

fun is_number :: "json \<Rightarrow> bool" where
  "is_number (JFloat r) = True"
| "is_number v = is_int v"

fun is_list :: "json \<Rightarrow> bool" where
  "is_list (JList xs) = True"
| "is_list v = False"

fun is_dict :: "json \<Rightarrow> bool" where
  "is_dict (JObj d) = True"
| "is_dict v = False"

text \<open>\<open>isinstance(x, str) and x.strip()\<close>.\<close>

fun nonblank_str :: "json \<Rightarrow> bool" where
  "nonblank_str (JStr s) = (ustrip s \<noteq> [])"
| "nonblank_str v = False"

text \<open>\<open>isinstance(x, int) and x > 0\<close>.\<close>

definition positive_int :: "json \<Rightarrow> bool" where
  "positive_int v = (is_int v \<and> int_value v > 0)"

subsection \<open>\<open>str()\<close> and \<open>repr()\<close>\<close>

definition digit_char :: "nat \<Rightarrow> char" where
  "digit_char d = char_of (48 + d)"

fun show_nat :: "nat \<Rightarrow> string" where
  "show_nat n = (if n < 10 then [digit_char n] else show_nat (n div 10) @ [digit_char (n mod 10)])"

declare show_nat.simps [simp del]

definition show_int :: "int \<Rightarrow> string" where
  "show_int i = (if i < 0 then CHR ''-'' # show_nat (nat (- i)) else show_nat (nat i))"

definition hex_digit :: "int \<Rightarrow> int" where
  "hex_digit d = (if d < 10 then 48 + d else 87 + d)"

text \<open>\<open>width\<close> hexadecimal digits of \<open>n\<close>, most significant first.\<close>

fun hex_digits :: "nat \<Rightarrow> int \<Rightarrow> utext" where
  "hex_digits 0 n = []"
| "hex_digits (Suc width) n = hex_digits width (n div 16) @ [hex_digit (n mod 16)]"

text \<open>
  One code point inside \<open>repr\<close> of a string quoted with \<open>q\<close>: the quote and the backslash
  are escaped, so are tab, line feed and carriage return, and a code point that is not
  printable is written \<open>\xhh\<close>, \<open>\uhhhh\<close> or \<open>\Uhhhhhhhh\<close>.
\<close>

definition repr_char :: "int \<Rightarrow> int \<Rightarrow> utext" where
  "repr_char q c =
     (if c = q \<or> c = 92 then [92, c]
      else if c = 9 then [92, 116]
      else if c = 10 then [92, 110]
      else if c = 13 then [92, 114]
      else if c < 32 \<or> c = 127 then [92, 120] @ hex_digits 2 c
      else if c < 127 then [c]
      else if uisprintable c then [c]
      else if c < 256 then [92, 120] @ hex_digits 2 c
      else if c < 65536 then [92, 117] @ hex_digits 4 c
      else [92, 85] @ hex_digits 8 c)"

text \<open>The quote is \<open>"\<close> when the text holds \<open>'\<close> and no \<open>"\<close>, and \<open>'\<close> otherwise.\<close>

definition repr_str :: "utext \<Rightarrow> utext" where
  "repr_str s =
     (let q = (if 39 \<in> set s \<and> 34 \<notin> set s then 34 else 39)
      in q # concat (map (repr_char q) s) @ [q])"

fun join :: "'a list \<Rightarrow> 'a list list \<Rightarrow> 'a list" where
  "join sep [] = []"
| "join sep [x] = x"
| "join sep (x # y # ys) = x @ sep @ join sep (y # ys)"

fun py_repr :: "json \<Rightarrow> utext" where
  "py_repr JNull = ustr ''None''"
| "py_repr (JBool b) = (if b then ustr ''True'' else ustr ''False'')"
| "py_repr (JInt i) = ustr (show_int i)"
| "py_repr (JFloat r) = ustr r"
| "py_repr (JStr s) = repr_str s"
| "py_repr (JList xs) = ustr ''['' @ join (ustr '', '') (map py_repr xs) @ ustr '']''"
| "py_repr (JObj d) =
     ustr ''{''
     @ join (ustr '', '') (map (\<lambda>kv. repr_str (fst kv) @ ustr '': '' @ py_repr (snd kv)) d)
     @ ustr ''}''"

fun py_str :: "json \<Rightarrow> utext" where
  "py_str (JStr s) = s"
| "py_str v = py_repr v"

text \<open>\<open>str(x or "")\<close>.\<close>

definition str_or_empty :: "json \<Rightarrow> utext" where
  "str_or_empty v = (if truthy v then py_str v else [])"

section \<open>Dimension registry (incremental_dimensions.py)\<close>

definition DIMENSION_LAYER_PAIRS :: "(string \<times> string) list" where
  "DIMENSION_LAYER_PAIRS =
     [(''incremental-trigger-chains'', ''L2''),
      (''incremental-first-pass-diagnostics'', ''L2''),
      (''incremental-coverage-gap'', ''L2''),
      (''incremental-task-stratification'', ''L2''),
      (''incremental-root-causes'', ''L3''),
      (''incremental-change-delta'', ''L3''),
      (''incremental-interventions'', ''L3''),
      (''incremental-intervention-impact'', ''L3''),
      (''incremental-validation-loop'', ''L3''),
      (''incremental-reuse-assets'', ''L3''),
      (''incremental-compounding'', ''L3'')]"

definition DIMENSION_LAYER_MAP :: "utext \<Rightarrow> utext option" where
  "DIMENSION_LAYER_MAP = map_of (map (\<lambda>pair. (ustr (fst pair), ustr (snd pair))) DIMENSION_LAYER_PAIRS)"

text \<open>The argument is a \<open>str\<close> at every call site, so \<open>str(dimension or "")\<close> is the argument.\<close>

definition is_supported_dimension :: "utext \<Rightarrow> bool" where
  "is_supported_dimension dimension = (DIMENSION_LAYER_MAP (ustrip dimension) \<noteq> None)"

section \<open>Contract validator (diagnose_helper.py)\<close>

definition SESSION_SCHEMA :: string where
  "SESSION_SCHEMA = ''session-mechanism.v1''"

definition INCREMENTAL_SCHEMA :: string where
  "INCREMENTAL_SCHEMA = ''incremental-mechanism.v1''"

definition PLACEHOLDER_TOKENS :: "string list" where
  "PLACEHOLDER_TOKENS =
     [''placeholder'', ''insufficient-evidence'', ''no validated'',
      ''need more session mechanism outputs'', ''collect-more-session-insights'', ''tbd'',
      ''trigger-missing'', ''action-missing'', ''root-cause-missing'', ''gain-missing'',
      ''window-missing'']"

definition DISALLOWED_GENERATED_BY_ENGINES :: "string list" where
  "DISALLOWED_GENERATED_BY_ENGINES = [''manual'', ''mock'', ''template'']"

definition DISALLOWED_GENERATED_BY_PROVIDERS :: "string list" where
  "DISALLOWED_GENERATED_BY_PROVIDERS =
     [''skill-manual'', ''manual'', ''mock'', ''api-mock'', ''template'']"

definition DISALLOWED_RUN_ID_TOKENS :: "string list" where
  "DISALLOWED_RUN_ID_TOKENS = [''replace-mock-sidecars'', ''mock-sidecar'', ''mock-backfill'']"

definition MAX_DETAIL_LINES_PER_REPORT :: nat where
  "MAX_DETAIL_LINES_PER_REPORT = 80"

text \<open>
  Searching a regular expression that is a sequence of one-character classes: the text
  matches at its start, or somewhere later.
\<close>

fun match_here :: "(int \<Rightarrow> bool) list \<Rightarrow> utext \<Rightarrow> bool" where
  "match_here [] s = True"
| "match_here (cls # pattern) [] = False"
| "match_here (cls # pattern) (c # s) = (cls c \<and> match_here pattern s)"

fun re_search :: "(int \<Rightarrow> bool) list \<Rightarrow> utext \<Rightarrow> bool" where
  "re_search pattern [] = match_here pattern []"
| "re_search pattern (c # s) = (match_here pattern (c # s) \<or> re_search pattern s)"

text \<open>
  The characters a letter of the pattern matches under \<open>re.IGNORECASE\<close>: its two cases,
  for \<open>s\<close> also U+017F, for \<open>i\<close> also U+0130 and U+0131. Another character matches
  itself only.
\<close>

definition ignore_case :: "char \<Rightarrow> int \<Rightarrow> bool" where
  "ignore_case p c =
     (let n = (of_char p :: int)
      in if 97 \<le> n \<and> n \<le> 122
         then c = n \<or> c + 32 = n \<or> (p = CHR ''s'' \<and> c = 383)
              \<or> (p = CHR ''i'' \<and> (c = 304 \<or> c = 305))
         else c = n)"

text \<open>
  \<open>_EVIDENCE_DUMP_PATTERN.search(line)\<close> for the pattern
  \<open>(#t\d+|session[_-]?id|...)\<close> with \<open>re.IGNORECASE\<close>, whose last two alternatives are
  U+4E3B U+8BC1 U+636E and U+8F85 U+52A9 U+8BC1 U+636E, each followed by a colon, U+003A
  or U+FF1A. \<open>#t\d+\<close> is found where \<open>#t\<close> and one decimal digit are.
\<close>

definition evidence_dump_search :: "utext \<Rightarrow> bool" where
  "evidence_dump_search line =
     (let colon = (\<lambda>c. c = 58 \<or> c = 65306);
          separator = (\<lambda>c. c = 95 \<or> c = 45)
      in re_search (map ignore_case ''#t'' @ [uisdecimal]) line
         \<or> re_search (map ignore_case ''sessionid'') line
         \<or> re_search (map ignore_case ''session'' @ [separator] @ map ignore_case ''id'') line
         \<or> re_search (map (\<lambda>p c. c = p) [20027, 35777, 25454] @ [colon]) line
         \<or> re_search (map (\<lambda>p c. c = p) [36741, 21161, 35777, 25454] @ [colon]) line)"

text \<open>Both call sites pass a \<open>str\<close>, so \<open>str(text or "")\<close> is the argument.\<close>

definition contains_placeholder :: "utext \<Rightarrow> bool" where
  "contains_placeholder text =
     (let content = ulower (ustrip text)
      in if content = [] then True
         else list_ex (\<lambda>token. py_in (ustr token) content) PLACEHOLDER_TOKENS)"

definition generated_by_block_reason :: "json \<Rightarrow> utext option" where
  "generated_by_block_reason generated_by =
     (case generated_by of
        JObj g \<Rightarrow>
          (let engine = ulower (ustrip (str_or_empty (dict_get g ''engine'')));
               provider = ulower (ustrip (str_or_empty (dict_get g ''provider'')));
               run_id = ulower (ustrip (str_or_empty (dict_get g ''run_id'')))
           in if engine \<in> set (map ustr DISALLOWED_GENERATED_BY_ENGINES)
                then Some (ustr ''generated_by.engine='' @ engine @ ustr '' is not allowed'')
              else if provider \<in> set (map ustr DISALLOWED_GENERATED_BY_PROVIDERS)
                then Some (ustr ''generated_by.provider='' @ provider @ ustr '' is not allowed'')
              else if list_ex (\<lambda>token. py_in (ustr token) run_id) DISALLOWED_RUN_ID_TOKENS
                then Some (ustr ''generated_by.run_id contains blocked token: '' @ run_id)
              else None)
      | _ \<Rightarrow> None)"

text \<open>
  \<open>tier not in {"primary", "supporting"}\<close> hashes \<open>tier\<close>: a \<open>list\<close> or a \<open>dict\<close> there
  raises \<open>TypeError: unhashable type\<close>.
\<close>

definition validate_evidence :: "pydict \<Rightarrow> nat \<Rightarrow> pyerr + utext list" where
  "validate_evidence evidence index =
     (let session_id = dict_get evidence ''session_id'';
          turn_id = dict_get evidence ''turn_id'';
          snippet = dict_get evidence ''snippet'';
          at = ustr ''evidence['' @ ustr (show_nat index) @ ustr '']'';
          errors =
            (if \<not> nonblank_str session_id then [at @ ustr ''.session_id must be non-empty string'']
             else [])
            @ (if \<not> positive_int turn_id then [at @ ustr ''.turn_id must be positive integer'']
               else [])
            @ (if \<not> nonblank_str snippet then [at @ ustr ''.snippet must be non-empty string'']
               else []);
          tier = dict_get evidence ''tier''
      in if tier = JNull then Inr errors
         else if is_list tier \<or> is_dict tier then Inl TypeError
         else if tier \<noteq> JS ''primary'' \<and> tier \<noteq> JS ''supporting''
           then Inr (errors
                  @ [at @ ustr ''.tier must be '' @ ustr [CHR 0x27] @ ustr ''primary'' @ ustr [CHR 0x27] @ ustr '' or ''
                     @ ustr [CHR 0x27] @ ustr ''supporting'' @ ustr [CHR 0x27] @ ustr '' when present''])
         else Inr errors)"

text \<open>The loop over \<open>enumerate(evidence)\<close> of one \<open>why\<close> item.\<close>

fun validate_evidence_items :: "nat \<Rightarrow> nat \<Rightarrow> json list \<Rightarrow> pyerr + utext list" where
  "validate_evidence_items idx ev_idx [] = Inr []"
| "validate_evidence_items idx ev_idx (ev # evs) =
     (case (case ev of
              JObj e \<Rightarrow> validate_evidence e ev_idx
            | _ \<Rightarrow> Inr [ustr ''why['' @ ustr (show_nat idx) @ ustr ''].evidence['' @ ustr (show_nat ev_idx)
                          @ ustr ''] must be object''])
      of Inl exc \<Rightarrow> Inl exc
       | Inr errs \<Rightarrow>
           (case validate_evidence_items idx (Suc ev_idx) evs of
              Inl exc \<Rightarrow> Inl exc
            | Inr rest \<Rightarrow> Inr (errs @ rest)))"

definition validate_why_item :: "nat \<Rightarrow> json \<Rightarrow> pyerr + utext list" where
  "validate_why_item idx item =
     (case item of
        JObj w \<Rightarrow>
          (let at = ustr ''why['' @ ustr (show_nat idx) @ ustr '']'';
               confidence = dict_get w ''confidence'';
               evidence = dict_get w ''evidence'';
               errors =
                 (if \<not> nonblank_str (dict_get w ''hypothesis'')
                  then [at @ ustr ''.hypothesis must be non-empty string''] else [])
                 @ (if confidence \<noteq> JNull \<and> \<not> is_number confidence
                    then [at @ ustr ''.confidence must be number when present''] else [])
           in case evidence of
                JList (ev # evs) \<Rightarrow>
                  (case validate_evidence_items idx 0 (ev # evs) of
                     Inl exc \<Rightarrow> Inl exc
                   | Inr errs \<Rightarrow> Inr (errors @ errs))
              | _ \<Rightarrow> Inr (errors @ [at @ ustr ''.evidence must be non-empty list'']))
      | _ \<Rightarrow> Inr [ustr ''why['' @ ustr (show_nat idx) @ ustr ''] must be object''])"

fun validate_why_items :: "nat \<Rightarrow> json list \<Rightarrow> pyerr + utext list" where
  "validate_why_items idx [] = Inr []"
| "validate_why_items idx (item # items) =
     (case validate_why_item idx item of
        Inl exc \<Rightarrow> Inl exc
      | Inr errs \<Rightarrow>
          (case validate_why_items (Suc idx) items of
             Inl exc \<Rightarrow> Inl exc
           | Inr rest \<Rightarrow> Inr (errs @ rest)))"

definition validate_action :: "nat \<Rightarrow> json \<Rightarrow> utext list" where
  "validate_action idx action =
     (case action of
        JObj a \<Rightarrow>
          concat (map (\<lambda>key. if \<not> nonblank_str (dict_get a key)
                              then [ustr ''how_to_improve['' @ ustr (show_nat idx) @ ustr ''].'' @ ustr key
                                    @ ustr '' must be non-empty string'']
                              else [])
                   [''trigger'', ''action'', ''expected_gain'', ''validation_window''])
      | _ \<Rightarrow> [ustr ''how_to_improve['' @ ustr (show_nat idx) @ ustr ''] must be object''])"

fun validate_actions :: "nat \<Rightarrow> json list \<Rightarrow> utext list" where
  "validate_actions idx [] = []"
| "validate_actions idx (action # actions) =
     validate_action idx action @ validate_actions (Suc idx) actions"

definition validate_generated_by :: "json \<Rightarrow> utext list" where
  "validate_generated_by generated_by =
     (case generated_by of
        JObj g \<Rightarrow>
          concat (map (\<lambda>key. if \<not> nonblank_str (dict_get g key)
                              then [ustr ''generated_by.'' @ ustr key @ ustr '' must be non-empty string'']
                              else [])
                   [''engine'', ''provider'', ''model'', ''run_id'', ''generated_at''])
          @ (case generated_by_block_reason generated_by of
               Some block_reason \<Rightarrow> [ustr ''generated_by is blocked: '' @ block_reason]
             | None \<Rightarrow> [])
      | _ \<Rightarrow> [ustr ''generated_by must be object''])"

text \<open>
  \<open>validate_session_mechanism(payload)\<close>. Every access is \<open>payload.get(...)\<close>, which raises
  \<open>AttributeError\<close> when the decoded payload is not a \<open>dict\<close>.
\<close>

definition validate_session_mechanism :: "json \<Rightarrow> pyerr + utext list" where
  "validate_session_mechanism payload =
     (case payload of
        JObj p \<Rightarrow>
          (let week = dict_get p ''week'';
               period_id = dict_get p ''period_id'';
               what_happened = dict_get p ''what_happened'';
               why_items = dict_get p ''why'';
               actions = dict_get p ''how_to_improve'';
               labels = dict_get p ''labels'';
               head =
                 (if dict_get p ''schema_version'' \<noteq> JS SESSION_SCHEMA
                  then [ustr ''schema_version must be '' @ ustr [CHR 0x27] @ ustr SESSION_SCHEMA @ ustr [CHR 0x27]]
                  else [])
                 @ (if \<not> nonblank_str (dict_get p ''session_id'')
                    then [ustr ''session_id must be non-empty string''] else [])
                 @ (if \<not> nonblank_str (dict_get p ''created_at'')
                    then [ustr ''created_at must be non-empty string''] else [])
                 @ (if week \<noteq> JNull \<and> \<not> nonblank_str week
                    then [ustr ''week must be non-empty string when present''] else [])
                 @ (if period_id \<noteq> JNull \<and> \<not> nonblank_str period_id
                    then [ustr ''period_id must be non-empty string when present''] else [])
                 @ (if is_list what_happened \<and> truthy what_happened then []
                    else [ustr ''what_happened must be non-empty list'']);
               tail =
                 (case actions of
                    JList (a # as) \<Rightarrow> validate_actions 0 (a # as)
                  | _ \<Rightarrow> [ustr ''how_to_improve must be non-empty list''])
                 @ (if labels \<noteq> JNull \<and> \<not> is_list labels
                    then [ustr ''labels must be list when present''] else [])
                 @ (if \<not> nonblank_str (dict_get p ''summary'')
                    then [ustr ''summary must be non-empty string''] else [])
                 @ validate_generated_by (dict_get p ''generated_by'')
           in case (case why_items of
                      JList (w # ws) \<Rightarrow> validate_why_items 0 (w # ws)
                    | _ \<Rightarrow> Inr [ustr ''why must be non-empty list''])
              of Inl exc \<Rightarrow> Inl exc
               | Inr why_errors \<Rightarrow> Inr (head @ why_errors @ tail))
      | _ \<Rightarrow> Inl AttributeError)"


definition supported_dimensions_text :: utext where
  "supported_dimensions_text = ustr (join '', '' (sort (map fst DIMENSION_LAYER_PAIRS)))"

text \<open>
  The checks of \<open>detail_lines\<close> and \<open>detail_text\<close> of one report. The ratio test
  \<open>evidence_like / len(normalized_lines) >= 0.7\<close> is written over the integers.
\<close>

definition validate_report_details :: "nat \<Rightarrow> pydict \<Rightarrow> utext list" where
  "validate_report_details idx item =
     (let at = ustr ''reports['' @ ustr (show_nat idx) @ ustr '']'';
          detail_lines = dict_get item ''detail_lines'';
          detail_text = dict_get item ''detail_text'';
          has_lines = (case detail_lines of JList ls \<Rightarrow> list_ex nonblank_str ls | _ \<Rightarrow> False);
          has_text = nonblank_str detail_text
      in (if \<not> has_lines \<and> \<not> has_text
          then [at @ ustr '' requires detail_lines or detail_text''] else [])
         @ (case detail_lines of
              JList ls \<Rightarrow>
                (let normalized_lines = map (\<lambda>line. ustrip (py_str line)) (filter nonblank_str ls);
                     n = length normalized_lines;
                     evidence_like = length (filter evidence_dump_search normalized_lines)
                 in (if n > MAX_DETAIL_LINES_PER_REPORT
                     then [at @ ustr ''.detail_lines has '' @ ustr (show_nat n)
                           @ ustr '' lines; expected aggregated insights <= ''
                           @ ustr (show_nat MAX_DETAIL_LINES_PER_REPORT)]
                     else [])
                    @ (if n \<ge> 20 \<and> 10 * evidence_like \<ge> 7 * n
                       then [at @ ustr '' looks like per-session evidence dump; ''
                             @ ustr ''aggregate into mechanism-level insights'']
                       else []))
            | _ \<Rightarrow> []))"

text \<open>
  The body of the loop over \<open>enumerate(reports)\<close> for an item that is a \<open>dict\<close>: the errors
  it appends and the updated set \<open>seen_report_keys\<close> (a list without duplicates).
\<close>

definition validate_report ::
  "json \<Rightarrow> json \<Rightarrow> nat \<Rightarrow> (utext \<times> utext) list \<Rightarrow> pydict
     \<Rightarrow> utext list \<times> (utext \<times> utext) list"
where
  "validate_report period_id week idx seen item =
     (let at = ustr ''reports['' @ ustr (show_nat idx) @ ustr '']'';
          required =
            concat (map (\<lambda>key. if \<not> nonblank_str (dict_get item key)
                                then [at @ ustr ''.'' @ ustr key @ ustr '' must be non-empty string'']
                                else [])
                     [''dimension'', ''layer'', ''title'', ''key_insights'']);
          dimension = ustrip (str_or_empty (dict_get item ''dimension''));
          layer = ustrip (str_or_empty (dict_get item ''layer''));
          unsupported =
            (if dimension \<noteq> [] \<and> \<not> is_supported_dimension dimension
             then [at @ ustr ''.dimension must be one of ['' @ supported_dimensions_text @ ustr '']'']
             else []);
          mismatch =
            (case DIMENSION_LAYER_MAP dimension of
               Some expected_layer \<Rightarrow>
                 if dimension \<noteq> [] \<and> expected_layer \<noteq> [] \<and> layer \<noteq> []
                    \<and> layer \<noteq> expected_layer
                 then [at @ ustr ''.layer must be '' @ ustr [CHR 0x27] @ expected_layer
                       @ ustr [CHR 0x27] @ ustr '' for dimension '' @ ustr [CHR 0x27] @ dimension
                       @ ustr [CHR 0x27]]
                 else []
             | None \<Rightarrow> []);
          optional =
            concat (map (\<lambda>key. let v = dict_get item key
                                in if v \<noteq> JNull \<and> \<not> nonblank_str v
                                   then [at @ ustr ''.'' @ ustr key @ ustr '' must be non-empty string when present'']
                                   else [])
                     [''period'', ''date'']);
          period_key =
            ustrip (py_str (py_or (dict_get item ''period'')
                               (py_or period_id (py_or week (JStr [])))));
          is_dup = (dimension \<noteq> [] \<and> period_key \<noteq> [] \<and> (dimension, period_key) \<in> set seen);
          duplicate =
            (if is_dup
             then [ustr ''duplicate report key detected for dimension+period: '' @ dimension @ ustr ''+''
                   @ period_key]
             else []);
          seen' = (if dimension \<noteq> [] \<and> period_key \<noteq> [] \<and> \<not> is_dup
                   then seen @ [(dimension, period_key)] else seen);
          conversations_analyzed = dict_get item ''conversations_analyzed'';
          analyzed =
            (if conversations_analyzed \<noteq> JNull
                \<and> (\<not> is_int conversations_analyzed \<or> int_value conversations_analyzed < 0)
             then [at @ ustr ''.conversations_analyzed must be non-negative integer when present'']
             else [])
      in (required @ unsupported @ mismatch @ optional @ duplicate @ analyzed
            @ validate_report_details idx item,
          seen'))"

fun validate_reports ::
  "json \<Rightarrow> json \<Rightarrow> nat \<Rightarrow> (utext \<times> utext) list \<Rightarrow> json list \<Rightarrow> utext list"
where
  "validate_reports period_id week idx seen [] = []"
| "validate_reports period_id week idx seen (item # items) =
     (case item of
        JObj r \<Rightarrow>
          (let (errs, seen') = validate_report period_id week idx seen r
           in errs @ validate_reports period_id week (Suc idx) seen' items)
      | _ \<Rightarrow> (ustr ''reports['' @ ustr (show_nat idx) @ ustr ''] must be object'')
             # validate_reports period_id week (Suc idx) seen items)"

definition validate_period :: "json \<Rightarrow> utext list" where
  "validate_period period =
     (case period of
        JNull \<Rightarrow> []
      | JObj d \<Rightarrow>
          concat (map (\<lambda>key. if dict_has d key \<and> \<not> nonblank_str (dict_get d key)
                              then [ustr ''period.'' @ ustr key @ ustr '' must be non-empty string when present'']
                              else [])
                   [''since'', ''until''])
      | _ \<Rightarrow> [ustr ''period must be object when present''])"

definition validate_coverage :: "json \<Rightarrow> utext list" where
  "validate_coverage coverage =
     (case coverage of
        JObj c \<Rightarrow>
          (let sessions_total = dict_get c ''sessions_total'';
               with_mechanism = dict_get c ''sessions_with_mechanism''
           in concat (map (\<lambda>key. let v = dict_get c key
                                  in if \<not> is_int v \<or> int_value v < 0
                                     then [ustr ''coverage.'' @ ustr key @ ustr '' must be non-negative integer'']
                                     else [])
                       [''sessions_total'', ''sessions_with_mechanism''])
              @ (if is_int sessions_total \<and> is_int with_mechanism
                    \<and> int_value with_mechanism > int_value sessions_total
                 then [ustr ''coverage.sessions_with_mechanism cannot exceed coverage.sessions_total'']
                 else []))
      | _ \<Rightarrow> [ustr ''coverage must be object''])"

text \<open>
  \<open>validate_incremental_mechanism(payload)\<close>; as for the session validator, a payload that is
  not a \<open>dict\<close> raises \<open>AttributeError\<close> at the first \<open>payload.get\<close>.
\<close>

definition validate_incremental_mechanism :: "json \<Rightarrow> pyerr + utext list" where
  "validate_incremental_mechanism payload =
     (case payload of
        JObj p \<Rightarrow>
          (let period_id = dict_get p ''period_id'';
               week = dict_get p ''week'';
               reports = dict_get p ''reports'';
               what_happened = dict_get p ''what_happened''
           in Inr
              ((if dict_get p ''schema_version'' \<noteq> JS INCREMENTAL_SCHEMA
                then [ustr ''schema_version must be '' @ ustr [CHR 0x27] @ ustr INCREMENTAL_SCHEMA @ ustr [CHR 0x27]] else [])
               @ (if nonblank_str period_id \<or> nonblank_str week then []
                  else [ustr ''period_id or week must be provided''])
               @ validate_period (dict_get p ''period'')
               @ (case reports of
                    JList (r # rs) \<Rightarrow> validate_reports period_id week 0 [] (r # rs)
                  | _ \<Rightarrow> [ustr ''reports must be non-empty list''])
               @ validate_coverage (dict_get p ''coverage'')
               @ (if what_happened \<noteq> JNull \<and> \<not> is_list what_happened
                  then [ustr ''what_happened must be list when present''] else [])))
      | _ \<Rightarrow> Inl AttributeError)"

section \<open>Backfill selection (diagnose_helper.py)\<close>

definition has_valid_evidence_item :: "pydict \<Rightarrow> bool" where
  "has_valid_evidence_item item =
     (let session_id = ustrip (str_or_empty (dict_get item ''session_id''));
          snippet = ustrip (str_or_empty (dict_get item ''snippet''));
          turn_id = dict_get item ''turn_id''
      in if session_id = [] \<or> ulower session_id \<in> set [ustr ''n/a'', ustr ''unknown''] then False
         else if \<not> positive_int turn_id then False
         else if snippet = [] \<or> contains_placeholder snippet then False
         else True)"

text \<open>
  \<open>any(_has_valid_evidence_item(item) for item in evidence if isinstance(item, dict))\<close>.
\<close>

fun any_valid_evidence :: "json list \<Rightarrow> bool" where
  "any_valid_evidence [] = False"
| "any_valid_evidence (JObj item # items) = (has_valid_evidence_item item \<or> any_valid_evidence items)"
| "any_valid_evidence (other # items) = any_valid_evidence items"

text \<open>
  One round of the loop \<open>for why in why_items\<close>: \<open>True\<close> when the round returns \<open>True\<close>,
  \<open>False\<close> when it goes on to the next item.
\<close>

definition why_has_signal :: "json \<Rightarrow> bool" where
  "why_has_signal why =
     (case why of
        JObj w \<Rightarrow>
          (let hypothesis = ustrip (str_or_empty (dict_get w ''hypothesis''))
           in if hypothesis = [] \<or> contains_placeholder hypothesis then False
              else (case py_or (dict_get w ''evidence'') (JList []) of
                      JList evidence \<Rightarrow> any_valid_evidence evidence
                    | _ \<Rightarrow> False))
      | _ \<Rightarrow> False)"

fun why_loop :: "json list \<Rightarrow> bool" where
  "why_loop [] = False"
| "why_loop (why # items) = (if why_has_signal why then True else why_loop items)"

text \<open>
  \<open>_session_has_mechanism_signal(session)\<close>. \<open>session.get("why") or []\<close> is iterated
  whatever it is: a string yields its characters and a \<open>dict\<close> its keys, none of them a
  \<open>dict\<close>, so the loop passes over them; a truthy number is not iterable.
\<close>

definition session_has_mechanism_signal :: "json \<Rightarrow> pyerr + bool" where
  "session_has_mechanism_signal session =
     (case session of
        JObj s \<Rightarrow>
          if generated_by_block_reason (dict_get s ''generated_by'') \<noteq> None then Inr False
          else if contains_placeholder (str_or_empty (dict_get s ''summary'')) then Inr False
          else (case py_or (dict_get s ''why'') (JList []) of
                  JList why_items \<Rightarrow> Inr (why_loop why_items)
                | JStr chars \<Rightarrow> Inr False
                | JObj keys \<Rightarrow> Inr False
                | _ \<Rightarrow> Inl TypeError)
      | _ \<Rightarrow> Inl AttributeError)"

text \<open>
  What \<open>path.is_file()\<close> and \<open>_read_json(path)\<close> find at a path: no file, a file that
  \<open>_read_json\<close> fails on, or a file that decodes to a JSON value.
\<close>

datatype json_file = Missing | Unparseable | Decoded json

text \<open>
  \<open>_session_needs_backfill(session_id, force_refresh=...)\<close>; \<open>sidecars\<close> gives, for a
  session id, the state of \<open>data/insights/session/<session_id>.json\<close>.
\<close>

definition session_needs_backfill :: "(utext \<Rightarrow> json_file) \<Rightarrow> utext \<Rightarrow> bool \<Rightarrow> pyerr + bool" where
  "session_needs_backfill sidecars session_id force_refresh =
     (if force_refresh then Inr True
      else (case sidecars session_id of
              Missing \<Rightarrow> Inr True
            | Unparseable \<Rightarrow> Inr True
            | Decoded payload \<Rightarrow>
                (case validate_session_mechanism payload of
                   Inl exc \<Rightarrow> Inl exc
                 | Inr errors \<Rightarrow>
                     if errors \<noteq> [] then Inr True
                     else (case session_has_mechanism_signal payload of
                             Inl exc \<Rightarrow> Inl exc
                           | Inr signal \<Rightarrow> if \<not> signal then Inr True else Inr False))))"

subsection \<open>The selection rule in the words of the specification\<close>

text \<open>
  "An evidence item with a concrete session_id, a turn_id \<open>\<ge> 1\<close> and a non-placeholder
  snippet", "a non-placeholder hypothesis having at least one such evidence item", and a
  sidecar that "lacks any" such hypothesis.
\<close>

definition spec_concrete_evidence :: "json \<Rightarrow> bool" where
  "spec_concrete_evidence ev =
     (case ev of
        JObj item \<Rightarrow>
          (let session_id = ustrip (str_or_empty (dict_get item ''session_id''))
           in session_id \<noteq> [] \<and> ulower session_id \<noteq> ustr ''n/a''
              \<and> ulower session_id \<noteq> ustr ''unknown''
              \<and> is_int (dict_get item ''turn_id'') \<and> int_value (dict_get item ''turn_id'') \<ge> 1
              \<and> \<not> contains_placeholder (ustrip (str_or_empty (dict_get item ''snippet''))))
      | _ \<Rightarrow> False)"

definition spec_supported_hypothesis :: "json \<Rightarrow> bool" where
  "spec_supported_hypothesis why =
     (case why of
        JObj w \<Rightarrow>
          \<not> contains_placeholder (ustrip (str_or_empty (dict_get w ''hypothesis'')))
          \<and> (case dict_get w ''evidence'' of
                JList evidence \<Rightarrow> list_ex spec_concrete_evidence evidence
              | _ \<Rightarrow> False)
      | _ \<Rightarrow> False)"

definition spec_low_quality :: "json \<Rightarrow> bool" where
  "spec_low_quality payload =
     (case payload of
        JObj s \<Rightarrow>
          (case dict_get s ''why'' of
             JList why_items \<Rightarrow> \<not> list_ex spec_supported_hypothesis why_items
           | _ \<Rightarrow> True)
      | _ \<Rightarrow> True)"

text \<open>The summary of a sidecar, as \<open>str(session.get("summary") or "")\<close>.\<close>

definition summary_text :: "json \<Rightarrow> utext" where
  "summary_text payload = (case payload of JObj s \<Rightarrow> str_or_empty (dict_get s ''summary'') | _ \<Rightarrow> [])"


text \<open>
  A sidecar on which the validator does not raise: a JSON object in which no evidence
  item of a hypothesis carries a \<open>list\<close> or a \<open>dict\<close> as \<open>tier\<close>.
\<close>

definition evidence_hashable :: "json \<Rightarrow> bool" where
  "evidence_hashable ev =
     (case ev of
        JObj e \<Rightarrow> \<not> is_list (dict_get e ''tier'') \<and> \<not> is_dict (dict_get e ''tier'')
      | _ \<Rightarrow> True)"

definition why_hashable :: "json \<Rightarrow> bool" where
  "why_hashable why =
     (case why of
        JObj w \<Rightarrow> (case dict_get w ''evidence'' of
                     JList evidence \<Rightarrow> list_all evidence_hashable evidence
                   | _ \<Rightarrow> True)
      | _ \<Rightarrow> True)"

definition checkable_sidecar :: "json \<Rightarrow> bool" where
  "checkable_sidecar payload =
     (case payload of
        JObj s \<Rightarrow> (case dict_get s ''why'' of
                     JList why_items \<Rightarrow> list_all why_hashable why_items
                   | _ \<Rightarrow> True)
      | _ \<Rightarrow> False)"
section \<open>Digest timeline (diagnose_helper.py)\<close>

text \<open>
  A turn of a conversation, with the fields the digest reads: \<open>turn_id\<close> is \<open>None\<close> when
  the key is absent or \<open>null\<close> and an integer otherwise; the two message texts; the tool
  names of \<open>assistant_response.tool_uses\<close>; the number of corrections.
\<close>

record turn =
  turn_id :: "int option"
  user_content :: utext
  assistant_content :: utext
  tool_names :: "utext list"
  correction_count :: nat

text \<open>\<open>int(turn.get("turn_id") or 0)\<close>.\<close>

definition turn_id_or_0 :: "turn \<Rightarrow> int" where
  "turn_id_or_0 t = (case turn_id t of None \<Rightarrow> 0 | Some i \<Rightarrow> i)"

text \<open>The deduplication loop of \<open>_select_timeline_turns\<close>, with its set \<open>seen_turn_ids\<close>.\<close>

fun dedupe_turns :: "int list \<Rightarrow> turn list \<Rightarrow> turn list" where
  "dedupe_turns seen_turn_ids [] = []"
| "dedupe_turns seen_turn_ids (t # selected) =
     (let tid = turn_id_or_0 t
      in if tid > 0 \<and> tid \<in> set seen_turn_ids then dedupe_turns seen_turn_ids selected
         else t # dedupe_turns (if tid > 0 then tid # seen_turn_ids else seen_turn_ids) selected)"

text \<open>\<open>xs[-n:]\<close> for \<open>n \<ge> 0\<close>: the last \<open>n\<close> elements, and the whole list for \<open>n = 0\<close>.\<close>

definition py_last_n :: "nat \<Rightarrow> 'a list \<Rightarrow> 'a list" where
  "py_last_n n xs = (if n = 0 then xs else drop (length xs - n) xs)"

definition select_timeline_turns :: "turn list \<Rightarrow> nat \<Rightarrow> turn list" where
  "select_timeline_turns turns max_turns =
     (if length turns \<le> max_turns then turns
      else (let head = max_turns div 2;
                tail = max_turns - head;
                selected = take head turns @ py_last_n tail turns
            in dedupe_turns [] selected))"

text \<open>\<open>" ".join(text.split())[:limit]\<close>: runs of white space collapse to one blank.\<close>

fun py_split :: "utext \<Rightarrow> utext \<Rightarrow> utext list" where
  "py_split word [] = (if word = [] then [] else [word])"
| "py_split word (c # cs) =
     (if uisspace c then (if word = [] then py_split [] cs else word # py_split [] cs)
      else py_split (word @ [c]) cs)"

definition turn_snippet :: "utext \<Rightarrow> nat \<Rightarrow> utext" where
  "turn_snippet text limit = take limit (join (ustr '' '') (py_split [] text))"

record timeline_item =
  item_turn_id :: int
  user_snippet :: utext
  assistant_snippet :: utext
  item_correction_count :: nat
  tools :: "utext list"

text \<open>
  One timeline entry; \<open>idx\<close> is the 1-based position of the turn among the selected turns
  and stands in for a \<open>turn_id\<close> that is absent, \<open>null\<close> or \<open>0\<close>.
\<close>

definition timeline_entry :: "nat \<Rightarrow> turn \<Rightarrow> timeline_item" where
  "timeline_entry idx t =
     \<lparr> item_turn_id = (case turn_id t of None \<Rightarrow> int idx
                         | Some i \<Rightarrow> if i = 0 then int idx else i),
       user_snippet = turn_snippet (user_content t) 140,
       assistant_snippet = turn_snippet (assistant_content t) 120,
       item_correction_count = correction_count t,
       tools = filter (\<lambda>name. name \<noteq> []) (tool_names t) \<rparr>"

fun timeline_entries :: "nat \<Rightarrow> turn list \<Rightarrow> timeline_item list" where
  "timeline_entries idx [] = []"
| "timeline_entries idx (t # ts) = timeline_entry idx t # timeline_entries (Suc idx) ts"

text \<open>The \<open>timeline\<close> field of \<open>build_session_digest(conv)\<close>, from \<open>conv["turns"]\<close>.\<close>

definition digest_timeline :: "turn list \<Rightarrow> timeline_item list" where
  "digest_timeline turns = timeline_entries 1 (select_timeline_turns turns 12)"

subsection \<open>The selection rule in the words of the specification\<close>

text \<open>"Deduplicate by \<open>turn_id\<close>, keeping the first occurrence."\<close>

fun spec_dedupe_by_turn_id :: "int list \<Rightarrow> turn list \<Rightarrow> turn list" where
  "spec_dedupe_by_turn_id seen [] = []"
| "spec_dedupe_by_turn_id seen (t # ts) =
     (if turn_id_or_0 t \<in> set seen then spec_dedupe_by_turn_id seen ts
      else t # spec_dedupe_by_turn_id (turn_id_or_0 t # seen) ts)"

text \<open>A turn that carries nothing but its \<open>turn_id\<close>.\<close>

definition bare_turn :: "int \<Rightarrow> turn" where
  "bare_turn i = \<lparr> turn_id = Some i, user_content = [], assistant_content = [],
                   tool_names = [], correction_count = 0 \<rparr>"


text \<open>
  Deduplication of the positive turn ids only: a selected turn is dropped exactly when its
  \<open>turn_id\<close> is positive and an earlier selected turn has the same \<open>turn_id\<close>.
\<close>

definition kept_turn :: "turn list \<Rightarrow> nat \<Rightarrow> bool" where
  "kept_turn selected j =
     (turn_id_or_0 (selected ! j) \<le> 0
      \<or> turn_id_or_0 (selected ! j) \<notin> set (map turn_id_or_0 (take j selected)))"

definition dedupe_positive :: "turn list \<Rightarrow> turn list" where
  "dedupe_positive selected =
     map (\<lambda>j. selected ! j) (filter (kept_turn selected) [0..<length selected])"
section \<open>Period of the incremental command (diagnose_helper.py)\<close>

subsection \<open>Calendar dates\<close>

text \<open>
  A date is its proleptic Gregorian ordinal, as \<open>date.toordinal()\<close> gives it
  (\<open>0001-01-01\<close> is 1). \<open>civil_of_ordinal\<close> is year, month and day of an ordinal.
\<close>

definition civil_of_ordinal :: "int \<Rightarrow> int \<times> int \<times> int" where
  "civil_of_ordinal ordinal =
     (let z = ordinal + 305;
          era = z div 146097;
          doe = z mod 146097;
          yoe = (doe - doe div 1460 + doe div 36524 - doe div 146096) div 365;
          y = yoe + era * 400;
          doy = doe - (365 * yoe + yoe div 4 - yoe div 100);
          mp = (5 * doy + 2) div 153;
          d = doy - (153 * mp + 2) div 5 + 1;
          m = (if mp < 10 then mp + 3 else mp - 9)
      in (if m \<le> 2 then y + 1 else y, m, d))"

definition pad_left :: "nat \<Rightarrow> char \<Rightarrow> string \<Rightarrow> string" where
  "pad_left width c s = replicate (width - length s) c @ s"

text \<open>\<open>date.isoformat()\<close>: \<open>YYYY-MM-DD\<close>.\<close>

definition isoformat :: "int \<Rightarrow> string" where
  "isoformat ordinal =
     (case civil_of_ordinal ordinal of
        (y, m, d) \<Rightarrow> pad_left 4 (CHR ''0'') (show_nat (nat y)) @ ''-''
                     @ pad_left 2 (CHR ''0'') (show_nat (nat m)) @ ''-''
                     @ pad_left 2 (CHR ''0'') (show_nat (nat d)))"

subsection \<open>Window and period id\<close>

definition quoted :: "string \<Rightarrow> string" where
  "quoted s = [CHR 0x27] @ s @ [CHR 0x27]"

definition is_digit :: "char \<Rightarrow> bool" where
  "is_digit c = (48 \<le> (of_char c :: nat) \<and> (of_char c :: nat) \<le> 57)"

definition digits_value :: "string \<Rightarrow> nat" where
  "digits_value ds = foldl (\<lambda>acc c. 10 * acc + (of_char c - 48)) 0 ds"

text \<open>
  \<open>_parse_window_to_since(window)\<close>; \<open>today\<close> is the ordinal of the UTC date that
  \<open>datetime.now(timezone.utc)\<close> reads. \<open>re.fullmatch(r"(\d+)d", value)\<close> holds when
  \<open>value\<close> is one or more decimal digits followed by \<open>d\<close>. \<open>int\<close> refuses more than 4300
  digits with a \<open>ValueError\<close>, and a date before year 1 is an \<open>OverflowError\<close>.
\<close>

definition parse_window_to_since :: "string \<Rightarrow> int \<Rightarrow> pyerr + string option" where
  "parse_window_to_since window today =
     (let v = py_lower (py_strip window)
      in if v = [] \<or> v = ''all'' \<or> v = ''all-time'' then Inr None
         else if last v = CHR ''d'' \<and> butlast v \<noteq> [] \<and> list_all is_digit (butlast v)
           then (if length (butlast v) > 4300
                 then Inl (ValueError ''Exceeds the limit (4300 digits) for integer string conversion'')
                 else (let days = digits_value (butlast v)
                       in if days = 0 then Inl (ValueError ''window days must be positive'')
                          else if today - int days < 1 then Inl OverflowError
                          else Inr (Some (isoformat (today - int days)))))
         else Inl (ValueError (''window must be like '' @ quoted ''30d'' @ '' or ''
                      @ quoted ''all-time'')))"

text \<open>Truthiness of an optional string argument: absent and empty are both false.\<close>

definition given :: "string option \<Rightarrow> bool" where
  "given a = (case a of None \<Rightarrow> False | Some s \<Rightarrow> s \<noteq> [])"

definition build_period_id ::
  "string option \<Rightarrow> string option \<Rightarrow> string option \<Rightarrow> string option \<Rightarrow> string"
where
  "build_period_id since until window explicit_period_id =
     (if given explicit_period_id \<and> py_strip (the explicit_period_id) \<noteq> []
        then py_strip (the explicit_period_id)
      else if given since \<or> given until
        then (if given since then the since else ''open'') @ ''_to_''
             @ (if given until then the until else ''today'')
      else if given window then ''rolling_'' @ the window
      else ''rolling_30d'')"

text \<open>The arguments of the \<open>incremental\<close> subcommand that decide the period.\<close>

record incremental_args =
  arg_period_id :: "string option"
  arg_window :: string
  arg_since :: "string option"
  arg_until :: "string option"

record period_info =
  resolved_since :: "string option"
  resolved_until :: "string option"
  resolved_period_id :: string

text \<open>
  How a stretch of a command ends: an exception escapes, the command returns an exit
  code, or it goes on with a value.
\<close>

datatype 'a step = Raised pyerr | Returned int | Go 'a

text \<open>
  The head of \<open>cmd_incremental\<close>: the window is resolved and the period id computed. The
  clock is read twice, for \<open>since\<close> (\<open>today_since\<close>) and for \<open>until\<close> (\<open>today_until\<close>).
  A \<open>ValueError\<close> is caught and turned into exit code 2.
\<close>

definition cmd_incremental_period :: "incremental_args \<Rightarrow> int \<Rightarrow> int \<Rightarrow> period_info step" where
  "cmd_incremental_period args today_since today_until =
     (let finish = (\<lambda>since until.
            Go \<lparr> resolved_since = since, resolved_until = until,
                 resolved_period_id = (if given (arg_period_id args) then the (arg_period_id args)
                              else build_period_id since until (Some (arg_window args)) None) \<rparr>)
      in if \<not> given (arg_since args) \<and> \<not> given (arg_until args) \<and> arg_window args \<noteq> []
         then (case parse_window_to_since (arg_window args) today_since of
                 Inl (ValueError msg) \<Rightarrow> Returned 2
               | Inl exc \<Rightarrow> Raised exc
               | Inr None \<Rightarrow> finish None (arg_until args)
               | Inr (Some parsed_since) \<Rightarrow> finish (Some parsed_since) (Some (isoformat today_until)))
         else finish (arg_since args) (arg_until args))"

definition INSIGHTS_INCREMENTAL_DIR :: string where
  "INSIGHTS_INCREMENTAL_DIR = ''data/insights/incremental''"


section \<open>Rendering and the file store\<close>

text \<open>
  \<open>json.dumps(payload, ensure_ascii=False, indent=2, sort_keys=True)\<close>: the text every
  \<open>_write_json\<close> writes. Keys are sorted, nesting is indented by two blanks, and in a
  string only the quote, the backslash and the control characters below U+0020 are
  escaped.
\<close>

definition dumps_char :: "int \<Rightarrow> utext" where
  "dumps_char c =
     (if c = 34 then [92, 34]
      else if c = 92 then [92, 92]
      else if c = 8 then [92, 98]
      else if c = 12 then [92, 102]
      else if c = 10 then [92, 110]
      else if c = 13 then [92, 114]
      else if c = 9 then [92, 116]
      else if c < 32 then [92, 117, 48, 48] @ hex_digits 2 c
      else [c])"

definition dumps_str :: "utext \<Rightarrow> utext" where
  "dumps_str s = [34] @ concat (map dumps_char s) @ [34]"

definition newline_indent :: "nat \<Rightarrow> utext" where
  "newline_indent level = 10 # replicate (2 * level) 32"

fun dumps_at :: "nat \<Rightarrow> json \<Rightarrow> utext" where
  "dumps_at level JNull = ustr ''null''"
| "dumps_at level (JBool b) = (if b then ustr ''true'' else ustr ''false'')"
| "dumps_at level (JInt i) = ustr (show_int i)"
| "dumps_at level (JFloat r) =
     (if r = ''nan'' then ustr ''NaN'' else if r = ''inf'' then ustr ''Infinity''
      else if r = ''-inf'' then ustr ''-Infinity'' else ustr r)"
| "dumps_at level (JStr s) = dumps_str s"
| "dumps_at level (JList xs) =
     (if xs = [] then ustr ''[]''
      else ustr ''['' @ newline_indent (Suc level)
           @ join (ustr '','' @ newline_indent (Suc level)) (map (dumps_at (Suc level)) xs)
           @ newline_indent level @ ustr '']'')"
| "dumps_at level (JObj d) =
     (if d = [] then ustr ''{}''
      else ustr ''{'' @ newline_indent (Suc level)
           @ join (ustr '','' @ newline_indent (Suc level))
               (map (\<lambda>kr. dumps_str (fst kr) @ ustr '': '' @ snd kr)
                  (sort_key fst (map (\<lambda>kv. (fst kv, dumps_at (Suc level) (snd kv))) d)))
           @ newline_indent level @ ustr ''}'')"

definition dumps :: "json \<Rightarrow> utext" where
  "dumps payload = dumps_at 0 payload"

subsection \<open>Paths\<close>

text \<open>
  A path is the list of its components, from the root of the file system. \<open>base / segment\<close>
  splits the segment at every \<open>/\<close>, drops the empty components and the components \<open>.\<close>,
  and starts again from the root when the segment begins with \<open>/\<close>.
\<close>

type_synonym path = "utext list"

text \<open>\<open>s.split(sep)\<close> for a separator of one character.\<close>

fun split_at :: "int \<Rightarrow> utext \<Rightarrow> utext list" where
  "split_at sep [] = [[]]"
| "split_at sep (c # s) =
     (if c = sep then [] # split_at sep s
      else (case split_at sep s of
              part # parts \<Rightarrow> (c # part) # parts
            | [] \<Rightarrow> [[c]]))"

definition path_join :: "path \<Rightarrow> utext \<Rightarrow> path" where
  "path_join base segment =
     (let parts = filter (\<lambda>part. part \<noteq> [] \<and> part \<noteq> ustr ''.'') (split_at 47 segment)
      in if segment \<noteq> [] \<and> hd segment = 47 then parts else base @ parts)"

text \<open>\<open>path.parent\<close>.\<close>

definition parent :: "path \<Rightarrow> path" where
  "parent p = butlast p"

subsection \<open>The store\<close>

text \<open>
  The bytes of a file are the UTF-8 encoding of a text, or they are not valid UTF-8. A
  store is the directory where the skill is installed (\<open>_SKILL_ROOT\<close>, absolute), the
  directories that exist, the files with their bytes, the paths on which the operating
  system refuses to work (permissions, length of a name, space), and the log of the
  operations performed, oldest first. There are no symbolic links.
\<close>

datatype file_data = Utf8 utext | Undecodable

datatype fs_op = Mkdir path | WriteText path utext | Rename path path

record filesystem =
  skill_root :: path
  is_dir :: "path \<Rightarrow> bool"
  content :: "path \<Rightarrow> file_data option"
  refused :: "path \<Rightarrow> bool"
  oplog :: "fs_op list"

text \<open>
  The directory the operating system reaches from directory \<open>cur\<close> along the components:
  every directory on the way, the last one too, must exist, and \<open>..\<close> goes up.
\<close>

fun walk :: "(path \<Rightarrow> bool) \<Rightarrow> path \<Rightarrow> utext list \<Rightarrow> path option" where
  "walk dirs cur [] = (if dirs cur then Some cur else None)"
| "walk dirs cur (c # cs) =
     (if \<not> dirs cur then None
      else walk dirs (if c = ustr ''..'' then butlast cur else cur @ [c]) cs)"

text \<open>
  Where the operating system finds the file a path names: in the directory that the
  components before the last lead to. A path that ends in \<open>..\<close> names no file.
\<close>

definition locate :: "filesystem \<Rightarrow> path \<Rightarrow> path option" where
  "locate fs p =
     (if p = [] \<or> last p = ustr ''..'' then None
      else (case walk (is_dir fs) [] (butlast p) of
              None \<Rightarrow> None
            | Some d \<Rightarrow> Some (d @ [last p])))"

text \<open>
  \<open>os.fsencode\<close> (UTF-8 with \<open>surrogateescape\<close>) accepts a surrogate only from U+DC80 to
  U+DCFF; a strict UTF-8 encoder accepts none; and no path holds U+0000.
\<close>

definition fs_encodable :: "utext \<Rightarrow> bool" where
  "fs_encodable s = list_all (\<lambda>c. c < 55296 \<or> 57343 < c \<or> (56448 \<le> c \<and> c \<le> 56575)) s"

definition utf8_encodable :: "utext \<Rightarrow> bool" where
  "utf8_encodable s = list_all (\<lambda>c. c < 55296 \<or> 57343 < c) s"

text \<open>
  The exception with which the operating system interface rejects a path before any
  system call: \<open>UnicodeEncodeError\<close>, then \<open>ValueError: embedded null byte\<close>.
\<close>

definition path_error :: "path \<Rightarrow> pyerr option" where
  "path_error p =
     (if \<not> list_all fs_encodable p then Some UnicodeEncodeError
      else if list_ex (\<lambda>part. 0 \<in> set part) p then Some (ValueError ''embedded null byte'')
      else None)"

text \<open>
  \<open>path.is_file()\<close>: \<open>False\<close> for a path the interface rejects and for a path that leads
  nowhere; an \<open>OSError\<close> of another kind is raised.
\<close>

definition is_file :: "path \<Rightarrow> filesystem \<Rightarrow> pyerr + bool" where
  "is_file p fs =
     (if path_error p \<noteq> None then Inr False
      else (case locate fs p of
              None \<Rightarrow> Inr False
            | Some q \<Rightarrow> if refused fs q then Inl OSError else Inr (content fs q \<noteq> None)))"

text \<open>Reading in text mode turns \<open>\r\n\<close> and \<open>\r\<close> into \<open>\n\<close>.\<close>

fun universal_newlines :: "utext \<Rightarrow> utext" where
  "universal_newlines [] = []"
| "universal_newlines [c] = [if c = 13 then 10 else c]"
| "universal_newlines (c # d # s) =
     (if c = 13 \<and> d = 10 then 10 # universal_newlines s
      else if c = 13 then 10 # universal_newlines (d # s)
      else c # universal_newlines (d # s))"

text \<open>\<open>path.read_text(encoding="utf-8")\<close>.\<close>

definition read_text :: "path \<Rightarrow> filesystem \<Rightarrow> pyerr + utext" where
  "read_text p fs =
     (case path_error p of
        Some exc \<Rightarrow> Inl exc
      | None \<Rightarrow>
          (case locate fs p of
             None \<Rightarrow> Inl OSError
           | Some q \<Rightarrow>
               if refused fs q then Inl OSError
               else (case content fs q of
                       None \<Rightarrow> Inl OSError
                     | Some Undecodable \<Rightarrow> Inl UnicodeDecodeError
                     | Some (Utf8 text) \<Rightarrow> Inr (universal_newlines text))))"

text \<open>
  \<open>path.write_text(text, encoding="utf-8")\<close>: the file is opened for writing, which
  empties it, and then the text is encoded; a text with a surrogate leaves the file empty
  and raises \<open>UnicodeEncodeError\<close>. The result is the exception raised, if any, and the
  store afterwards.
\<close>

definition write_text :: "path \<Rightarrow> utext \<Rightarrow> filesystem \<Rightarrow> pyerr option \<times> filesystem" where
  "write_text p text fs =
     (case path_error p of
        Some exc \<Rightarrow> (Some exc, fs)
      | None \<Rightarrow>
          (case locate fs p of
             None \<Rightarrow> (Some OSError, fs)
           | Some q \<Rightarrow>
               if is_dir fs q \<or> refused fs q then (Some OSError, fs)
               else if \<not> utf8_encodable text
                 then (Some UnicodeEncodeError, fs \<lparr> content := (content fs)(q \<mapsto> Utf8 []) \<rparr>)
               else (None, fs \<lparr> content := (content fs)(q \<mapsto> Utf8 text),
                                oplog := oplog fs @ [WriteText q text] \<rparr>)))"

text \<open>
  \<open>path.mkdir(parents=True, exist_ok=True)\<close> creates the missing directories from the
  root downwards and stops at the first it cannot create: a file is in the way, or the
  operating system refuses.
\<close>

fun nodes_from :: "path \<Rightarrow> utext list \<Rightarrow> path list" where
  "nodes_from cur [] = [cur]"
| "nodes_from cur (c # cs) =
     cur # nodes_from (if c = ustr ''..'' then butlast cur else cur @ [c]) cs"

fun make_dirs :: "path list \<Rightarrow> filesystem \<Rightarrow> pyerr option \<times> filesystem" where
  "make_dirs [] fs = (None, fs)"
| "make_dirs (d # ds) fs =
     (if is_dir fs d then make_dirs ds fs
      else if content fs d \<noteq> None \<or> refused fs d then (Some OSError, fs)
      else make_dirs ds (fs \<lparr> is_dir := (is_dir fs)(d := True) \<rparr>))"

definition mkdir :: "path \<Rightarrow> filesystem \<Rightarrow> pyerr option \<times> filesystem" where
  "mkdir p fs =
     (case path_error p of
        Some exc \<Rightarrow> (Some exc, fs)
      | None \<Rightarrow>
          (case make_dirs (nodes_from [] p) fs of
             (Some exc, fs') \<Rightarrow> (Some exc, fs')
           | (None, fs') \<Rightarrow> (None, fs' \<lparr> oplog := oplog fs' @ [Mkdir p] \<rparr>)))"

text \<open>\<open>_write_json(path, payload)\<close>, in \<open>diagnose_helper.py\<close> and in \<open>skill_runtime.py\<close>.\<close>

definition write_json :: "path \<Rightarrow> json \<Rightarrow> filesystem \<Rightarrow> pyerr option \<times> filesystem" where
  "write_json p payload fs =
     (case mkdir (parent p) fs of
        (Some exc, fs') \<Rightarrow> (Some exc, fs')
      | (None, fs') \<Rightarrow> write_text p (dumps payload) fs')"

text \<open>The three directories of \<open>diagnose_helper.py\<close>, and \<open>_ensure_dirs()\<close>.\<close>

definition insights_session_dir :: "filesystem \<Rightarrow> path" where
  "insights_session_dir fs = skill_root fs @ [ustr ''data'', ustr ''insights'', ustr ''session'']"

definition insights_incremental_dir :: "filesystem \<Rightarrow> path" where
  "insights_incremental_dir fs =
     skill_root fs @ [ustr ''data'', ustr ''insights'', ustr ''incremental'']"

definition skill_jobs_dir :: "filesystem \<Rightarrow> path" where
  "skill_jobs_dir fs = skill_root fs @ [ustr ''output'', ustr ''skill_jobs'']"

definition ensure_dirs :: "filesystem \<Rightarrow> pyerr option \<times> filesystem" where
  "ensure_dirs fs =
     (case mkdir (insights_session_dir fs) fs of
        (Some exc, fs1) \<Rightarrow> (Some exc, fs1)
      | (None, fs1) \<Rightarrow>
          (case mkdir (insights_incremental_dir fs1) fs1 of
             (Some exc, fs2) \<Rightarrow> (Some exc, fs2)
           | (None, fs2) \<Rightarrow> mkdir (skill_jobs_dir fs2) fs2))"

section \<open>Writing the period sidecar (diagnose_helper.py)\<close>

text \<open>
  \<open>out_path = _INSIGHTS_INCREMENTAL_DIR / f"{period_id}.json"\<close>, as the text of the path
  from the skill root and as a path of the store.
\<close>

definition incremental_sidecar_path :: "string \<Rightarrow> string \<times> string" where
  "incremental_sidecar_path pid = (INSIGHTS_INCREMENTAL_DIR, pid @ ''.json'')"

definition incremental_out_path :: "filesystem \<Rightarrow> utext \<Rightarrow> path" where
  "incremental_out_path fs period_id =
     path_join (insights_incremental_dir fs) (period_id @ ustr ''.json'')"

text \<open>
  The end of \<open>cmd_incremental\<close>, from the validation of the completed payload to the write
  of the sidecar: exit code 1 on a validation error, no write under \<open>--dry-run\<close>,
  \<open>_write_json(out_path, payload)\<close> otherwise. The result is how this stretch ends (\<open>Go\<close>:
  the command goes on, to the optional report sync and exit code 0) and the store
  afterwards.
\<close>

definition cmd_incremental_persist ::
  "utext \<Rightarrow> json \<Rightarrow> bool \<Rightarrow> filesystem \<Rightarrow> unit step \<times> filesystem"
where
  "cmd_incremental_persist period_id payload dry_run fs =
     (case validate_incremental_mechanism payload of
        Inl exc \<Rightarrow> (Raised exc, fs)
      | Inr errors \<Rightarrow>
          if errors \<noteq> [] then (Returned 1, fs)
          else if dry_run then (Go (), fs)
          else (case write_json (incremental_out_path fs period_id) payload fs of
                  (Some exc, fs') \<Rightarrow> (Raised exc, fs')
                | (None, fs') \<Rightarrow> (Go (), fs')))"

subsection \<open>The write in the words of the specification\<close>

text \<open>
  "Write to a temp file in the same directory, then rename; skip the rename when the
  rendered bytes equal the existing file", the whole write being skipped in that case.
  \<open>p\<close> is where the file is, \<open>tmp\<close> where the temp file is.
\<close>

definition spec_atomic_write :: "path \<Rightarrow> path \<Rightarrow> json \<Rightarrow> filesystem \<Rightarrow> filesystem" where
  "spec_atomic_write tmp p payload fs =
     (if content fs p = Some (Utf8 (dumps payload)) then fs
      else fs \<lparr> content := (content fs)(p \<mapsto> Utf8 (dumps payload)),
                oplog := oplog fs @ [WriteText tmp (dumps payload), Rename tmp p] \<rparr>)"

section \<open>Applying session results (diagnose_helper.py)\<close>

text \<open>
  \<open>_week_from_timestamp(value)\<close>. Parsing the timestamp and reading its ISO calendar
  (\<open>datetime.fromisoformat\<close>, \<open>isocalendar\<close>, and the clock for an empty text) are the
  parameter \<open>isocalendar\<close>: the ISO year and week of a timestamp text, or \<open>None\<close> when
  \<open>fromisoformat\<close> raises \<open>ValueError\<close>. The result is \<open>f"{iso_year}-W{iso_week:02d}"\<close>.
\<close>

definition week_from_timestamp :: "(utext \<Rightarrow> (int \<times> nat) option) \<Rightarrow> utext \<Rightarrow> pyerr + utext" where
  "week_from_timestamp isocalendar v =
     (case isocalendar v of
        None \<Rightarrow> Inl (ValueError ''Invalid isoformat string'')
      | Some (iso_year, iso_week) \<Rightarrow>
          Inr (ustr (show_int iso_year @ ''-W'' @ pad_left 2 (CHR ''0'') (show_nat iso_week))))"

text \<open>\<open>_normalize_session_payload(raw)\<close>.\<close>

definition normalize_session_payload :: "json \<Rightarrow> pydict list" where
  "normalize_session_payload raw =
     (let dicts = (\<lambda>xs. concat (map (\<lambda>x. case x of JObj d \<Rightarrow> [d] | _ \<Rightarrow> []) xs))
      in case raw of
           JList xs \<Rightarrow> dicts xs
         | JObj r \<Rightarrow>
             (case dict_get r ''sessions'' of
                JList xs \<Rightarrow> dicts xs
              | _ \<Rightarrow> concat (map (\<lambda>kv. case snd kv of
                                          JObj d \<Rightarrow> [dict_setdefault d ''session_id'' (JStr (fst kv))]
                                        | _ \<Rightarrow> []) r))
         | _ \<Rightarrow> [])"

text \<open>
  The body of the loop of \<open>_apply_session_results\<close> up to the validation: the record with
  its defaults. \<open>now\<close> is what \<open>_now_iso()\<close> returns for this record.
\<close>

definition default_generated_by :: "utext \<Rightarrow> utext \<Rightarrow> pydict \<Rightarrow> pydict" where
  "default_generated_by run_id now g =
     dict_setdefault
       (dict_setdefault
          (dict_setdefault
             (dict_setdefault (dict_setdefault g ''engine'' (JS ''api''))
                ''provider'' (JS ''api''))
             ''model'' (JS ''skill''))
          ''run_id'' (JStr run_id))
       ''generated_at'' (JStr now)"

definition prepare_record ::
  "utext \<Rightarrow> utext \<Rightarrow> (utext \<Rightarrow> (int \<times> nat) option) \<Rightarrow> pydict \<Rightarrow> pyerr + pydict"
where
  "prepare_record run_id now isocalendar item =
     (let record0 = dict_setdefault (dict_setdefault item ''schema_version'' (JS SESSION_SCHEMA))
                      ''generated_by'' (JObj []);
          generated_by = (case dict_get record0 ''generated_by'' of JObj g \<Rightarrow> g | _ \<Rightarrow> []);
          record1 = dict_set record0 ''generated_by''
                      (JObj (default_generated_by run_id now generated_by));
          with_period = (\<lambda>r. if \<not> truthy (dict_get r ''period_id'') \<and> truthy (dict_get r ''week'')
                              then dict_set r ''period_id'' (JStr (py_str (dict_get r ''week'')))
                              else r)
      in if \<not> truthy (dict_get record1 ''week'') \<and> is_str (dict_get record1 ''created_at'')
         then (case week_from_timestamp isocalendar (py_str (dict_get record1 ''created_at'')) of
                 Inl exc \<Rightarrow> Inl exc
               | Inr week \<Rightarrow> Inr (with_period (dict_set record1 ''week'' (JStr week))))
         else Inr (with_period record1))"

text \<open>
  The loop over \<open>enumerate(items)\<close>: the valid records, and for each invalid record its
  index, session id and errors. \<open>clock index\<close> is the time read for record \<open>index\<close>.
\<close>

type_synonym invalid_record = "nat \<times> utext \<times> utext list"

fun apply_loop ::
  "utext \<Rightarrow> (nat \<Rightarrow> utext) \<Rightarrow> (utext \<Rightarrow> (int \<times> nat) option) \<Rightarrow> nat \<Rightarrow> pydict list
     \<Rightarrow> pyerr + (pydict list \<times> invalid_record list)"
where
  "apply_loop run_id clock isocalendar index [] = Inr ([], [])"
| "apply_loop run_id clock isocalendar index (item # items) =
     (case prepare_record run_id (clock index) isocalendar item of
        Inl exc \<Rightarrow> Inl exc
      | Inr record \<Rightarrow>
          (case validate_session_mechanism (JObj record) of
             Inl exc \<Rightarrow> Inl exc
           | Inr errors \<Rightarrow>
               (case apply_loop run_id clock isocalendar (Suc index) items of
                  Inl exc \<Rightarrow> Inl exc
                | Inr (valid_items, invalid_records) \<Rightarrow>
                    if errors \<noteq> []
                    then Inr (valid_items,
                              (index, str_or_empty (dict_get record ''session_id''), errors)
                              # invalid_records)
                    else Inr (record # valid_items, invalid_records))))"

text \<open>\<open>out_path = _INSIGHTS_SESSION_DIR / f"{session_id}.json"\<close>.\<close>

definition session_sidecar_path :: "filesystem \<Rightarrow> utext \<Rightarrow> path" where
  "session_sidecar_path fs session_id =
     path_join (insights_session_dir fs) (session_id @ ustr ''.json'')"

text \<open>
  The loop that persists the valid records, with its counters \<open>created\<close> and \<open>updated\<close>: a
  file whose text, as \<open>read_text\<close> returns it, equals the rendering is left alone. A valid
  record has a \<open>session_id\<close> that is a \<open>str\<close>. The parent directory is not created here.
\<close>

fun persist_records ::
  "pydict list \<Rightarrow> nat \<Rightarrow> nat \<Rightarrow> filesystem \<Rightarrow> pyerr option \<times> (nat \<times> nat) \<times> filesystem"
where
  "persist_records [] created updated fs = (None, (created, updated), fs)"
| "persist_records (record # records) created updated fs =
     (let out_path = session_sidecar_path fs (py_str (dict_get record ''session_id''));
          rendered = dumps (JObj record);
          write = (\<lambda>created' updated'.
            case write_text out_path rendered fs of
              (Some exc, fs') \<Rightarrow> (Some exc, (created', updated'), fs')
            | (None, fs') \<Rightarrow> persist_records records created' updated' fs')
      in case is_file out_path fs of
           Inl exc \<Rightarrow> (Some exc, (created, updated), fs)
         | Inr False \<Rightarrow> write (Suc created) updated
         | Inr True \<Rightarrow>
             (case read_text out_path fs of
                Inl exc \<Rightarrow> (Some exc, (created, updated), fs)
              | Inr existing \<Rightarrow>
                  if existing = rendered then persist_records records created updated fs
                  else write created (Suc updated)))"

text \<open>
  The two files \<open>_apply_session_results\<close> writes under \<open>output/skill_jobs/<run_id>\<close>: the
  list of the invalid records and the summary.
\<close>

definition invalid_payload :: "utext \<Rightarrow> utext \<Rightarrow> invalid_record list \<Rightarrow> json" where
  "invalid_payload run_id now invalid_records =
     JObj (obj
       [(''schema_version'', JS ''diagnose-invalid-session-mechanisms.v1''),
        (''run_id'', JStr run_id),
        (''generated_at'', JStr now),
        (''invalid_count'', JInt (int (length invalid_records))),
        (''invalid_records'',
         JList (map (\<lambda>r. case r of (index, session_id, errors) \<Rightarrow>
                        JObj (obj [(''index'', JInt (int index)),
                                   (''session_id'', JStr session_id),
                                   (''errors'', JList (map JStr errors))]))
                  invalid_records))])"

definition summary_payload ::
  "utext \<Rightarrow> utext \<Rightarrow> utext \<Rightarrow> nat \<Rightarrow> nat \<Rightarrow> nat \<Rightarrow> nat \<Rightarrow> json"
where
  "summary_payload run_id now result_file records_valid records_invalid created updated =
     JObj (obj
       [(''schema_version'', JS ''diagnose-apply-summary.v1''),
        (''run_id'', JStr run_id),
        (''applied_at'', JStr now),
        (''result_file'', JStr result_file),
        (''records_valid'', JInt (int records_valid)),
        (''records_invalid'', JInt (int records_invalid)),
        (''created'', JInt (int created)),
        (''updated'', JInt (int updated))])"

text \<open>
  \<open>_apply_session_results(run_id, result_path, allow_partial)\<close>: the exception raised or
  the exit code, and the store afterwards. \<open>result_path\<close> is the text of the resolved path
  of the result file and \<open>result_file\<close> what is found there. \<open>clock\<close> is read once for every
  record, in order, and then for each of the two files written.
\<close>

definition apply_session_results ::
  "utext \<Rightarrow> (nat \<Rightarrow> utext) \<Rightarrow> (utext \<Rightarrow> (int \<times> nat) option) \<Rightarrow> utext \<Rightarrow> json_file \<Rightarrow> bool
     \<Rightarrow> filesystem \<Rightarrow> (pyerr + int) \<times> filesystem"
where
  "apply_session_results run_id clock isocalendar result_path result_file allow_partial fs0 =
     (case ensure_dirs fs0 of
        (Some exc, fs) \<Rightarrow> (Inl exc, fs)
      | (None, fs) \<Rightarrow>
          (case result_file of
             Missing \<Rightarrow> (Inr 2, fs)
           | Unparseable \<Rightarrow> (Inr 2, fs)
           | Decoded raw_payload \<Rightarrow>
               (let items = normalize_session_payload raw_payload
                in if items = [] then (Inr 2, fs)
                   else (case apply_loop run_id clock isocalendar 0 items of
                           Inl exc \<Rightarrow> (Inl exc, fs)
                         | Inr (valid_items, invalid_records) \<Rightarrow>
                             (let run_dir = path_join (skill_jobs_dir fs) run_id
                              in case mkdir run_dir fs of
                                   (Some exc, fs1) \<Rightarrow> (Inl exc, fs1)
                                 | (None, fs1) \<Rightarrow>
                                     if invalid_records \<noteq> [] \<and> \<not> allow_partial then (Inr 1, fs1)
                                     else (case (if invalid_records \<noteq> []
                                                 then write_json
                                                        (path_join run_dir
                                                           (ustr ''invalid_session_mechanisms.json''))
                                                        (invalid_payload run_id (clock (length items))
                                                           invalid_records) fs1
                                                 else (None, fs1)) of
                                             (Some exc, fs2) \<Rightarrow> (Inl exc, fs2)
                                           | (None, fs2) \<Rightarrow>
                                               if valid_items = [] then (Inr 1, fs2)
                                               else (case persist_records valid_items 0 0 fs2 of
                                                       (Some exc, counts, fs3) \<Rightarrow> (Inl exc, fs3)
                                                     | (None, (created, updated), fs3) \<Rightarrow>
                                                         (case write_json
                                                                 (path_join run_dir (ustr ''apply_summary.json''))
                                                                 (summary_payload run_id
                                                                    (clock (length items
                                                                       + (if invalid_records \<noteq> [] then 1 else 0)))
                                                                    result_path (length valid_items)
                                                                    (length invalid_records) created updated)
                                                                 fs3 of
                                                            (Some exc, fs4) \<Rightarrow> (Inl exc, fs4)
                                                          | (None, fs4) \<Rightarrow> (Inr 0, fs4)))))))))"

section \<open>Incremental pass: chunking (skill_runtime.py)\<close>

definition INCREMENTAL_CHUNK_SIZE :: nat where
  "INCREMENTAL_CHUNK_SIZE = 24"

text \<open>The two postambles, \<open>[shard execution constraint]\<close> and \<open>[shard merge constraint]\<close>,
  as the code points of the source's literals.\<close>

definition SHARD_POSTAMBLE :: utext where
  "SHARD_POSTAMBLE =
     [91, 20998, 29255, 25191, 34892, 32422, 26463, 93, 10, 45, 32, 24403, 21069,
      36755, 20837, 20165, 20195, 34920, 20840, 37327, 20250, 35805, 20013, 30340,
      19968, 20010, 20998, 29255, 12290, 10, 45, 32, 21482, 22522, 20110, 24403,
      21069, 20998, 29255, 20135, 20986, 20013, 38388, 26426, 21046, 25253, 21578,
      12290, 10, 45, 32, 19981, 35201, 20551, 35774, 26410, 20986, 29616, 30340,
      25968, 25454, 12290]"

definition MERGE_POSTAMBLE :: utext where
  "MERGE_POSTAMBLE =
     [91, 20998, 29255, 32858, 21512, 32422, 26463, 93, 10, 45, 32, 24403, 21069,
      36755, 20837, 21253, 21547, 32, 99, 104, 117, 110, 107, 95, 114, 101, 112, 111,
      114, 116, 115, 65288, 20998, 29255, 20013, 38388, 32467, 26524, 65289, 12290,
      10, 45, 32, 20320, 24517, 39035, 22522, 20110, 32, 99, 104, 117, 110, 107, 95,
      114, 101, 112, 111, 114, 116, 115, 32, 20570, 20840, 23616, 21435, 37325,
      12289, 21512, 24182, 21644, 23618, 32423, 25910, 25947, 12290, 10, 45, 32,
      26368, 32456, 36755, 20986, 20173, 24517, 39035, 26159, 32, 73, 110, 99, 114,
      101, 109, 101, 110, 116, 97, 108, 77, 101, 99, 104, 97, 110, 105, 115, 109, 86,
      49, 12290]"

definition chunk_prompt_of :: "utext \<Rightarrow> utext" where
  "chunk_prompt_of skill_prompt = skill_prompt @ [10, 10] @ SHARD_POSTAMBLE"

definition merge_prompt_of :: "utext \<Rightarrow> utext" where
  "merge_prompt_of skill_prompt = skill_prompt @ [10, 10] @ MERGE_POSTAMBLE"

text \<open>The local \<open>_coerce_incremental_payload(raw)\<close> of \<open>run_incremental_api\<close>.\<close>

definition coerce_incremental_payload :: "json \<Rightarrow> pydict" where
  "coerce_incremental_payload raw =
     (case raw of
        JObj r \<Rightarrow>
          if dict_get r ''schema_version'' = JS ''incremental-mechanism.v1'' then r
          else (case dict_get r ''incremental'' of JObj inner \<Rightarrow> inner | _ \<Rightarrow> [])
      | _ \<Rightarrow> [])"

text \<open>
  \<open>session_items\<close>: the entries of \<open>incremental_input["sessions"]\<close> that are \<open>dict\<close>s.
\<close>

definition session_items_of :: "pydict \<Rightarrow> json list" where
  "session_items_of incremental_input =
     (case dict_get incremental_input ''sessions'' of
        JList sessions \<Rightarrow> filter is_dict sessions
      | _ \<Rightarrow> [])"

text \<open>\<open>session_items[start:end]\<close> of chunk \<open>chunk_idx\<close>.\<close>

definition chunk_session_items :: "json list \<Rightarrow> nat \<Rightarrow> json list" where
  "chunk_session_items session_items chunk_idx =
     (let start = chunk_idx * INCREMENTAL_CHUNK_SIZE;
          end = min (start + INCREMENTAL_CHUNK_SIZE) (length session_items)
      in take (end - start) (drop start session_items))"

definition chunk_input_of :: "pydict \<Rightarrow> json list \<Rightarrow> nat \<Rightarrow> pydict" where
  "chunk_input_of incremental_input session_items chunk_idx =
     (let items = chunk_session_items session_items chunk_idx;
          chunk_input = dict_set incremental_input ''sessions'' (JList items);
          coverage = (case dict_get chunk_input ''coverage'' of JObj c \<Rightarrow> c | _ \<Rightarrow> []);
          coverage' = dict_set coverage ''sessions_with_mechanism'' (JInt (int (length items)))
      in dict_set chunk_input ''coverage'' (JObj coverage'))"

definition chunk_report_of :: "nat \<Rightarrow> nat \<Rightarrow> pydict \<Rightarrow> json" where
  "chunk_report_of chunk_idx total_chunks chunk_payload =
     JObj (obj
       [(''chunk_id'', JS (show_nat (chunk_idx + 1) @ ''/'' @ show_nat total_chunks)),
        (''coverage'', (case dict_get chunk_payload ''coverage'' of JObj c \<Rightarrow> JObj c
                        | _ \<Rightarrow> JObj [])),
        (''reports'', (case dict_get chunk_payload ''reports'' of JList rs \<Rightarrow> JList rs
                       | _ \<Rightarrow> JList []))])"

text \<open>\<open>run_dir / f"incremental_chunk_{chunk_idx + 1:02d}_of_{total_chunks:02d}.json"\<close>.\<close>

definition chunk_file_name :: "nat \<Rightarrow> nat \<Rightarrow> string" where
  "chunk_file_name chunk_idx total_chunks =
     ''incremental_chunk_'' @ pad_left 2 (CHR ''0'') (show_nat (chunk_idx + 1))
     @ ''_of_'' @ pad_left 2 (CHR ''0'') (show_nat total_chunks) @ ''.json''"

definition chunk_file :: "path \<Rightarrow> nat \<Rightarrow> nat \<Rightarrow> path" where
  "chunk_file run_dir chunk_idx total_chunks =
     path_join run_dir (ustr (chunk_file_name chunk_idx total_chunks))"

text \<open>
  The state of a run: every call of \<open>_infer_once\<close> so far (prompt and input), the store,
  and the list \<open>chunk_reports\<close>, which the chunking branch starts empty. \<open>_infer_once\<close> is
  an oracle from prompt and input to the decoded answer, or to the exception it raises
  (after the provider's own retries).
\<close>

record run_state =
  calls :: "(utext \<times> json) list"
  store :: filesystem
  chunk_reports :: "json list"

type_synonym inference = "utext \<Rightarrow> json \<Rightarrow> pyerr + json"

text \<open>
  The loop \<open>for chunk_idx in range(total_chunks)\<close>, over the list of the remaining chunk
  indices. The first component is the exception that ended the loop, if any: that of the
  call, the \<open>RuntimeError\<close> for an empty payload, or that of writing the chunk file.
\<close>

fun run_chunks ::
  "inference \<Rightarrow> utext \<Rightarrow> pydict \<Rightarrow> json list \<Rightarrow> path \<Rightarrow> nat \<Rightarrow> nat list \<Rightarrow> run_state
     \<Rightarrow> pyerr option \<times> run_state"
where
  "run_chunks infer_once skill_prompt incremental_input session_items run_dir total_chunks [] st =
     (None, st)"
| "run_chunks infer_once skill_prompt incremental_input session_items run_dir total_chunks
     (chunk_idx # rest) st =
     (let chunk_input = JObj (chunk_input_of incremental_input session_items chunk_idx);
          st1 = st \<lparr> calls := calls st @ [(chunk_prompt_of skill_prompt, chunk_input)] \<rparr>
      in case infer_once (chunk_prompt_of skill_prompt) chunk_input of
           Inl exc \<Rightarrow> (Some exc, st1)
         | Inr raw_chunk \<Rightarrow>
             (let chunk_payload = coerce_incremental_payload raw_chunk
              in if chunk_payload = []
                 then (Some (RuntimeError
                               (ustr (''chunk '' @ show_nat (chunk_idx + 1) @ ''/''
                                      @ show_nat total_chunks @ '' returned empty payload''))),
                       st1)
                 else (case write_json (chunk_file run_dir chunk_idx total_chunks)
                              (JObj chunk_payload) (store st1) of
                         (Some exc, fs') \<Rightarrow> (Some exc, st1 \<lparr> store := fs' \<rparr>)
                       | (None, fs') \<Rightarrow>
                           run_chunks infer_once skill_prompt incremental_input session_items
                             run_dir total_chunks rest
                             (st1 \<lparr> store := fs',
                                    chunk_reports := chunk_reports st1
                                      @ [chunk_report_of chunk_idx total_chunks chunk_payload] \<rparr>))))"

definition merge_input_of :: "pydict \<Rightarrow> json list \<Rightarrow> pydict" where
  "merge_input_of incremental_input reports =
     dict_set (dict_set incremental_input ''sessions'' (JList [])) ''chunk_reports'' (JList reports)"

definition result_file_name :: "provider \<Rightarrow> string" where
  "result_file_name p =
     ''incremental_api_''
     @ (case p of claude_cli \<Rightarrow> ''claude_cli'' | codex_cli \<Rightarrow> ''codex_cli''
        | openai \<Rightarrow> ''openai'' | anthropic \<Rightarrow> ''anthropic'')
     @ ''_result.json''"

text \<open>
  \<open>run_incremental_api\<close> from \<open>sessions = incremental_input.get("sessions")\<close> to its
  return, that is after the provider and skill checks, the input and preview files and
  the \<open>--dry-run\<close> return: the exception raised, or the exit code and the result path if
  any, and the final state. An exception of the calls or of the chunk loop is caught and
  gives exit code 1; one of the final write is not caught.
\<close>

definition run_incremental_inference ::
  "inference \<Rightarrow> provider \<Rightarrow> utext \<Rightarrow> pydict \<Rightarrow> path \<Rightarrow> run_state
     \<Rightarrow> (pyerr + int \<times> path option) \<times> run_state"
where
  "run_incremental_inference infer_once p skill_prompt incremental_input run_dir st =
     (let session_items = session_items_of incremental_input;
          use_chunking = (length session_items > INCREMENTAL_CHUNK_SIZE);
          result_path = path_join run_dir (ustr (result_file_name p));
          finish = (\<lambda>prompt payload st'.
            (let st1 = st' \<lparr> calls := calls st' @ [(prompt, payload)] \<rparr>
             in case infer_once prompt payload of
                  Inl exc \<Rightarrow> (Inr (1, None), st1)
                | Inr result_payload \<Rightarrow>
                    (case write_json result_path
                            (if is_dict result_payload then result_payload
                             else JObj (obj [(''incremental'', result_payload)]))
                            (store st1) of
                       (Some exc, fs') \<Rightarrow> (Inl exc, st1 \<lparr> store := fs' \<rparr>)
                     | (None, fs') \<Rightarrow> (Inr (0, Some result_path), st1 \<lparr> store := fs' \<rparr>))))
      in if \<not> use_chunking then finish skill_prompt (JObj incremental_input) st
         else (let total_chunks =
                     (length session_items + INCREMENTAL_CHUNK_SIZE - 1) div INCREMENTAL_CHUNK_SIZE
               in case run_chunks infer_once skill_prompt incremental_input session_items run_dir
                         total_chunks [0..<total_chunks] (st \<lparr> chunk_reports := [] \<rparr>) of
                    (Some exc, st') \<Rightarrow> (Inr (1, None), st')
                  | (None, st') \<Rightarrow>
                      finish (merge_prompt_of skill_prompt)
                        (JObj (merge_input_of incremental_input (chunk_reports st'))) st'))"
section \<open>Report synchronizer (_sync_analysis_reports_core.py)\<close>

text \<open>
  A page of the external database, by what the synchronizer reads from it: the id
  (\<open>str(page.get("id") or "").strip()\<close>), the names of its \<open>Dimension\<close> and \<open>Period\<close>
  selects (\<open>_select_name\<close>), the plain text of \<open>Title\<close> and \<open>Key Insights\<close>
  (\<open>_title_text\<close>, \<open>_rich_text_text\<close>), and the two time stamps, empty when absent.
\<close>

record page =
  page_id :: string
  dimension_name :: string
  period_name :: string
  title :: utext
  key_insights :: utext
  last_edited_time :: string
  created_time :: string

text \<open>\<open>re.search\<close> for one character in the range U+4E00 to U+9FFF.\<close>

definition contains_cjk :: "utext \<Rightarrow> bool" where
  "contains_cjk text = list_ex (\<lambda>c. 0x4E00 \<le> c \<and> c \<le> 0x9FFF) text"

definition is_zh :: "page \<Rightarrow> bool" where
  "is_zh p = (contains_cjk (title p) \<or> contains_cjk (key_insights p))"

text \<open>\<open>_page_sort_key(page)\<close>: \<open>str(last_edited_time or created_time or "")\<close>.\<close>

definition page_sort_key :: "page \<Rightarrow> string" where
  "page_sort_key p =
     (if last_edited_time p \<noteq> [] then last_edited_time p
      else if created_time p \<noteq> [] then created_time p else [])"

definition page_key :: "page \<Rightarrow> string \<times> string" where
  "page_key p = (dimension_name p, period_name p)"

text \<open>
  \<open>grouped.setdefault(key, []).append(item)\<close> on a \<open>dict\<close> kept in insertion order.
\<close>

fun group_append :: "(string \<times> string) \<Rightarrow> page \<Rightarrow> ((string \<times> string) \<times> page list) list
    \<Rightarrow> ((string \<times> string) \<times> page list) list" where
  "group_append key p [] = [(key, [p])]"
| "group_append key p ((k, items) # grouped) =
     (if k = key then (k, items @ [p]) # grouped else (k, items) # group_append key p grouped)"

text \<open>The first loop: pages without a full key or without an id are passed over.\<close>

fun group_pages :: "page list \<Rightarrow> ((string \<times> string) \<times> page list) list
    \<Rightarrow> ((string \<times> string) \<times> page list) list" where
  "group_pages [] grouped = grouped"
| "group_pages (p # pages) grouped =
     (if dimension_name p = [] \<or> period_name p = [] then group_pages pages grouped
      else if page_id p = [] then group_pages pages grouped
      else group_pages pages (group_append (page_key p) p grouped))"

text \<open>
  \<open>sorted(pool, key=..., reverse=True)\<close>: Python's sort is stable also when reversed,
  so pages with equal keys keep their order.
\<close>

definition sorted_reverse :: "('a \<Rightarrow> string) \<Rightarrow> 'a list \<Rightarrow> 'a list" where
  "sorted_reverse key xs = rev (sort_key key (rev xs))"

definition keeper_pool :: "page list \<Rightarrow> page list" where
  "keeper_pool items = (let zh_items = filter is_zh items in if zh_items \<noteq> [] then zh_items else items)"

text \<open>\<open>sorted(pool, ...)[0]\<close>; a group is never empty.\<close>

definition choose_keeper :: "page list \<Rightarrow> page" where
  "choose_keeper items = hd (sorted_reverse page_sort_key (keeper_pool items))"

record duplicate =
  dup_page_id :: string
  dup_key :: string
  dup_title :: utext
  dup_reason :: string

definition group_duplicates :: "(string \<times> string) \<Rightarrow> page list \<Rightarrow> duplicate list" where
  "group_duplicates key items =
     (let keeper = choose_keeper items
      in map (\<lambda>item. \<lparr> dup_page_id = page_id item, dup_key = fst key @ ''|'' @ snd key,
                         dup_title = title item, dup_reason = ''duplicate_key'' \<rparr>)
           (filter (\<lambda>item. page_id item \<noteq> [] \<and> page_id item \<noteq> page_id keeper) items))"

text \<open>
  \<open>_build_report_index_and_duplicates(client, db_id)\<close>, from the pages that
  \<open>client.query_database(db_id)\<close> returns: the index from key to keeper id, and the
  duplicates.
\<close>

definition build_report_index_and_duplicates ::
  "page list \<Rightarrow> ((string \<times> string) \<times> string) list \<times> duplicate list" where
  "build_report_index_and_duplicates pages =
     (let grouped = group_pages pages []
      in (map (\<lambda>(key, items). (key, page_id (choose_keeper items))) grouped,
          concat (map (\<lambda>(key, items). group_duplicates key items) grouped)))"

text \<open>
  The operations \<open>sync_reports_from_incremental\<close> performs on the database after the
  query: archiving a page and writing a report. Whether an archival or a write succeeds
  is up to the database: the oracles \<open>archive_ok\<close> and \<open>write_ok\<close>.
\<close>

datatype 'r db_op = ArchivePage string | WriteReport 'r

text \<open>\<open>_archive_duplicate_pages\<close>: every duplicate is tried; the result counts the failures.\<close>

fun archive_duplicate_pages :: "(string \<Rightarrow> bool) \<Rightarrow> duplicate list \<Rightarrow> 'r db_op list \<times> nat \<times> nat" where
  "archive_duplicate_pages archive_ok [] = ([], 0, 0)"
| "archive_duplicate_pages archive_ok (d # ds) =
     (case archive_duplicate_pages archive_ok ds of
        (ops, archived, failed) \<Rightarrow>
          if py_strip (dup_page_id d) = [] then (ops, archived, failed)
          else if archive_ok (py_strip (dup_page_id d))
            then (ArchivePage (py_strip (dup_page_id d)) # ops, Suc archived, failed)
          else (ArchivePage (py_strip (dup_page_id d)) # ops, archived, Suc failed))"

text \<open>
  The end of \<open>sync_reports_from_incremental\<close> (not a dry run), from the query of the
  database on: the exit code and the operations, in order.
\<close>

definition sync_reports_tail ::
  "page list \<Rightarrow> 'r list \<Rightarrow> (string \<Rightarrow> bool) \<Rightarrow> ('r \<Rightarrow> bool) \<Rightarrow> int \<times> 'r db_op list" where
  "sync_reports_tail pages reports archive_ok write_ok =
     (case build_report_index_and_duplicates pages of
        (existing_index, duplicates) \<Rightarrow>
          (case archive_duplicate_pages archive_ok duplicates of
             (archive_ops, archived, failed) \<Rightarrow>
               if duplicates \<noteq> [] \<and> failed > 0 then (1, archive_ops)
               else (let written = length (filter write_ok reports)
                     in (if written = length reports then 0 else 1,
                         archive_ops @ map WriteReport reports))))"

section \<open>Concrete inputs\<close>

text \<open>Thirteen turns numbered 1 to 13, and the first twelve of them.\<close>

definition thirteen_turns :: "turn list" where
  "thirteen_turns = map bare_turn [1, 2, 3, 4, 5, 6, 7, 8, 9, 10, 11, 12, 13]"

definition twelve_turns :: "turn list" where
  "twelve_turns = map bare_turn [1, 2, 3, 4, 5, 6, 7, 8, 9, 10, 11, 12]"

text \<open>Thirteen turns numbered from 0, as \<open>ingest_claude_code.py\<close> numbers them.\<close>

definition zero_based_turns :: "turn list" where
  "zero_based_turns = map bare_turn [0, 1, 2, 3, 4, 5, 6, 7, 8, 9, 10, 11, 12]"

text \<open>
  Thirteen turns of which the twelfth repeats the \<open>turn_id\<close> 3, and thirteen turns of
  which the first two have the \<open>turn_id\<close> 0.
\<close>

definition repeated_id_turns :: "turn list" where
  "repeated_id_turns = map bare_turn [1, 2, 3, 4, 5, 6, 7, 8, 9, 10, 11, 3, 12]"

definition repeated_zero_turns :: "turn list" where
  "repeated_zero_turns = map bare_turn [0, 0, 1, 2, 3, 4, 5, 6, 7, 8, 9, 10, 11]"

text \<open>\<open>incremental --window 30d\<close> with no other period argument.\<close>

definition args_30d :: incremental_args where
  "args_30d = \<lparr> arg_period_id = None, arg_window = ''30d'', arg_since = None, arg_until = None \<rparr>"

text \<open>
  A valid IncrementalMechanismV1 payload with one report. The skill is installed in
  \<open>/opt/conversation-insights\<close>: a store with nothing else in it, one in which the
  directories of the skill exist, and one in which the period sidecar \<open>rolling_30d.json\<close>
  already holds the rendering of that payload.
\<close>

definition sample_incremental :: json where
  "sample_incremental =
     JObj (obj [(''schema_version'', JS ''incremental-mechanism.v1''),
           (''period_id'', JS ''rolling_30d''),
           (''week'', JS ''rolling_30d''),
           (''coverage'', JObj (obj [(''sessions_total'', JInt 1), (''sessions_with_mechanism'', JInt 1)])),
           (''reports'',
            JList [JObj (obj [(''dimension'', JS ''incremental-root-causes''),
                         (''layer'', JS ''L3''),
                         (''title'', JS ''Root causes - rolling_30d''),
                         (''key_insights'', JS ''Missing kickoff context causes first-pass rework.''),
                         (''detail_lines'', JList [JS ''action: state goal and constraints first'']),
                         (''period'', JS ''rolling_30d'')])])])"

definition skill_home :: path where
  "skill_home = [ustr ''opt'', ustr ''conversation-insights'']"

definition fresh_store :: filesystem where
  "fresh_store =
     \<lparr> skill_root = skill_home,
       is_dir = (\<lambda>p. p \<in> set [[], [ustr ''opt''], skill_home]),
       content = (\<lambda>p. None),
       refused = (\<lambda>p. False),
       oplog = [] \<rparr>"

definition data_dirs :: "path list" where
  "data_dirs =
     [[], [ustr ''opt''], skill_home,
      skill_home @ [ustr ''data''],
      skill_home @ [ustr ''data'', ustr ''insights''],
      skill_home @ [ustr ''data'', ustr ''insights'', ustr ''session''],
      skill_home @ [ustr ''data'', ustr ''insights'', ustr ''incremental''],
      skill_home @ [ustr ''output''],
      skill_home @ [ustr ''output'', ustr ''skill_jobs'']]"

definition ready_store :: filesystem where
  "ready_store = fresh_store \<lparr> is_dir := (\<lambda>p. p \<in> set data_dirs) \<rparr>"

definition rolling_30d_path :: path where
  "rolling_30d_path =
     skill_home @ [ustr ''data'', ustr ''insights'', ustr ''incremental'', ustr ''rolling_30d.json'']"

definition store_with_sample :: filesystem where
  "store_with_sample =
     ready_store \<lparr> content := (\<lambda>p. if p = rolling_30d_path
                                       then Some (Utf8 (dumps sample_incremental)) else None) \<rparr>"

text \<open>
  A report on \<open>incremental-task-stratification\<close> (registry layer \<open>L2\<close>) that claims layer
  \<open>L3\<close>, and a payload that contains it.
\<close>

definition mismatch_report :: pydict where
  "mismatch_report =
     obj [(''dimension'', JS ''incremental-task-stratification''),
      (''layer'', JS ''L3''),
      (''title'', JS ''Task stratification - rolling_30d''),
      (''key_insights'', JS ''Refactoring tasks trigger most of the rework.''),
      (''detail_text'', JS ''action: split refactoring tasks before starting''),
      (''period'', JS ''rolling_30d'')]"

definition mismatch_payload :: pydict where
  "mismatch_payload =
     obj [(''schema_version'', JS ''incremental-mechanism.v1''),
      (''period_id'', JS ''rolling_30d''),
      (''week'', JS ''rolling_30d''),
      (''coverage'', JObj (obj [(''sessions_total'', JInt 1), (''sessions_with_mechanism'', JInt 1)])),
      (''reports'', JList [JObj mismatch_report])]"

text \<open>
  Session sidecars. \<open>good_sidecar\<close> is a valid SessionMechanismV1; \<open>tbd_sidecar\<close> differs
  from it in its summary, \<open>TBD\<close>; \<open>list_tier_sidecar\<close> differs from it in carrying
  \<open>"tier": []\<close> in its evidence item.
\<close>

definition sidecar_with :: "string \<Rightarrow> (string \<times> json) list \<Rightarrow> json" where
  "sidecar_with summary extra_evidence =
     JObj (obj [(''schema_version'', JS ''session-mechanism.v1''),
           (''session_id'', JS ''s-1''),
           (''created_at'', JS ''2026-02-06T10:00:00Z''),
           (''week'', JS ''2026-W06''),
           (''summary'', JS summary),
           (''what_happened'', JList [JS ''The task was restated three times.'']),
           (''why'',
            JList [JObj (obj [(''hypothesis'', JS ''The first request left out the constraints.''),
                         (''confidence'', JFloat ''0.7''),
                         (''evidence'',
                          JList [JObj (obj ([(''session_id'', JS ''s-1''),
                                        (''turn_id'', JInt 1),
                                        (''snippet'', JS ''Please help'')] @ extra_evidence))])])]),
           (''how_to_improve'',
            JList [JObj (obj [(''trigger'', JS ''new task''),
                         (''action'', JS ''state constraints''),
                         (''expected_gain'', JS ''fewer loops''),
                         (''validation_window'', JS ''next-7-days'')])]),
           (''labels'', JList [JS ''kickoff-context-gap'']),
           (''generated_by'',
            JObj (obj [(''engine'', JS ''api''),
                  (''provider'', JS ''claude_cli''),
                  (''model'', JS ''sonnet''),
                  (''run_id'', JS ''r1''),
                  (''generated_at'', JS ''2026-02-06T10:05:00+00:00'')]))])"

definition good_sidecar :: json where
  "good_sidecar = sidecar_with ''Context was missing at kickoff.'' []"

definition tbd_sidecar :: json where
  "tbd_sidecar = sidecar_with ''TBD'' []"

definition list_tier_sidecar :: json where
  "list_tier_sidecar = sidecar_with ''Context was missing at kickoff.'' [(''tier'', JList [])]"

text \<open>Sidecar directories that hold one of them for session \<open>s-1\<close> and nothing else.\<close>

definition sidecars_holding :: "json \<Rightarrow> utext \<Rightarrow> json_file" where
  "sidecars_holding payload session_id =
     (if session_id = ustr ''s-1'' then Decoded payload else Missing)"

text \<open>
  A result record as a provider may return it: valid, but with no \<open>generated_by\<close>, no
  \<open>week\<close> and no \<open>period_id\<close>. \<open>calendar_2026\<close> knows the ISO week of its time stamp.
\<close>

definition bare_result :: pydict where
  "bare_result =
     obj [(''schema_version'', JS ''session-mechanism.v1''),
      (''session_id'', JS ''s-1''),
      (''created_at'', JS ''2026-02-06T10:00:00Z''),
      (''summary'', JS ''Context was missing at kickoff.''),
      (''what_happened'', JList [JS ''The task was restated three times.'']),
      (''why'',
       JList [JObj (obj [(''hypothesis'', JS ''The first request left out the constraints.''),
                    (''evidence'',
                     JList [JObj (obj [(''session_id'', JS ''s-1''),
                                  (''turn_id'', JInt 1),
                                  (''snippet'', JS ''Please help'')])])])]),
      (''how_to_improve'',
       JList [JObj (obj [(''trigger'', JS ''new task''),
                    (''action'', JS ''state constraints''),
                    (''expected_gain'', JS ''fewer loops''),
                    (''validation_window'', JS ''next-7-days'')])])]"

definition calendar_2026 :: "utext \<Rightarrow> (int \<times> nat) option" where
  "calendar_2026 stamp =
     (if stamp = ustr ''2026-02-06T10:00:00Z'' then Some (2026, 6) else None)"

definition clock_2026 :: "nat \<Rightarrow> utext" where
  "clock_2026 index = ustr ''2026-02-06T10:05:00+00:00''"

text \<open>What the loop of \<open>_apply_session_results\<close> makes of \<open>bare_result\<close> in run \<open>run-test\<close>.\<close>

definition prepared_result :: pydict where
  "prepared_result =
     obj [(''schema_version'', JS ''session-mechanism.v1''),
      (''session_id'', JS ''s-1''),
      (''created_at'', JS ''2026-02-06T10:00:00Z''),
      (''summary'', JS ''Context was missing at kickoff.''),
      (''what_happened'', JList [JS ''The task was restated three times.'']),
      (''why'',
       JList [JObj (obj [(''hypothesis'', JS ''The first request left out the constraints.''),
                    (''evidence'',
                     JList [JObj (obj [(''session_id'', JS ''s-1''),
                                  (''turn_id'', JInt 1),
                                  (''snippet'', JS ''Please help'')])])])]),
      (''how_to_improve'',
       JList [JObj (obj [(''trigger'', JS ''new task''),
                    (''action'', JS ''state constraints''),
                    (''expected_gain'', JS ''fewer loops''),
                    (''validation_window'', JS ''next-7-days'')])]),
      (''generated_by'',
       JObj (obj [(''engine'', JS ''api''),
             (''provider'', JS ''api''),
             (''model'', JS ''skill''),
             (''run_id'', JS ''run-test''),
             (''generated_at'', JS ''2026-02-06T10:05:00+00:00'')])),
      (''week'', JS ''2026-W06''),
      (''period_id'', JS ''2026-W06'')]"

section \<open>The session validator as a function of the fields\<close>

text \<open>
  The checks of \<open>validate_session_mechanism\<close> on every field but \<open>generated_by\<close>, as a
  function of the values of the fields; it serves to compare the validation of two records
  that differ in a few fields.
\<close>

definition session_field_errors ::
  "json \<Rightarrow> json \<Rightarrow> json \<Rightarrow> json \<Rightarrow> json \<Rightarrow> json \<Rightarrow> json \<Rightarrow> json \<Rightarrow> json \<Rightarrow> json
     \<Rightarrow> pyerr + utext list"
where
  "session_field_errors schema session created week period happened why_items actions labels summary =
     (case (case why_items of
              JList (w # ws) \<Rightarrow> validate_why_items 0 (w # ws)
            | _ \<Rightarrow> Inr [ustr ''why must be non-empty list''])
      of Inl exc \<Rightarrow> Inl exc
       | Inr why_errors \<Rightarrow>
           Inr ((if schema \<noteq> JS SESSION_SCHEMA
                 then [ustr ''schema_version must be '' @ ustr [CHR 0x27] @ ustr SESSION_SCHEMA
                       @ ustr [CHR 0x27]]
                 else [])
                @ (if \<not> nonblank_str session then [ustr ''session_id must be non-empty string'']
                   else [])
                @ (if \<not> nonblank_str created then [ustr ''created_at must be non-empty string'']
                   else [])
                @ (if week \<noteq> JNull \<and> \<not> nonblank_str week
                   then [ustr ''week must be non-empty string when present''] else [])
                @ (if period \<noteq> JNull \<and> \<not> nonblank_str period
                   then [ustr ''period_id must be non-empty string when present''] else [])
                @ (if is_list happened \<and> truthy happened then []
                   else [ustr ''what_happened must be non-empty list''])
                @ why_errors
                @ (case actions of
                     JList (a # as) \<Rightarrow> validate_actions 0 (a # as)
                   | _ \<Rightarrow> [ustr ''how_to_improve must be non-empty list''])
                @ (if labels \<noteq> JNull \<and> \<not> is_list labels
                   then [ustr ''labels must be list when present''] else [])
                @ (if \<not> nonblank_str summary then [ustr ''summary must be non-empty string'']
                   else [])))"

text \<open>
  The payload chunk \<open>chunk_idx\<close> yields: the coerced answer of \<open>_infer_once\<close> to the chunk's
  prompt and input, empty when the call raises or the answer is not usable.
\<close>

definition chunk_payload_of :: "inference \<Rightarrow> utext \<Rightarrow> pydict \<Rightarrow> json list \<Rightarrow> nat \<Rightarrow> pydict" where
  "chunk_payload_of infer_once skill_prompt incremental_input session_items chunk_idx =
     (case infer_once (chunk_prompt_of skill_prompt)
             (JObj (chunk_input_of incremental_input session_items chunk_idx)) of
        Inl exc \<Rightarrow> []
      | Inr raw_chunk \<Rightarrow> coerce_incremental_payload raw_chunk)"

text \<open>
  Inputs of the incremental pass with 24 and with 25 compact sessions, a provider that
  answers every call with an empty but well-formed IncrementalMechanismV1, and the state
  before the first call.
\<close>

definition compact_session :: "nat \<Rightarrow> json" where
  "compact_session k =
     JObj (obj [(''session_id'', JS (''s-'' @ show_nat k)),
           (''created_at'', JS ''2026-02-06T10:00:00Z'')])"

definition incremental_input_with :: "nat \<Rightarrow> pydict" where
  "incremental_input_with n =
     obj [(''schema_version'', JS ''incremental-input.v1''),
      (''period_id'', JS ''rolling_30d''),
      (''coverage'', JObj (obj [(''sessions_total'', JInt (int n)),
                           (''sessions_with_mechanism'', JInt (int n))])),
      (''sessions'', JList (map compact_session [1..<Suc n]))]"

definition steady_provider :: inference where
  "steady_provider prompt payload =
     Inr (JObj (obj [(''schema_version'', JS ''incremental-mechanism.v1''),
                (''reports'', JList [])]))"

definition fresh_run :: run_state where
  "fresh_run = \<lparr> calls = [], store = ready_store, chunk_reports = [] \<rparr>"

text \<open>
  The pages that enter the grouping (a full key and an id), and the group of a key in the
  words of the specification: the pages of the database with that natural key.
\<close>

definition eligible :: "page \<Rightarrow> bool" where
  "eligible p = (dimension_name p \<noteq> [] \<and> period_name p \<noteq> [] \<and> page_id p \<noteq> [])"

definition spec_group :: "page list \<Rightarrow> (string \<times> string) \<Rightarrow> page list" where
  "spec_group pages key = filter (\<lambda>p. eligible p \<and> page_key p = key) pages"

text \<open>The page ids \<open>_archive_duplicate_pages\<close> tries to archive, in order.\<close>

definition archive_targets :: "duplicate list \<Rightarrow> string list" where
  "archive_targets duplicates =
     map (\<lambda>d. py_strip (dup_page_id d)) (filter (\<lambda>d. py_strip (dup_page_id d) \<noteq> []) duplicates)"

text \<open>The duplicate entry recorded for a page of the group of \<open>key\<close>.\<close>

definition duplicate_of :: "(string \<times> string) \<Rightarrow> page \<Rightarrow> duplicate" where
  "duplicate_of key item =
     \<lparr> dup_page_id = page_id item, dup_key = fst key @ ''|'' @ snd key,
       dup_title = title item, dup_reason = ''duplicate_key'' \<rparr>"

text \<open>
  Two pages with the natural key (\<open>incremental-root-causes\<close>, \<open>rolling_all-time\<close>): one
  with an English title and insights, edited last, and one whose title is the two CJK
  characters U+6839 U+56E0, edited earlier. Texts are code points.
\<close>

definition english_page :: page where
  "english_page =
     \<lparr> page_id = ''page-en'',
       dimension_name = ''incremental-root-causes'',
       period_name = ''rolling_all-time'',
       title = [82, 111, 111, 116, 32, 99, 97, 117, 115, 101, 115],
       key_insights = [75, 105, 99, 107, 111, 102, 102],
       last_edited_time = ''2026-02-07T10:00:00.000Z'',
       created_time = ''2026-02-07T09:00:00.000Z'' \<rparr>"

definition cjk_page :: page where
  "cjk_page =
     \<lparr> page_id = ''page-zh'',
       dimension_name = ''incremental-root-causes'',
       period_name = ''rolling_all-time'',
       title = [0x6839, 0x56E0],
       key_insights = [0x5BFC, 0x81F4],
       last_edited_time = ''2026-02-01T10:00:00.000Z'',
       created_time = ''2026-02-01T09:00:00.000Z'' \<rparr>"

definition two_pages :: "page list" where
  "two_pages = [english_page, cjk_page]"

text \<open>A database on which every archival succeeds, one on which none does, and one on
  which every write succeeds.\<close>

definition always_ok :: "'a \<Rightarrow> bool" where
  "always_ok x = True"

definition never_ok :: "'a \<Rightarrow> bool" where
  "never_ok x = False"

section \<open>Facts about the text primitives\<close>

lemma starts_with_iff: "starts_with p s \<longleftrightarrow> (\<exists>r. s = p @ r)"
  by (induction p s rule: starts_with.induct) auto

lemma py_in_iff: "py_in needle hay \<longleftrightarrow> (\<exists>l r. hay = l @ needle @ r)"
proof (induction hay)
  case Nil
  then show ?case by auto
next
  case (Cons c cs)
  show ?case
  proof
    assume "py_in needle (c # cs)"
    then consider "starts_with needle (c # cs)" | "py_in needle cs" by auto
    then show "\<exists>l r. c # cs = l @ needle @ r"
    proof cases
      case 1
      then obtain r where "c # cs = needle @ r" by (auto simp: starts_with_iff)
      then have "c # cs = [] @ needle @ r" by simp
      then show ?thesis by blast
    next
      case 2
      then obtain l r where "cs = l @ needle @ r" using Cons.IH by blast
      then have "c # cs = (c # l) @ needle @ r" by simp
      then show ?thesis by blast
    qed
  next
    assume "\<exists>l r. c # cs = l @ needle @ r"
    then obtain l r where h: "c # cs = l @ needle @ r" by blast
    show "py_in needle (c # cs)"
    proof (cases l)
      case Nil
      then have "starts_with needle (c # cs)" using h by (auto simp: starts_with_iff)
      then show ?thesis by simp
    next
      case (Cons a l')
      then have "cs = l' @ needle @ r" using h by simp
      then have "py_in needle cs" using Cons.IH by blast
      then show ?thesis by simp
    qed
  qed
qed


lemma ustr_Nil [simp]: "ustr [] = []"
  by (simp add: ustr_def)

lemma ustr_Cons: "ustr (c # s) = of_char c # ustr s"
  by (simp add: ustr_def)

lemma ustr_append: "ustr (a @ b) = ustr a @ ustr b"
  by (simp add: ustr_def)

lemma ustr_eq_iff [simp]: "ustr a = ustr b \<longleftrightarrow> a = b"
  unfolding ustr_def by (induction a arbitrary: b) (auto simp: Cons_eq_map_conv)

lemma ustr_eq_Nil [simp]: "ustr s = [] \<longleftrightarrow> s = []"
  by (simp add: ustr_def)

lemma length_ustr [simp]: "length (ustr s) = length s"
  by (simp add: ustr_def)

lemma py_in_middle: "py_in needle (l @ needle @ r)"
  by (auto simp: py_in_iff)

section \<open>The retry loop\<close>

lemma retry_loop_spec:
  "retry_loop rt m call a sl = (out, n, sl') \<Longrightarrow>
     a < n \<and> n \<le> max (Suc a) (Suc m)
     \<and> sl' = sl @ map (\<lambda>k. min (2 ^ k) 4) [a..<n - 1]
     \<and> out = call (n - 1)
     \<and> (\<forall>k. a \<le> k \<and> k < n - 1 \<longrightarrow> (\<exists>e. call k = Inl e \<and> rt e \<and> k < m))
     \<and> (\<forall>e. out = Inl e \<longrightarrow> m \<le> n - 1 \<or> \<not> rt e)"
proof (induction rt m call a sl arbitrary: out n sl' rule: retry_loop.induct)
  case (1 rt m call a sl)
  show ?case
  proof (cases "call a")
    case (Inr r)
    with "1.prems" have "out = Inr r" "n = Suc a" "sl' = sl"
      by (auto simp: retry_loop.simps)
    with Inr show ?thesis by auto
  next
    case (Inl exc)
    show ?thesis
    proof (cases "a \<ge> m \<or> \<not> rt exc")
      case True
      with Inl "1.prems" have "out = Inl exc" "n = Suc a" "sl' = sl"
        by (auto simp: retry_loop.simps)
      with Inl True show ?thesis by auto
    next
      case False
      with Inl "1.prems"
      have rec: "retry_loop rt m call (Suc a) (sl @ [min (2 ^ a) 4]) = (out, n, sl')"
        by (simp add: retry_loop.simps)
      from "1.IH" [OF Inl False rec]
      have ih: "Suc a < n" "n \<le> max (Suc (Suc a)) (Suc m)"
        "sl' = (sl @ [min (2 ^ a) 4]) @ map (\<lambda>k. min (2 ^ k) 4) [Suc a..<n - 1]"
        "out = call (n - 1)"
        "\<forall>k. Suc a \<le> k \<and> k < n - 1 \<longrightarrow> (\<exists>e. call k = Inl e \<and> rt e \<and> k < m)"
        "\<forall>e. out = Inl e \<longrightarrow> m \<le> n - 1 \<or> \<not> rt e"
        by auto
      from False have am: "a < m" "rt exc" by auto
      have "[a..<n - 1] = a # [Suc a..<n - 1]"
        using ih(1) by (simp add: upt_conv_Cons)
      then have sl: "sl' = sl @ map (\<lambda>k. min (2 ^ k) 4) [a..<n - 1]"
        using ih(3) by simp
      have range: "\<forall>k. a \<le> k \<and> k < n - 1 \<longrightarrow> (\<exists>e. call k = Inl e \<and> rt e \<and> k < m)"
      proof (intro allI impI)
        fix k assume k: "a \<le> k \<and> k < n - 1"
        show "\<exists>e. call k = Inl e \<and> rt e \<and> k < m"
        proof (cases "k = a")
          case True
          then show ?thesis using Inl am by simp
        next
          case False
          then have "Suc a \<le> k \<and> k < n - 1" using k by simp
          then show ?thesis using ih(5) by blast
        qed
      qed
      have "a < n" using ih(1) by simp
      moreover have "n \<le> max (Suc a) (Suc m)" using ih(2) am by simp
      ultimately show ?thesis using sl ih(4) range ih(6) by blast
    qed
  qed
qed


lemma claude_retryable_is_codex_retryable:
  "is_retryable_claude_error e \<Longrightarrow> is_retryable_codex_error e"
  by (auto simp: is_retryable_claude_error_def is_retryable_codex_error_def Let_def)

lemma flaky_error_retryable:
  "is_retryable_codex_error ''Network error: <urlopen error timed out>''"
  by (simp add: is_retryable_codex_error_def py_lower_def py_lower_char_def Let_def)

text \<open>
  Claim C1, as the code has it. For the two local-CLI providers an inference is invoked at
  most three times (two retries); before retry number \<open>k\<close> the runtime sleeps
  \<open>min (2 ^ k) 4\<close> seconds, never more than 4; an invocation is followed by a retry only
  if its error text, lower-cased, contains one of the four markers \<open>timed out\<close>,
  \<open>failed rc=1\<close>, \<open>no json object found\<close>, \<open>rate limit\<close>, so any other error
  propagates at once; and an error that propagates while retries are left contains none of
  the first three markers (for \<open>codex_cli\<close>: none of the four). For \<open>openai\<close> and
  \<open>anthropic\<close> the inference is invoked exactly once, without sleeping, and its outcome,
  error or value, is the result.
\<close>

theorem C1_retry_policy:
  assumes run: "run_api_infer p call = (out, n, sleeps)"
  shows "out = call (n - 1) \<and>
    (p = claude_cli \<or> p = codex_cli \<longrightarrow>
       1 \<le> n \<and> n \<le> 3
       \<and> sleeps = map (\<lambda>k. min (2 ^ k) 4) [0..<n - 1]
       \<and> (\<forall>s \<in> set sleeps. s \<le> 4)
       \<and> (\<forall>k. k < n - 1 \<longrightarrow> (\<exists>e. call k = Inl e \<and> is_retryable_codex_error e))
       \<and> (\<forall>e. out = Inl e \<and> n < 3 \<longrightarrow>
              \<not> is_retryable_claude_error e
              \<and> (p = codex_cli \<longrightarrow> \<not> is_retryable_codex_error e)))
    \<and> (p = openai \<or> p = anthropic \<longrightarrow> n = 1 \<and> sleeps = [])"
proof (cases "p = claude_cli \<or> p = codex_cli")
  case False
  then have "run_api_infer p call = (call 0, 1, [])"
    by (simp add: run_api_infer_def infer_remote_def)
  with run False show ?thesis by auto
next
  case True
  define rt where
    "rt = (if p = claude_cli then is_retryable_claude_error else is_retryable_codex_error)"
  have loop: "retry_loop rt 2 call 0 [] = (out, n, sleeps)"
    using run True
    by (auto simp: run_api_infer_def infer_claude_with_retries_def
        infer_codex_with_retries_def rt_def)
  have rt4: "rt e \<Longrightarrow> is_retryable_codex_error e" for e
    by (auto simp: rt_def claude_retryable_is_codex_retryable split: if_splits)
  from retry_loop_spec [OF loop]
  have s: "0 < n" "n \<le> max (Suc 0) (Suc 2)"
    "sleeps = [] @ map (\<lambda>k. min (2 ^ k) 4) [0..<n - 1]"
    "out = call (n - 1)"
    "\<forall>k. 0 \<le> k \<and> k < n - 1 \<longrightarrow> (\<exists>e. call k = Inl e \<and> rt e \<and> k < 2)"
    "\<forall>e. out = Inl e \<longrightarrow> 2 \<le> n - 1 \<or> \<not> rt e"
    by auto
  have n: "1 \<le> n" "n \<le> 3" using s(1,2) by auto
  have sl: "sleeps = map (\<lambda>k. min (2 ^ k) 4) [0..<n - 1]" using s(3) by simp
  have cap: "\<forall>s \<in> set sleeps. s \<le> 4" unfolding sl by auto
  have only: "\<forall>k. k < n - 1 \<longrightarrow> (\<exists>e. call k = Inl e \<and> is_retryable_codex_error e)"
    using s(5) rt4 by blast
  have fin: "\<forall>e. out = Inl e \<and> n < 3 \<longrightarrow>
      \<not> is_retryable_claude_error e \<and> (p = codex_cli \<longrightarrow> \<not> is_retryable_codex_error e)"
  proof (intro allI impI)
    fix e assume a: "out = Inl e \<and> n < 3"
    then have "\<not> rt e" using s(6) by auto
    then show "\<not> is_retryable_claude_error e
        \<and> (p = codex_cli \<longrightarrow> \<not> is_retryable_codex_error e)"
      using True by (auto simp: rt_def claude_retryable_is_codex_retryable split: if_splits)
  qed
  from True have "\<not> (p = openai \<or> p = anthropic)" by auto
  with s(4) n sl cap only fin show ?thesis by blast
qed

text \<open>
  Witness for C1: \<open>codex_cli\<close> against a provider that times out twice. Three invocations,
  sleeps of 1 and 2 seconds, and the third outcome is returned.
\<close>

theorem C1_retry_policy_witness:
  "run_api_infer codex_cli flaky_provider = (Inr 7, 3, [1, 2])
   \<and> Inr 7 = flaky_provider 2
   \<and> (\<exists>e. flaky_provider 0 = Inl e \<and> is_retryable_codex_error e)
   \<and> (\<exists>e. flaky_provider 1 = Inl e \<and> is_retryable_codex_error e)"
proof -
  have run: "run_api_infer codex_cli flaky_provider = (Inr 7, 3, [1, 2])"
    by (simp add: run_api_infer_def infer_codex_with_retries_def retry_loop.simps
        flaky_provider_def flaky_error_retryable)
  from C1_retry_policy [OF run]
  have "Inr 7 = flaky_provider (3 - 1)"
    and "\<forall>k. k < 3 - 1 \<longrightarrow> (\<exists>e. flaky_provider k = Inl e \<and> is_retryable_codex_error e)"
    by simp_all
  then show ?thesis using run by simp
qed

text \<open>
  Counterexample to C1 as stated: with provider \<open>openai\<close> the same provider behaviour (a
  retryable \<open>timed out\<close> error, success from the third invocation on) ends after one
  invocation with the error; nothing is retried.
\<close>

theorem C1_counterexample:
  "run_api_infer openai flaky_provider
     = (Inl ''Network error: <urlopen error timed out>'', 1, [])
   \<and> is_retryable_codex_error ''Network error: <urlopen error timed out>''
   \<and> flaky_provider 2 = Inr 7"
  by (simp add: run_api_infer_def infer_remote_def flaky_provider_def flaky_error_retryable)

section \<open>The digest timeline\<close>

lemma length_dedupe_turns: "length (dedupe_turns seen ts) \<le> length ts"
  by (induction ts arbitrary: seen) (auto simp: Let_def le_SucI)

text \<open>
  The loop keeps the turn at position \<open>j\<close> exactly when its \<open>turn_id\<close> is not positive, or
  is neither in \<open>seen\<close> nor the \<open>turn_id\<close> of an earlier turn.
\<close>

lemma dedupe_turns_positions:
  "dedupe_turns seen ts =
     map (\<lambda>j. ts ! j)
       (filter (\<lambda>j. turn_id_or_0 (ts ! j) \<le> 0
                    \<or> (turn_id_or_0 (ts ! j) \<notin> set seen
                        \<and> turn_id_or_0 (ts ! j) \<notin> set (map turn_id_or_0 (take j ts))))
          [0..<length ts])"
proof (induction ts arbitrary: seen)
  case Nil
  then show ?case by simp
next
  case (Cons t ts)
  let ?i = "turn_id_or_0 t"
  have upt: "[0..<length (t # ts)] = 0 # map Suc [0..<length ts]"
    by (simp add: upt_conv_Cons map_Suc_upt del: upt_Suc)
  show ?case
  proof (cases "0 < ?i \<and> ?i \<in> set seen")
    case True
    have "dedupe_turns seen (t # ts) = dedupe_turns seen ts" using True by (simp add: Let_def)
    also have "\<dots> = map (\<lambda>j. ts ! j)
       (filter (\<lambda>j. turn_id_or_0 (ts ! j) \<le> 0
                    \<or> (turn_id_or_0 (ts ! j) \<notin> set seen
                        \<and> turn_id_or_0 (ts ! j) \<notin> set (map turn_id_or_0 (take j ts))))
          [0..<length ts])" by (rule Cons.IH)
    also have "\<dots> = map (\<lambda>j. (t # ts) ! j)
       (filter (\<lambda>j. turn_id_or_0 ((t # ts) ! j) \<le> 0
                    \<or> (turn_id_or_0 ((t # ts) ! j) \<notin> set seen
                        \<and> turn_id_or_0 ((t # ts) ! j)
                            \<notin> set (map turn_id_or_0 (take j (t # ts)))))
          [0..<length (t # ts)])"
      unfolding upt using True
      by (auto simp: filter_map comp_def
          intro!: arg_cong [where f = "map (\<lambda>j. ts ! j)"] filter_cong)
    finally show ?thesis .
  next
    case False
    let ?seen' = "if 0 < ?i then ?i # seen else seen"
    have "dedupe_turns seen (t # ts) = t # dedupe_turns ?seen' ts"
      using False by (cases "0 < ?i") (simp_all add: Let_def)
    also have "dedupe_turns ?seen' ts = map (\<lambda>j. ts ! j)
       (filter (\<lambda>j. turn_id_or_0 (ts ! j) \<le> 0
                    \<or> (turn_id_or_0 (ts ! j) \<notin> set ?seen'
                        \<and> turn_id_or_0 (ts ! j) \<notin> set (map turn_id_or_0 (take j ts))))
          [0..<length ts])" by (rule Cons.IH)
    also have "t # \<dots> = map (\<lambda>j. (t # ts) ! j)
       (filter (\<lambda>j. turn_id_or_0 ((t # ts) ! j) \<le> 0
                    \<or> (turn_id_or_0 ((t # ts) ! j) \<notin> set seen
                        \<and> turn_id_or_0 ((t # ts) ! j)
                            \<notin> set (map turn_id_or_0 (take j (t # ts)))))
          [0..<length (t # ts)])"
      unfolding upt using False
      by (auto simp: filter_map comp_def
          intro!: arg_cong [where f = "map (\<lambda>j. ts ! j)"] filter_cong)
    finally show ?thesis .
  qed
qed

lemma dedupe_turns_positive: "dedupe_turns [] ts = dedupe_positive ts"
  unfolding dedupe_positive_def kept_turn_def
  by (subst dedupe_turns_positions) simp

text \<open>
  The loop agrees with deduplication on every \<open>turn_id\<close> as long as no two turns share a
  \<open>turn_id\<close> that is zero, negative or absent; \<open>seen'\<close> is the set the specification's loop
  would hold.
\<close>

lemma dedupe_turns_general:
  "distinct (filter (\<lambda>i. i \<le> 0) (map turn_id_or_0 ts)) \<Longrightarrow>
   \<forall>t \<in> set ts. turn_id_or_0 t \<le> 0 \<longrightarrow> turn_id_or_0 t \<notin> set seen' \<Longrightarrow>
   set seen = {i \<in> set seen'. 0 < i} \<Longrightarrow>
   dedupe_turns seen ts = spec_dedupe_by_turn_id seen' ts"
proof (induction ts arbitrary: seen seen')
  case Nil
  then show ?case by simp
next
  case (Cons t ts)
  let ?i = "turn_id_or_0 t"
  have d: "distinct (filter (\<lambda>i. i \<le> 0) (map turn_id_or_0 ts))"
    using Cons.prems(1) by (simp split: if_split_asm)
  have old: "\<And>u. u \<in> set ts \<Longrightarrow> turn_id_or_0 u \<le> 0 \<Longrightarrow> turn_id_or_0 u \<notin> set seen'"
    using Cons.prems(2) by simp
  show ?case
  proof (cases "0 < ?i")
    case True
    have n: "\<forall>u \<in> set ts. turn_id_or_0 u \<le> 0 \<longrightarrow> turn_id_or_0 u \<notin> set (?i # seen')"
      using old True by auto
    have s: "set (?i # seen) = {i \<in> set (?i # seen'). 0 < i}"
      using Cons.prems(3) True by auto
    have mem: "?i \<in> set seen \<longleftrightarrow> ?i \<in> set seen'"
      using Cons.prems(3) True by auto
    show ?thesis
      using True mem Cons.IH [OF d n s] Cons.IH [OF d _ Cons.prems(3)] Cons.prems(2)
      by (simp add: Let_def)
  next
    case False
    have notin: "?i \<notin> set seen'" using Cons.prems(2) False by simp
    have "?i \<notin> set (map turn_id_or_0 ts)"
      using Cons.prems(1) False by (auto split: if_split_asm)
    then have fresh: "\<And>u. u \<in> set ts \<Longrightarrow> turn_id_or_0 u \<noteq> ?i"
      by (metis image_eqI set_map)
    have n: "\<forall>u \<in> set ts. turn_id_or_0 u \<le> 0 \<longrightarrow> turn_id_or_0 u \<notin> set (?i # seen')"
      using fresh old by simp
    have s: "set seen = {i \<in> set (?i # seen'). 0 < i}"
      using Cons.prems(3) False by auto
    show ?thesis
      using False notin Cons.IH [OF d n s] by (simp add: Let_def)
  qed
qed

lemma selected_nonpositive_distinct:
  assumes "12 < length turns"
    and "distinct (filter (\<lambda>i. i \<le> 0) (map turn_id_or_0 turns))"
  shows "distinct (filter (\<lambda>i. i \<le> 0)
           (map turn_id_or_0 (take 6 turns @ drop (length turns - 6) turns)))"
proof -
  let ?n = "length turns"
  have "turns = take 6 turns @ drop 6 turns" by simp
  moreover have "drop 6 turns = take (?n - 12) (drop 6 turns) @ drop (?n - 12) (drop 6 turns)"
    by (simp only: append_take_drop_id)
  moreover have "drop (?n - 12) (drop 6 turns) = drop (?n - 6) turns"
    using assms(1) by simp
  ultimately have split:
    "turns = take 6 turns @ take (?n - 12) (drop 6 turns) @ drop (?n - 6) turns"
    by metis
  have "distinct (filter (\<lambda>i. i \<le> 0)
          (map turn_id_or_0
             (take 6 turns @ take (?n - 12) (drop 6 turns) @ drop (?n - 6) turns)))"
    using assms(2) split by simp
  then show ?thesis by auto
qed

lemma length_timeline_entries: "length (timeline_entries idx ts) = length ts"
  by (induction ts arbitrary: idx) auto

lemma select_timeline_turns_12:
  "select_timeline_turns turns 12 =
     (if length turns \<le> 12 then turns
      else dedupe_turns [] (take 6 turns @ drop (length turns - 6) turns))"
  by (simp add: select_timeline_turns_def py_last_n_def Let_def)

text \<open>
  Claim C4, as the code has it. The timeline of a conversation of at most 12 turns has one
  entry per turn, in order. The timeline of a longer conversation has one entry per turn of
  \<open>turns[:6] + turns[-6:]\<close> deduplicated on the positive turn ids only: a turn is dropped
  exactly when its \<open>turn_id\<close> is positive and an earlier selected turn has the same
  \<open>turn_id\<close>, so a turn whose \<open>turn_id\<close> is zero, negative or absent is never dropped. This
  is the deduplication by \<open>turn_id\<close>, first occurrence kept, whenever no two turns of the
  conversation share a \<open>turn_id\<close> that is not positive. In every case the timeline has at
  most 12 entries.
\<close>

theorem C4_digest_timeline:
  "(length turns \<le> 12 \<longrightarrow> digest_timeline turns = timeline_entries 1 turns)
   \<and> (length turns > 12 \<longrightarrow>
        digest_timeline turns
          = timeline_entries 1
              (dedupe_positive (take 6 turns @ drop (length turns - 6) turns)))
   \<and> (length turns > 12 \<and> distinct (filter (\<lambda>i. i \<le> 0) (map turn_id_or_0 turns)) \<longrightarrow>
        dedupe_positive (take 6 turns @ drop (length turns - 6) turns)
          = spec_dedupe_by_turn_id [] (take 6 turns @ drop (length turns - 6) turns))
   \<and> length (digest_timeline turns) \<le> 12"
proof (intro conjI impI)
  assume "length turns \<le> 12"
  then show "digest_timeline turns = timeline_entries 1 turns"
    by (simp add: digest_timeline_def select_timeline_turns_12)
next
  assume "length turns > 12"
  then show "digest_timeline turns
      = timeline_entries 1 (dedupe_positive (take 6 turns @ drop (length turns - 6) turns))"
    by (simp add: digest_timeline_def select_timeline_turns_12 dedupe_turns_positive)
next
  assume a: "length turns > 12 \<and> distinct (filter (\<lambda>i. i \<le> 0) (map turn_id_or_0 turns))"
  let ?sel = "take 6 turns @ drop (length turns - 6) turns"
  have "distinct (filter (\<lambda>i. i \<le> 0) (map turn_id_or_0 ?sel))"
    using a by (simp only: selected_nonpositive_distinct)
  then have "dedupe_turns [] ?sel = spec_dedupe_by_turn_id [] ?sel"
    by (rule dedupe_turns_general) simp_all
  then show "dedupe_positive ?sel = spec_dedupe_by_turn_id [] ?sel"
    by (simp only: dedupe_turns_positive)
next
  show "length (digest_timeline turns) \<le> 12"
  proof (cases "length turns \<le> 12")
    case True
    then show ?thesis
      by (simp add: digest_timeline_def select_timeline_turns_12 length_timeline_entries)
  next
    case False
    let ?sel = "take 6 turns @ drop (length turns - 6) turns"
    have "length (dedupe_turns [] ?sel) \<le> length ?sel" by (rule length_dedupe_turns)
    also have "length ?sel = 12" using False by simp
    finally show ?thesis using False
      by (simp add: digest_timeline_def select_timeline_turns_12 length_timeline_entries)
  qed
qed

lemma selected_thirteen:
  "take 6 (map bare_turn [a, b, c, d, e, f, g, h, i, j, k, l, m])
     @ drop (length (map bare_turn [a, b, c, d, e, f, g, h, i, j, k, l, m]) - 6)
         (map bare_turn [a, b, c, d, e, f, g, h, i, j, k, l, m])
   = map bare_turn [a, b, c, d, e, f, h, i, j, k, l, m]"
  by simp

lemma turn_id_bare_turn [simp]: "turn_id_or_0 (bare_turn i) = i"
  by (simp add: bare_turn_def turn_id_or_0_def)

text \<open>
  Witness for C4. Twelve turns give twelve entries, one per turn. Thirteen turns numbered
  from 1 give the entries of turns 1 to 6 and 8 to 13, and numbered from 0 those of turns
  0 to 5 and 7 to 12. When the twelfth of thirteen turns repeats the \<open>turn_id\<close> 3, it is
  dropped and eleven entries remain.
\<close>

theorem C4_digest_timeline_witness:
  "length twelve_turns \<le> 12
   \<and> digest_timeline twelve_turns = timeline_entries 1 twelve_turns
   \<and> length thirteen_turns > 12
   \<and> digest_timeline thirteen_turns
       = timeline_entries 1 (map bare_turn [1, 2, 3, 4, 5, 6, 8, 9, 10, 11, 12, 13])
   \<and> length zero_based_turns > 12
   \<and> distinct (filter (\<lambda>i. i \<le> 0) (map turn_id_or_0 zero_based_turns))
   \<and> digest_timeline zero_based_turns
       = timeline_entries 1 (map bare_turn [0, 1, 2, 3, 4, 5, 7, 8, 9, 10, 11, 12])
   \<and> spec_dedupe_by_turn_id []
         (take 6 zero_based_turns @ drop (length zero_based_turns - 6) zero_based_turns)
       = map bare_turn [0, 1, 2, 3, 4, 5, 7, 8, 9, 10, 11, 12]
   \<and> length repeated_id_turns > 12
   \<and> digest_timeline repeated_id_turns
       = timeline_entries 1 (map bare_turn [1, 2, 3, 4, 5, 6, 8, 9, 10, 11, 12])
   \<and> length (digest_timeline repeated_id_turns) \<le> 12"
proof -
  have h12: "length twelve_turns \<le> 12" by (simp add: twelve_turns_def)
  have h13: "length thirteen_turns > 12" by (simp add: thirteen_turns_def)
  have h0: "length zero_based_turns > 12
      \<and> distinct (filter (\<lambda>i. i \<le> 0) (map turn_id_or_0 zero_based_turns))"
    by (simp add: zero_based_turns_def)
  have hr: "length repeated_id_turns > 12" by (simp add: repeated_id_turns_def)
  have d13: "dedupe_positive (take 6 thirteen_turns @ drop (length thirteen_turns - 6) thirteen_turns)
      = map bare_turn [1, 2, 3, 4, 5, 6, 8, 9, 10, 11, 12, 13]"
    unfolding thirteen_turns_def selected_thirteen
    by (simp add: dedupe_turns_positive [symmetric])
  have d0: "dedupe_positive (take 6 zero_based_turns @ drop (length zero_based_turns - 6) zero_based_turns)
      = map bare_turn [0, 1, 2, 3, 4, 5, 7, 8, 9, 10, 11, 12]"
    unfolding zero_based_turns_def selected_thirteen
    by (simp add: dedupe_turns_positive [symmetric])
  have dr: "dedupe_positive (take 6 repeated_id_turns @ drop (length repeated_id_turns - 6) repeated_id_turns)
      = map bare_turn [1, 2, 3, 4, 5, 6, 8, 9, 10, 11, 12]"
    unfolding repeated_id_turns_def selected_thirteen
    by (simp add: dedupe_turns_positive [symmetric])
  have a: "digest_timeline twelve_turns = timeline_entries 1 twelve_turns"
    using C4_digest_timeline [of twelve_turns] h12 by blast
  have b: "digest_timeline thirteen_turns
      = timeline_entries 1 (map bare_turn [1, 2, 3, 4, 5, 6, 8, 9, 10, 11, 12, 13])"
    using C4_digest_timeline [of thirteen_turns] h13 d13 by metis
  have c: "digest_timeline zero_based_turns
      = timeline_entries 1 (map bare_turn [0, 1, 2, 3, 4, 5, 7, 8, 9, 10, 11, 12])"
    using C4_digest_timeline [of zero_based_turns] h0 d0 by metis
  have c': "spec_dedupe_by_turn_id []
         (take 6 zero_based_turns @ drop (length zero_based_turns - 6) zero_based_turns)
       = map bare_turn [0, 1, 2, 3, 4, 5, 7, 8, 9, 10, 11, 12]"
    using C4_digest_timeline [of zero_based_turns] h0 d0 by metis
  have d: "digest_timeline repeated_id_turns
      = timeline_entries 1 (map bare_turn [1, 2, 3, 4, 5, 6, 8, 9, 10, 11, 12])"
    using C4_digest_timeline [of repeated_id_turns] hr dr by metis
  have e: "length (digest_timeline repeated_id_turns) \<le> 12"
    using C4_digest_timeline [of repeated_id_turns] by blast
  show ?thesis using h12 a h13 b h0 c c' hr d e by blast
qed

text \<open>
  Counterexample to C4 as stated: of thirteen turns the first two have the \<open>turn_id\<close> 0.
  The timeline keeps both, twelve entries in all, where deduplication by \<open>turn_id\<close> leaves
  eleven turns.
\<close>

theorem C4_counterexample:
  "length repeated_zero_turns = 13
   \<and> map item_turn_id (digest_timeline repeated_zero_turns)
       = [1, 2, 1, 2, 3, 4, 6, 7, 8, 9, 10, 11]
   \<and> map turn_id_or_0
         (spec_dedupe_by_turn_id []
            (take 6 repeated_zero_turns @ drop (length repeated_zero_turns - 6) repeated_zero_turns))
       = [0, 1, 2, 3, 4, 6, 7, 8, 9, 10, 11]
   \<and> digest_timeline repeated_zero_turns
       \<noteq> timeline_entries 1
           (spec_dedupe_by_turn_id []
              (take 6 repeated_zero_turns
               @ drop (length repeated_zero_turns - 6) repeated_zero_turns))"
proof -
  have ids: "map item_turn_id (digest_timeline repeated_zero_turns)
      = [1, 2, 1, 2, 3, 4, 6, 7, 8, 9, 10, 11]"
    by (simp add: repeated_zero_turns_def digest_timeline_def select_timeline_turns_12
        bare_turn_def turn_id_or_0_def timeline_entry_def)
  have spec: "spec_dedupe_by_turn_id []
         (take 6 repeated_zero_turns @ drop (length repeated_zero_turns - 6) repeated_zero_turns)
       = map bare_turn [0, 1, 2, 3, 4, 6, 7, 8, 9, 10, 11]"
    unfolding repeated_zero_turns_def selected_thirteen by simp
  have "length (digest_timeline repeated_zero_turns) = 12"
    using arg_cong [OF ids, of length] by simp
  moreover have "length (timeline_entries 1
           (spec_dedupe_by_turn_id []
              (take 6 repeated_zero_turns
               @ drop (length repeated_zero_turns - 6) repeated_zero_turns))) = 11"
    unfolding spec by (simp add: length_timeline_entries)
  ultimately have "digest_timeline repeated_zero_turns
       \<noteq> timeline_entries 1
           (spec_dedupe_by_turn_id []
              (take 6 repeated_zero_turns
               @ drop (length repeated_zero_turns - 6) repeated_zero_turns))"
    by (metis numeral_eq_iff semiring_norm(88) Suc_n_not_n eval_nat_numeral(3))
  then show ?thesis using ids spec by (simp add: repeated_zero_turns_def)
qed

section \<open>The period of the incremental command\<close>

lemma length_pad_left: "width \<le> length (pad_left width c s)"
  by (simp add: pad_left_def)

lemma length_isoformat: "10 \<le> length (isoformat d)"
proof -
  obtain y m dd where c: "civil_of_ordinal d = (y, m, dd)"
    by (cases "civil_of_ordinal d") auto
  have "4 \<le> length (pad_left 4 (CHR ''0'') (show_nat (nat y)))"
    "2 \<le> length (pad_left 2 (CHR ''0'') (show_nat (nat m)))"
    "2 \<le> length (pad_left 2 (CHR ''0'') (show_nat (nat dd)))"
    by (rule length_pad_left)+
  then show ?thesis by (simp add: isoformat_def c)
qed

lemma isoformat_nonempty: "isoformat d \<noteq> []"
  using length_isoformat [of d] by auto

lemma strip_30d: "py_lower (py_strip ''30d'') = ''30d''"
  by (simp add: py_strip_def py_lower_def py_isspace_def py_lower_char_def)

lemma parse_window_30d:
  "parse_window_to_since ''30d'' today =
     (if today < 31 then Inl OverflowError else Inr (Some (isoformat (today - 30))))"
  by (simp add: parse_window_to_since_def strip_30d Let_def is_digit_def digits_value_def)

lemma isoformat_2026_02_06: "isoformat 739653 = ''2026-02-06''"
  by code_simp

lemma isoformat_2026_01_07: "isoformat 739623 = ''2026-01-07''"
  by code_simp

text \<open>
  Claim C3, as the code has it. With \<open>--window 30d\<close> and none of \<open>--period-id\<close>,
  \<open>--since\<close>, \<open>--until\<close>, the command resolves \<open>since\<close> to the date 30 days before today
  and \<open>until\<close> to today, and the period id is \<open><since>_to_<until>\<close>, never \<open>rolling_30d\<close>;
  the sidecar path is \<open>data/insights/incremental/<since>_to_<until>.json\<close>. (Dates are
  ordinals; the hypothesis on \<open>today_since\<close> says that the date 30 days earlier exists.)
\<close>

theorem C3_period_id:
  assumes "\<not> given (arg_period_id args)" and "\<not> given (arg_since args)"
    and "\<not> given (arg_until args)" and "arg_window args = ''30d''" and "31 \<le> today_since"
  shows "cmd_incremental_period args today_since today_until
      = Go \<lparr> resolved_since = Some (isoformat (today_since - 30)),
             resolved_until = Some (isoformat today_until),
             resolved_period_id = isoformat (today_since - 30) @ ''_to_'' @ isoformat today_until \<rparr>
    \<and> isoformat (today_since - 30) @ ''_to_'' @ isoformat today_until \<noteq> ''rolling_30d''
    \<and> incremental_sidecar_path (isoformat (today_since - 30) @ ''_to_'' @ isoformat today_until)
      = (''data/insights/incremental'',
         isoformat (today_since - 30) @ ''_to_'' @ isoformat today_until @ ''.json'')"
proof -
  have ne: "isoformat (today_since - 30) @ ''_to_'' @ isoformat today_until \<noteq> ''rolling_30d''"
  proof
    assume "isoformat (today_since - 30) @ ''_to_'' @ isoformat today_until = ''rolling_30d''"
    then have "length (isoformat (today_since - 30) @ ''_to_'' @ isoformat today_until) = 11"
      by simp
    then show False
      using length_isoformat [of "today_since - 30"] length_isoformat [of today_until] by simp
  qed
  have "cmd_incremental_period args today_since today_until
      = Go \<lparr> resolved_since = Some (isoformat (today_since - 30)),
             resolved_until = Some (isoformat today_until),
             resolved_period_id = isoformat (today_since - 30) @ ''_to_'' @ isoformat today_until \<rparr>"
    using assms
    by (simp add: cmd_incremental_period_def parse_window_30d build_period_id_def given_def
        isoformat_nonempty Let_def)
  then show ?thesis using ne
    by (simp add: incremental_sidecar_path_def INSIGHTS_INCREMENTAL_DIR_def)
qed

text \<open>
  Witness for C3: on 2026-02-06 (ordinal 739653) the period id is
  \<open>2026-01-07_to_2026-02-06\<close>.
\<close>

theorem C3_period_id_witness:
  "cmd_incremental_period args_30d 739653 739653
     = Go \<lparr> resolved_since = Some ''2026-01-07'', resolved_until = Some ''2026-02-06'',
            resolved_period_id = ''2026-01-07_to_2026-02-06'' \<rparr>
   \<and> incremental_sidecar_path ''2026-01-07_to_2026-02-06''
      = (''data/insights/incremental'', ''2026-01-07_to_2026-02-06.json'')"
proof -
  have h: "\<not> given (arg_period_id args_30d)" "\<not> given (arg_since args_30d)"
    "\<not> given (arg_until args_30d)" "arg_window args_30d = ''30d''" "(31::int) \<le> 739653"
    by (simp_all add: args_30d_def given_def)
  from C3_period_id [OF h, of 739653] show ?thesis
    by (simp add: isoformat_2026_02_06 isoformat_2026_01_07)
qed

text \<open>
  Counterexample to C3 as stated: \<open>incremental --window 30d\<close> run on 2026-02-06 computes
  the period id \<open>2026-01-07_to_2026-02-06\<close>, not \<open>rolling_30d\<close>.
\<close>

theorem C3_counterexample:
  "cmd_incremental_period args_30d 739653 739653
     = Go \<lparr> resolved_since = Some ''2026-01-07'', resolved_until = Some ''2026-02-06'',
            resolved_period_id = ''2026-01-07_to_2026-02-06'' \<rparr>
   \<and> ''2026-01-07_to_2026-02-06'' \<noteq> ''rolling_30d''"
  by (simp add: cmd_incremental_period_def args_30d_def parse_window_30d build_period_id_def
      given_def isoformat_2026_02_06 isoformat_2026_01_07 Let_def)

section \<open>The validators\<close>

lemma registry_entry: "DIMENSION_LAYER_MAP d = Some e \<Longrightarrow> d \<noteq> [] \<and> e \<noteq> []"
  by (auto simp: DIMENSION_LAYER_MAP_def DIMENSION_LAYER_PAIRS_def split: if_splits)

lemma validate_report_mismatch:
  assumes "DIMENSION_LAYER_MAP (ustrip (str_or_empty (dict_get item ''dimension''))) = Some expected"
    and "ustrip (str_or_empty (dict_get item ''layer'')) \<noteq> []"
    and "ustrip (str_or_empty (dict_get item ''layer'')) \<noteq> expected"
  shows "(ustr ''reports['' @ ustr (show_nat idx) @ ustr '']'' @ ustr ''.layer must be ''
          @ ustr [CHR 0x27] @ expected @ ustr [CHR 0x27] @ ustr '' for dimension ''
          @ ustr [CHR 0x27] @ ustrip (str_or_empty (dict_get item ''dimension''))
          @ ustr [CHR 0x27])
         \<in> set (fst (validate_report pid week idx seen item))"
  using assms registry_entry [OF assms(1)]
  by (simp add: validate_report_def Let_def)

lemma validate_reports_mismatch:
  assumes "k < length items" and "items ! k = JObj item"
    and "DIMENSION_LAYER_MAP (ustrip (str_or_empty (dict_get item ''dimension''))) = Some expected"
    and "ustrip (str_or_empty (dict_get item ''layer'')) \<noteq> []"
    and "ustrip (str_or_empty (dict_get item ''layer'')) \<noteq> expected"
  shows "(ustr ''reports['' @ ustr (show_nat (idx + k)) @ ustr '']'' @ ustr ''.layer must be ''
          @ ustr [CHR 0x27] @ expected @ ustr [CHR 0x27] @ ustr '' for dimension ''
          @ ustr [CHR 0x27] @ ustrip (str_or_empty (dict_get item ''dimension''))
          @ ustr [CHR 0x27])
         \<in> set (validate_reports pid week idx seen items)"
  using assms(1,2)
proof (induction items arbitrary: idx seen k)
  case Nil
  then show ?case by simp
next
  case (Cons x xs)
  show ?case
  proof (cases k)
    case 0
    then have x: "x = JObj item" using Cons.prems by simp
    from validate_report_mismatch [OF assms(3,4,5), of idx pid week seen]
    show ?thesis using 0 x by (auto simp: split_beta Let_def)
  next
    case (Suc k')
    then have k': "k' < length xs" "xs ! k' = JObj item" using Cons.prems by auto
    have "idx + k = Suc idx + k'" using Suc by simp
    with Cons.IH [OF k', of "Suc idx"] show ?thesis
      by (cases x) (auto simp: split_beta Let_def)
  qed
qed

text \<open>
  Claim C6. Let a payload hold, at position \<open>k\<close> of its \<open>reports\<close>, a report whose
  dimension (as the validator reads it: \<open>str(... or "").strip()\<close>) is in the registry with
  layer \<open>expected\<close>, and whose layer, read the same way, is not empty and differs from
  \<open>expected\<close>. Then the validator returns a list of errors that contains
  \<open>reports[k].layer must be '<expected>' for dimension '<dimension>'\<close>, whose text
  contains \<open>layer must be '<expected>'\<close>: the expected layer between two apostrophes
  (U+0027).
\<close>

theorem C6_layer_mismatch:
  assumes "dict_get p ''reports'' = JList reports"
    and "k < length reports" and "reports ! k = JObj item"
    and "DIMENSION_LAYER_MAP (ustrip (str_or_empty (dict_get item ''dimension''))) = Some expected"
    and "ustrip (str_or_empty (dict_get item ''layer'')) \<noteq> []"
    and "ustrip (str_or_empty (dict_get item ''layer'')) \<noteq> expected"
  shows "\<exists>errors e. validate_incremental_mechanism (JObj p) = Inr errors
           \<and> e \<in> set errors
           \<and> e = ustr ''reports['' @ ustr (show_nat k) @ ustr ''].layer must be ''
                 @ [39] @ expected @ [39] @ ustr '' for dimension ''
                 @ [39] @ ustrip (str_or_empty (dict_get item ''dimension'')) @ [39]
           \<and> py_in (ustr ''layer must be '' @ [39] @ expected @ [39]) e"
proof -
  let ?d = "ustrip (str_or_empty (dict_get item ''dimension''))"
  let ?e = "ustr ''reports['' @ ustr (show_nat k) @ ustr ''].layer must be ''
            @ [39] @ expected @ [39] @ ustr '' for dimension '' @ [39] @ ?d @ [39]"
  have q: "ustr [CHR 0x27] = [39]" by (simp add: ustr_Cons)
  have j: "ustr '']'' @ ustr ''.layer must be '' @ rest = ustr ''].layer must be '' @ rest"
    for rest by (simp add: ustr_Cons)
  obtain r rs where rs: "reports = r # rs" using assms(2) by (cases reports) auto
  have "?e \<in> set (validate_reports (dict_get p ''period_id'') (dict_get p ''week'') 0 [] reports)"
    using validate_reports_mismatch
      [OF assms(2-6), of 0 "dict_get p ''period_id''" "dict_get p ''week''" "[]"] j
    by (simp add: q)
  then have mem:
    "?e \<in> set (case validate_incremental_mechanism (JObj p) of Inr es \<Rightarrow> es | Inl x \<Rightarrow> [])"
    using assms(1) rs by (simp add: validate_incremental_mechanism_def Let_def)
  have "?e = (ustr ''reports['' @ ustr (show_nat k) @ ustr ''].'')
             @ (ustr ''layer must be '' @ [39] @ expected @ [39])
             @ (ustr '' for dimension '' @ [39] @ ?d @ [39])"
    by (simp add: ustr_append [symmetric])
  then have "py_in (ustr ''layer must be '' @ [39] @ expected @ [39]) ?e"
    using py_in_middle by metis
  moreover obtain errors where "validate_incremental_mechanism (JObj p) = Inr errors"
    by (simp add: validate_incremental_mechanism_def Let_def)
  ultimately show ?thesis using mem by auto
qed

lemma mismatch_payload_reports: "dict_get mismatch_payload ''reports'' = JList [JObj mismatch_report]"
  by code_simp

lemma mismatch_report_dimension:
  "DIMENSION_LAYER_MAP (ustrip (str_or_empty (dict_get mismatch_report ''dimension'')))
     = Some (ustr ''L2'')"
  by code_simp

lemma mismatch_report_layer:
  "ustrip (str_or_empty (dict_get mismatch_report ''layer'')) = ustr ''L3''"
  by code_simp

lemma mismatch_payload_errors:
  "validate_incremental_mechanism (JObj mismatch_payload)
     = Inr [ustr (''reports[0].layer must be '' @ [CHR 0x27] @ ''L2'' @ [CHR 0x27]
                  @ '' for dimension '' @ [CHR 0x27] @ ''incremental-task-stratification''
                  @ [CHR 0x27])]"
  by code_simp

text \<open>
  Witness for C6: dimension \<open>incremental-task-stratification\<close> with layer \<open>L3\<close>. The
  validator returns the single error
  \<open>reports[0].layer must be 'L2' for dimension 'incremental-task-stratification'\<close>, in
  which \<open>layer must be 'L2'\<close> occurs: the code points of \<open>layer must be\<close>, a blank, then
  39, 76, 50, 39.
\<close>

theorem C6_layer_mismatch_witness:
  "dict_get mismatch_payload ''reports'' = JList [JObj mismatch_report]
   \<and> DIMENSION_LAYER_MAP (ustrip (str_or_empty (dict_get mismatch_report ''dimension'')))
       = Some (ustr ''L2'')
   \<and> ustrip (str_or_empty (dict_get mismatch_report ''layer'')) = ustr ''L3''
   \<and> validate_incremental_mechanism (JObj mismatch_payload)
       = Inr [ustr (''reports[0].layer must be '' @ [CHR 0x27] @ ''L2'' @ [CHR 0x27]
                    @ '' for dimension '' @ [CHR 0x27] @ ''incremental-task-stratification''
                    @ [CHR 0x27])]
   \<and> (\<exists>errors e. validate_incremental_mechanism (JObj mismatch_payload) = Inr errors
         \<and> e \<in> set errors
         \<and> py_in [108, 97, 121, 101, 114, 32, 109, 117, 115, 116, 32, 98, 101, 32,
                   39, 76, 50, 39] e)"
proof -
  have l: "ustrip (str_or_empty (dict_get mismatch_report ''layer'')) \<noteq> []"
    "ustrip (str_or_empty (dict_get mismatch_report ''layer'')) \<noteq> ustr ''L2''"
    by (simp_all add: mismatch_report_layer)
  have k: "0 < length [JObj mismatch_report]" "[JObj mismatch_report] ! 0 = JObj mismatch_report"
    by simp_all
  have lit: "ustr ''layer must be '' @ [39] @ ustr ''L2'' @ [39]
      = [108, 97, 121, 101, 114, 32, 109, 117, 115, 116, 32, 98, 101, 32, 39, 76, 50, 39]"
    by (simp add: ustr_Cons)
  from C6_layer_mismatch [OF mismatch_payload_reports k mismatch_report_dimension l]
  have "\<exists>errors e. validate_incremental_mechanism (JObj mismatch_payload) = Inr errors
         \<and> e \<in> set errors
         \<and> py_in (ustr ''layer must be '' @ [39] @ ustr ''L2'' @ [39]) e"
    by blast
  then have "\<exists>errors e. validate_incremental_mechanism (JObj mismatch_payload) = Inr errors
         \<and> e \<in> set errors
         \<and> py_in [108, 97, 121, 101, 114, 32, 109, 117, 115, 116, 32, 98, 101, 32,
                   39, 76, 50, 39] e"
    unfolding lit .
  then show ?thesis
    using mismatch_payload_reports mismatch_report_dimension mismatch_report_layer
      mismatch_payload_errors
    by blast
qed

lemma good_sidecar_valid: "validate_session_mechanism good_sidecar = Inr []"
  by code_simp

text \<open>
  Claim C7 fails on the code. A SessionMechanismV1 sidecar that is valid except that its
  evidence item carries \<open>"tier": []\<close> makes \<open>validate_session_mechanism\<close> raise
  \<open>TypeError\<close> (the membership test \<open>tier not in {"primary", "supporting"}\<close> hashes the
  list) where the validator's own message for a bad tier was due; the exception escapes
  \<open>_session_needs_backfill\<close> as well.
\<close>

theorem C7_session_validator_raises:
  "validate_session_mechanism list_tier_sidecar = Inl TypeError
   \<and> session_needs_backfill (sidecars_holding list_tier_sidecar) (ustr ''s-1'') False
       = Inl TypeError"
  by code_simp

section \<open>Backfill selection\<close>

lemma positive_int_iff: "positive_int v \<longleftrightarrow> is_int v \<and> int_value v \<ge> 1"
  by (auto simp: positive_int_def)

lemma ulower_Nil [simp]: "ulower [] = []"
  by (simp add: ulower_def)

lemma ustrip_Nil [simp]: "ustrip [] = []"
  by (simp add: ustrip_def)

lemma contains_placeholder_empty: "contains_placeholder []"
  by (simp add: contains_placeholder_def)

lemma has_valid_evidence_item_spec:
  "has_valid_evidence_item item = spec_concrete_evidence (JObj item)"
  by (auto simp: has_valid_evidence_item_def spec_concrete_evidence_def Let_def positive_int_iff
      contains_placeholder_empty)

lemma any_valid_evidence_spec: "any_valid_evidence evs = list_ex spec_concrete_evidence evs"
  by (induction evs rule: any_valid_evidence.induct)
    (simp_all add: has_valid_evidence_item_spec spec_concrete_evidence_def)

lemma why_has_signal_spec: "why_has_signal why = spec_supported_hypothesis why"
  by (cases why)
    (auto simp: why_has_signal_def spec_supported_hypothesis_def Let_def any_valid_evidence_spec
      contains_placeholder_empty py_or_def split: json.splits)

lemma why_loop_spec: "why_loop items = list_ex spec_supported_hypothesis items"
  by (induction items) (auto simp: why_has_signal_spec)

lemma validate_generated_by_empty:
  "validate_generated_by g = [] \<Longrightarrow> generated_by_block_reason g = None"
  by (cases g) (auto simp: validate_generated_by_def split: option.splits)

lemma valid_session_shape:
  assumes "validate_session_mechanism payload = Inr []"
  shows "\<exists>s w ws. payload = JObj s \<and> dict_get s ''why'' = JList (w # ws)
           \<and> generated_by_block_reason (dict_get s ''generated_by'') = None"
proof -
  obtain s where s: "payload = JObj s"
    using assms by (cases payload) (auto simp: validate_session_mechanism_def)
  from assms have gb: "validate_generated_by (dict_get s ''generated_by'') = []"
    unfolding s validate_session_mechanism_def Let_def
    by (auto split: sum.splits)
  from assms have "\<exists>w ws. dict_get s ''why'' = JList (w # ws)"
    unfolding s validate_session_mechanism_def Let_def
    by (auto split: sum.splits json.splits list.splits)
  with s validate_generated_by_empty [OF gb] show ?thesis by blast
qed

lemma signal_of_valid:
  assumes "validate_session_mechanism payload = Inr []"
  shows "session_has_mechanism_signal payload
           = Inr (\<not> contains_placeholder (summary_text payload) \<and> \<not> spec_low_quality payload)"
proof -
  from valid_session_shape [OF assms] obtain s w ws where
    s: "payload = JObj s" "dict_get s ''why'' = JList (w # ws)"
       "generated_by_block_reason (dict_get s ''generated_by'') = None"
    by blast
  then show ?thesis
    by (simp add: session_has_mechanism_signal_def summary_text_def spec_low_quality_def py_or_def
        why_loop_spec del: why_loop.simps)
qed

text \<open>The validator returns its list exactly on the sidecars that are checkable.\<close>

lemma validate_evidence_returns:
  "(\<exists>errors. validate_evidence e index = Inr errors) \<longleftrightarrow> evidence_hashable (JObj e)"
  by (auto simp: validate_evidence_def evidence_hashable_def Let_def)

lemma validate_evidence_items_returns:
  "(\<exists>errors. validate_evidence_items idx ev_idx evs = Inr errors)
     \<longleftrightarrow> list_all evidence_hashable evs"
proof (induction evs arbitrary: ev_idx)
  case Nil
  then show ?case by simp
next
  case (Cons ev evs)
  show ?case
  proof (cases "\<exists>e. ev = JObj e")
    case True
    then obtain e where e: "ev = JObj e" by blast
    show ?thesis
      using validate_evidence_returns [of e ev_idx] Cons.IH [of "Suc ev_idx"]
      by (auto simp: e split: sum.splits)
  next
    case False
    then have "evidence_hashable ev" by (cases ev) (auto simp: evidence_hashable_def)
    then show ?thesis
      using False Cons.IH [of "Suc ev_idx"] by (cases ev) (auto split: sum.splits)
  qed
qed

lemma validate_why_item_returns:
  "(\<exists>errors. validate_why_item idx why = Inr errors) \<longleftrightarrow> why_hashable why"
proof (cases why)
  case (JObj w)
  show ?thesis
  proof (cases "dict_get w ''evidence''")
    case (JList evs)
    show ?thesis
    proof (cases evs)
      case Nil
      then show ?thesis
        using JObj JList by (simp add: validate_why_item_def why_hashable_def Let_def)
    next
      case (Cons ev evs')
      show ?thesis
        using JObj JList Cons validate_evidence_items_returns [of idx 0 "ev # evs'"]
        by (auto simp: validate_why_item_def why_hashable_def Let_def split: sum.splits)
    qed
  qed (simp_all add: JObj validate_why_item_def why_hashable_def Let_def)
qed (simp_all add: validate_why_item_def why_hashable_def)

lemma validate_why_items_returns:
  "(\<exists>errors. validate_why_items idx items = Inr errors) \<longleftrightarrow> list_all why_hashable items"
proof (induction items arbitrary: idx)
  case Nil
  then show ?case by simp
next
  case (Cons why items)
  show ?case
    using validate_why_item_returns [of idx why] Cons.IH [of "Suc idx"]
    by (auto split: sum.splits)
qed

lemma returns_through:
  "(\<exists>errors. (case x of Inl exc \<Rightarrow> Inl exc | Inr y \<Rightarrow> Inr (f y)) = Inr errors)
     \<longleftrightarrow> (\<exists>y. x = Inr y)"
  by (cases x) auto

lemma validate_session_returns:
  "(\<exists>errors. validate_session_mechanism payload = Inr errors) \<longleftrightarrow> checkable_sidecar payload"
proof (cases payload)
  case (JObj s)
  define why where "why = (case dict_get s ''why'' of
                      JList (w # ws) \<Rightarrow> validate_why_items 0 (w # ws)
                    | _ \<Rightarrow> Inr [ustr ''why must be non-empty list''])"
  have "(\<exists>errors. validate_session_mechanism (JObj s) = Inr errors) \<longleftrightarrow> (\<exists>y. why = Inr y)"
    unfolding validate_session_mechanism_def Let_def why_def [symmetric] json.case
    by (rule returns_through)
  also have "\<dots> \<longleftrightarrow> checkable_sidecar (JObj s)"
  proof (cases "dict_get s ''why''")
    case (JList items)
    show ?thesis
    proof (cases items)
      case Nil
      then show ?thesis using JList by (simp add: why_def checkable_sidecar_def)
    next
      case (Cons w ws)
      then show ?thesis
        using JList validate_why_items_returns [of 0 "w # ws"]
        by (simp add: why_def checkable_sidecar_def)
    qed
  qed (simp_all add: why_def checkable_sidecar_def)
  finally show ?thesis using JObj by simp
qed (simp_all add: validate_session_mechanism_def checkable_sidecar_def)

text \<open>
  Claim C8, as the code has it. With \<open>--force-refresh\<close> every session is selected.
  Without it, a session is selected when its sidecar is missing or unparseable. When the
  sidecar decodes to a JSON object in which no evidence item carries a list or an object
  as \<open>tier\<close>, the validator returns its error list, and the session is selected exactly
  when that list is not empty, or the summary is empty or holds a placeholder token, or
  the sidecar lacks any non-placeholder hypothesis with at least one evidence item that
  has a concrete session id, a turn id \<open>\<ge> 1\<close> and a non-placeholder snippet. On the
  other decoded sidecars the validator raises, and so does the selection.
\<close>

theorem C8_backfill_selection:
  "session_needs_backfill sidecars sid True = Inr True
   \<and> (sidecars sid = Missing \<or> sidecars sid = Unparseable \<longrightarrow>
        session_needs_backfill sidecars sid False = Inr True)
   \<and> (sidecars sid = Decoded payload \<and> checkable_sidecar payload \<longrightarrow>
        (\<exists>errors. validate_session_mechanism payload = Inr errors
           \<and> session_needs_backfill sidecars sid False
               = Inr (errors \<noteq> [] \<or> contains_placeholder (summary_text payload)
                      \<or> spec_low_quality payload)))
   \<and> (sidecars sid = Decoded payload \<and> \<not> checkable_sidecar payload \<longrightarrow>
        (\<exists>exc. validate_session_mechanism payload = Inl exc
           \<and> session_needs_backfill sidecars sid False = Inl exc))"
proof (intro conjI impI)
  show "session_needs_backfill sidecars sid True = Inr True"
    by (simp add: session_needs_backfill_def)
next
  assume "sidecars sid = Missing \<or> sidecars sid = Unparseable"
  then show "session_needs_backfill sidecars sid False = Inr True"
    by (auto simp: session_needs_backfill_def)
next
  assume a: "sidecars sid = Decoded payload \<and> checkable_sidecar payload"
  then obtain errors where e: "validate_session_mechanism payload = Inr errors"
    using validate_session_returns [of payload] by blast
  have "session_needs_backfill sidecars sid False
          = Inr (errors \<noteq> [] \<or> contains_placeholder (summary_text payload)
                 \<or> spec_low_quality payload)"
  proof (cases "errors = []")
    case True
    with e have "validate_session_mechanism payload = Inr []" by simp
    from signal_of_valid [OF this] a e True show ?thesis
      by (auto simp: session_needs_backfill_def)
  next
    case False
    with a e show ?thesis by (simp add: session_needs_backfill_def)
  qed
  with e show "\<exists>errors. validate_session_mechanism payload = Inr errors
           \<and> session_needs_backfill sidecars sid False
               = Inr (errors \<noteq> [] \<or> contains_placeholder (summary_text payload)
                      \<or> spec_low_quality payload)"
    by blast
next
  assume a: "sidecars sid = Decoded payload \<and> \<not> checkable_sidecar payload"
  then obtain exc where e: "validate_session_mechanism payload = Inl exc"
    using validate_session_returns [of payload]
    by (cases "validate_session_mechanism payload") auto
  then show "\<exists>exc. validate_session_mechanism payload = Inl exc
           \<and> session_needs_backfill sidecars sid False = Inl exc"
    using a by (simp add: session_needs_backfill_def)
qed

lemma good_sidecar_quality:
  "checkable_sidecar good_sidecar
   \<and> \<not> contains_placeholder (summary_text good_sidecar) \<and> \<not> spec_low_quality good_sidecar"
  by code_simp

lemma tbd_sidecar_facts:
  "validate_session_mechanism tbd_sidecar = Inr [] \<and> \<not> spec_low_quality tbd_sidecar
   \<and> contains_placeholder (summary_text tbd_sidecar)"
  by code_simp

text \<open>
  Witness for C8: a valid sidecar of good quality is not selected, the session next to it,
  which has no sidecar, is, and with \<open>--force-refresh\<close> both are.
\<close>

theorem C8_backfill_selection_witness:
  "sidecars_holding good_sidecar (ustr ''s-1'') = Decoded good_sidecar
   \<and> checkable_sidecar good_sidecar
   \<and> validate_session_mechanism good_sidecar = Inr []
   \<and> session_needs_backfill (sidecars_holding good_sidecar) (ustr ''s-1'') False = Inr False
   \<and> sidecars_holding good_sidecar (ustr ''s-2'') = Missing
   \<and> session_needs_backfill (sidecars_holding good_sidecar) (ustr ''s-2'') False = Inr True
   \<and> session_needs_backfill (sidecars_holding good_sidecar) (ustr ''s-1'') True = Inr True"
proof -
  have h1: "sidecars_holding good_sidecar (ustr ''s-1'') = Decoded good_sidecar"
    and h2: "sidecars_holding good_sidecar (ustr ''s-2'') = Missing"
    by (simp_all add: sidecars_holding_def)
  have a: "session_needs_backfill (sidecars_holding good_sidecar) (ustr ''s-1'') False = Inr False"
    using C8_backfill_selection [of "sidecars_holding good_sidecar" "ustr ''s-1''" good_sidecar]
      h1 good_sidecar_valid good_sidecar_quality
    by auto
  have b: "session_needs_backfill (sidecars_holding good_sidecar) (ustr ''s-2'') False = Inr True"
    using C8_backfill_selection [of "sidecars_holding good_sidecar" "ustr ''s-2''"] h2 by blast
  have c: "session_needs_backfill (sidecars_holding good_sidecar) (ustr ''s-1'') True = Inr True"
    using C8_backfill_selection [of "sidecars_holding good_sidecar" "ustr ''s-1''"] by blast
  show ?thesis using h1 good_sidecar_valid good_sidecar_quality a h2 b c by blast
qed

text \<open>
  Counterexample to C8 as stated: a sidecar that passes the validator and has a
  non-placeholder hypothesis with concrete evidence, but whose summary is \<open>TBD\<close>, is
  selected for re-inference.
\<close>

theorem C8_counterexample:
  "sidecars_holding tbd_sidecar (ustr ''s-1'') = Decoded tbd_sidecar
   \<and> validate_session_mechanism tbd_sidecar = Inr []
   \<and> \<not> spec_low_quality tbd_sidecar
   \<and> session_needs_backfill (sidecars_holding tbd_sidecar) (ustr ''s-1'') False = Inr True"
proof -
  have "session_needs_backfill (sidecars_holding tbd_sidecar) (ustr ''s-1'') False = Inr True"
    by code_simp
  then show ?thesis using tbd_sidecar_facts by (simp add: sidecars_holding_def)
qed

section \<open>Keeper and duplicates\<close>

lemma group_append_keys: "fst ` set (group_append key p g) = insert key (fst ` set g)"
proof (induction g)
  case Nil
  then show ?case by simp
next
  case (Cons a g)
  obtain k items where a: "a = (k, items)" by (cases a)
  show ?case
  proof (cases "k = key")
    case True
    then show ?thesis by (simp add: a)
  next
    case False
    then show ?thesis using Cons.IH by (simp add: a insert_commute)
  qed
qed

lemma group_append_distinct:
  "distinct (map fst g) \<Longrightarrow> distinct (map fst (group_append key p g))"
proof (induction g)
  case Nil
  then show ?case by simp
next
  case (Cons a g)
  obtain k items where a: "a = (k, items)" by (cases a)
  show ?case
  proof (cases "k = key")
    case True
    with Cons.prems show ?thesis by (simp add: a)
  next
    case False
    have "k \<notin> fst ` set (group_append key p g)"
      using Cons.prems False by (simp add: group_append_keys a)
    with Cons show ?thesis by (simp add: a False)
  qed
qed

lemma group_append_lookup:
  "map_of (group_append key p g) k
     = (if k = key then Some ((case map_of g key of Some xs \<Rightarrow> xs | None \<Rightarrow> []) @ [p])
        else map_of g k)"
  by (induction g) auto

lemma group_pages_distinct:
  "distinct (map fst g) \<Longrightarrow> distinct (map fst (group_pages pages g))"
  by (induction pages arbitrary: g) (auto simp: group_append_distinct)

lemma group_pages_lookup:
  "map_of (group_pages pages g) key
     = (if spec_group pages key = [] then map_of g key
        else Some ((case map_of g key of Some xs \<Rightarrow> xs | None \<Rightarrow> []) @ spec_group pages key))"
proof (induction pages arbitrary: g)
  case Nil
  then show ?case by (simp add: spec_group_def)
next
  case (Cons p pages)
  show ?case
  proof (cases "eligible p")
    case False
    then have "group_pages (p # pages) g = group_pages pages g"
      by (auto simp: eligible_def)
    moreover have "spec_group (p # pages) key = spec_group pages key"
      using False by (simp add: spec_group_def)
    ultimately show ?thesis using Cons.IH by simp
  next
    case True
    then have step: "group_pages (p # pages) g = group_pages pages (group_append (page_key p) p g)"
      by (auto simp: eligible_def)
    show ?thesis
    proof (cases "page_key p = key")
      case False
      then have "spec_group (p # pages) key = spec_group pages key"
        by (simp add: spec_group_def)
      then show ?thesis using False
        by (simp only: step Cons.IH group_append_lookup) auto
    next
      case k: True
      have sg: "spec_group (p # pages) key = p # spec_group pages key"
        using True k by (simp add: spec_group_def)
      show ?thesis
        unfolding step Cons.IH group_append_lookup sg using k
        by (simp split: option.splits)
    qed
  qed
qed

lemma grouped_entries:
  assumes "(key, items) \<in> set (group_pages pages [])"
  shows "items = spec_group pages key \<and> items \<noteq> []"
proof -
  have "distinct (map fst (group_pages pages []))"
    by (rule group_pages_distinct) simp
  with assms have "map_of (group_pages pages []) key = Some items" by simp
  then show ?thesis
    by (simp add: group_pages_lookup split: if_splits)
qed

lemma sorted_last_max:
  assumes "sorted (map f ys)" and "y \<in> set ys"
  shows "f y \<le> f (last ys)"
  using assms
proof (induction ys rule: rev_induct)
  case Nil
  then show ?case by simp
next
  case (snoc x xs)
  then show ?case by (auto simp: sorted_append)
qed

lemma keeper_pool_nonempty: "items \<noteq> [] \<Longrightarrow> keeper_pool items \<noteq> []"
  by (simp add: keeper_pool_def Let_def)

lemma choose_keeper_max:
  assumes "items \<noteq> []"
  shows "choose_keeper items \<in> set (keeper_pool items)
    \<and> (\<forall>p \<in> set (keeper_pool items). page_sort_key p \<le> page_sort_key (choose_keeper items))"
proof -
  let ?pool = "keeper_pool items"
  let ?s = "sort_key page_sort_key (rev ?pool)"
  have ne: "?pool \<noteq> []" by (rule keeper_pool_nonempty [OF assms])
  then have sne: "?s \<noteq> []" by (metis length_sort length_rev length_0_conv)
  have k: "choose_keeper items = last ?s"
    using sne by (simp add: choose_keeper_def sorted_reverse_def hd_rev)
  have set: "set ?s = set ?pool" by simp
  have "last ?s \<in> set ?s" using sne by (rule last_in_set)
  then have mem: "choose_keeper items \<in> set ?pool" unfolding k set .
  have sorted: "sorted (map page_sort_key ?s)" by (rule sorted_sort_key)
  have "\<forall>p \<in> set ?pool. page_sort_key p \<le> page_sort_key (choose_keeper items)"
    using sorted_last_max [OF sorted] set k by auto
  with mem show ?thesis by simp
qed


lemma archive_duplicate_pages_spec:
  "archive_duplicate_pages archive_ok ds
     = (map ArchivePage (archive_targets ds),
        length (filter archive_ok (archive_targets ds)),
        length (filter (\<lambda>t. \<not> archive_ok t) (archive_targets ds)))"
  by (induction ds) (auto simp: archive_targets_def)

lemma no_failure_iff:
  "length (filter (\<lambda>t. \<not> ok t) ts) = 0 \<longleftrightarrow> list_all ok ts"
  by (induction ts) auto

lemma all_written_iff: "(length (filter P xs) = length xs) = list_all P xs"
proof (induction xs)
  case Nil
  then show ?case by simp
next
  case (Cons x xs)
  have "length (filter P xs) \<le> length xs" by (rule length_filter_le)
  then have "length (filter P xs) \<noteq> Suc (length xs)" by arith
  then show ?case using Cons.IH by auto
qed

lemma sync_reports_tail_spec:
  "sync_reports_tail pages reports archive_ok write_ok =
     (let targets = archive_targets (snd (build_report_index_and_duplicates pages))
      in if list_all archive_ok targets
         then (if list_all write_ok reports then 0 else 1,
               map ArchivePage targets @ map WriteReport reports)
         else (1, map ArchivePage targets))"
proof -
  obtain index dups where b: "build_report_index_and_duplicates pages = (index, dups)"
    by (cases "build_report_index_and_duplicates pages")
  have w: "(length (filter write_ok reports) = length reports) = list_all write_ok reports"
    by (rule all_written_iff)
  have e: "dups = [] \<Longrightarrow> archive_targets dups = []" by (simp add: archive_targets_def)
  show ?thesis
    unfolding sync_reports_tail_def b Let_def
    using no_failure_iff [of archive_ok "archive_targets dups"] e
    by (auto simp: archive_duplicate_pages_spec w)
qed


lemma map_of_keepers:
  "map_of (map (\<lambda>(key, items). (key, f items)) g) k = map_option f (map_of g k)"
  by (induction g) auto

text \<open>
  Claim C9. Let \<open>(key, items)\<close> be a group of the grouping of the database's pages. The
  group is the list of the pages with that natural key. The keeper is a page of the pool,
  the pool being the pages of the group with a CJK character in title or key insights if
  there is one, and the whole group otherwise; no page of the pool has a greater sort key
  than the keeper, and the sort key is \<open>last_edited_time\<close> wherever that is present. The
  index maps the key to the keeper's id; every page of the group with another id is
  recorded as a duplicate, the keeper is not. The synchronizer first tries to archive
  every duplicate and writes reports only afterwards, and only if every archival
  succeeded; if one failed its exit code is 1.
\<close>

theorem C9_keeper_and_archival:
  assumes built: "build_report_index_and_duplicates pages = (index, duplicates)"
    and grp: "(key, items) \<in> set (group_pages pages [])"
    and sync: "sync_reports_tail pages reports archive_ok write_ok = (rc, ops)"
  shows "items = spec_group pages key \<and> items \<noteq> []
    \<and> keeper_pool items = (if list_ex is_zh items then filter is_zh items else items)
    \<and> choose_keeper items \<in> set (keeper_pool items)
    \<and> (\<forall>p \<in> set (keeper_pool items). page_sort_key p \<le> page_sort_key (choose_keeper items))
    \<and> ((\<forall>p \<in> set (keeper_pool items). last_edited_time p \<noteq> []) \<longrightarrow>
         (\<forall>p \<in> set (keeper_pool items).
            last_edited_time p \<le> last_edited_time (choose_keeper items)))
    \<and> map_of index key = Some (page_id (choose_keeper items))
    \<and> (\<forall>p \<in> set items. page_id p \<noteq> page_id (choose_keeper items) \<longrightarrow>
          duplicate_of key p \<in> set duplicates)
    \<and> duplicate_of key (choose_keeper items) \<notin> set (group_duplicates key items)
    \<and> ops = map ArchivePage (archive_targets duplicates)
             @ (if list_all archive_ok (archive_targets duplicates) then map WriteReport reports
                else [])
    \<and> (\<not> list_all archive_ok (archive_targets duplicates) \<longrightarrow> rc = 1)
    \<and> (list_all archive_ok (archive_targets duplicates) \<longrightarrow>
          rc = (if list_all write_ok reports then 0 else 1))"
proof -
  let ?keeper = "choose_keeper items"
  from grouped_entries [OF grp] have g1: "items = spec_group pages key" and ne: "items \<noteq> []"
    by auto
  have pool: "keeper_pool items = (if list_ex is_zh items then filter is_zh items else items)"
    by (auto simp: keeper_pool_def Let_def list_ex_iff filter_empty_conv)
  from choose_keeper_max [OF ne]
  have mem: "?keeper \<in> set (keeper_pool items)"
    and mx: "\<forall>p \<in> set (keeper_pool items). page_sort_key p \<le> page_sort_key ?keeper"
    by auto
  have edited: "(\<forall>p \<in> set (keeper_pool items). last_edited_time p \<noteq> []) \<longrightarrow>
         (\<forall>p \<in> set (keeper_pool items). last_edited_time p \<le> last_edited_time ?keeper)"
  proof (intro impI ballI)
    fix p assume all: "\<forall>p \<in> set (keeper_pool items). last_edited_time p \<noteq> []"
      and p: "p \<in> set (keeper_pool items)"
    from all p mem have "page_sort_key p = last_edited_time p"
      "page_sort_key ?keeper = last_edited_time ?keeper"
      by (simp_all add: page_sort_key_def)
    with mx p show "last_edited_time p \<le> last_edited_time ?keeper" by auto
  qed
  have dist: "distinct (map fst (group_pages pages []))"
    by (rule group_pages_distinct) simp
  with grp have look: "map_of (group_pages pages []) key = Some items" by simp
  have idx: "index = map (\<lambda>(key, items). (key, page_id (choose_keeper items))) (group_pages pages [])"
    and dups: "duplicates = concat (map (\<lambda>(key, items). group_duplicates key items)
                                     (group_pages pages []))"
    using built by (simp_all add: build_report_index_and_duplicates_def Let_def)
  have i: "map_of index key = Some (page_id ?keeper)"
    unfolding idx map_of_keepers look by simp
  have elig: "\<forall>p \<in> set items. page_id p \<noteq> []"
    unfolding g1 by (simp add: spec_group_def eligible_def)
  have gd: "group_duplicates key items
      = map (duplicate_of key) (filter (\<lambda>item. page_id item \<noteq> [] \<and> page_id item \<noteq> page_id ?keeper) items)"
    by (simp add: group_duplicates_def Let_def duplicate_of_def)
  have "group_duplicates key items
      \<in> set (map (\<lambda>(key, items). group_duplicates key items) (group_pages pages []))"
    using grp by (auto simp: image_iff intro!: bexI [of _ "(key, items)"])
  then have sub: "set (group_duplicates key items) \<subseteq> set duplicates"
    unfolding dups set_concat by blast
  have d: "\<forall>p \<in> set items. page_id p \<noteq> page_id ?keeper \<longrightarrow> duplicate_of key p \<in> set duplicates"
  proof (intro ballI impI)
    fix p assume "p \<in> set items" "page_id p \<noteq> page_id ?keeper"
    then have "duplicate_of key p \<in> set (group_duplicates key items)"
      using elig unfolding gd by auto
    with sub show "duplicate_of key p \<in> set duplicates" by blast
  qed
  have k: "duplicate_of key ?keeper \<notin> set (group_duplicates key items)"
    unfolding gd by (auto simp: duplicate_of_def)
  have "snd (build_report_index_and_duplicates pages) = duplicates" using built by simp
  with sync sync_reports_tail_spec [of pages reports archive_ok write_ok]
  have s: "ops = map ArchivePage (archive_targets duplicates)
             @ (if list_all archive_ok (archive_targets duplicates) then map WriteReport reports
                else [])"
    "\<not> list_all archive_ok (archive_targets duplicates) \<longrightarrow> rc = 1"
    "list_all archive_ok (archive_targets duplicates) \<longrightarrow>
          rc = (if list_all write_ok reports then 0 else 1)"
    by (auto simp: Let_def split: if_splits)
  show ?thesis
    by (intro conjI) (rule g1 ne pool mem mx edited i d k s)+
qed

lemma zh_facts: "\<not> is_zh english_page" "is_zh cjk_page"
  by (simp_all add: is_zh_def contains_cjk_def english_page_def cjk_page_def)

lemma two_pages_group:
  "group_pages two_pages [] = [((''incremental-root-causes'', ''rolling_all-time''), two_pages)]"
  by (simp add: two_pages_def english_page_def cjk_page_def page_key_def)

lemma two_pages_keeper: "choose_keeper two_pages = cjk_page"
  by (simp add: choose_keeper_def keeper_pool_def sorted_reverse_def two_pages_def zh_facts)

lemma two_pages_built:
  "build_report_index_and_duplicates two_pages
    = ([((''incremental-root-causes'', ''rolling_all-time''), ''page-zh'')],
       [duplicate_of (''incremental-root-causes'', ''rolling_all-time'') english_page])"
  unfolding build_report_index_and_duplicates_def two_pages_group Let_def
  by (simp add: two_pages_keeper group_duplicates_def duplicate_of_def)
    (simp add: two_pages_def english_page_def cjk_page_def)

lemma two_pages_targets:
  "archive_targets [duplicate_of (''incremental-root-causes'', ''rolling_all-time'') english_page]
     = [''page-en'']"
  by (simp add: archive_targets_def duplicate_of_def english_page_def py_strip_def py_isspace_def)

text \<open>
  Witness for C9: of the two pages with the same key the older one, with the CJK title, is
  the keeper, although the English one was edited later; the English page is the one
  duplicate. It is archived before the report is written, and when the archival fails the
  exit code is 1 and nothing is written.
\<close>

theorem C9_keeper_and_archival_witness:
  "build_report_index_and_duplicates two_pages
     = ([((''incremental-root-causes'', ''rolling_all-time''), ''page-zh'')],
        [duplicate_of (''incremental-root-causes'', ''rolling_all-time'') english_page])
   \<and> ((''incremental-root-causes'', ''rolling_all-time''), two_pages)
       \<in> set (group_pages two_pages [])
   \<and> choose_keeper two_pages = cjk_page
   \<and> cjk_page \<in> set (keeper_pool two_pages)
   \<and> page_sort_key cjk_page \<le> page_sort_key cjk_page
   \<and> sync_reports_tail two_pages [''report''] always_ok always_ok
       = (0, [ArchivePage ''page-en'', WriteReport ''report''])
   \<and> sync_reports_tail two_pages [''report''] never_ok always_ok
       = (1, [ArchivePage ''page-en''])"
proof -
  let ?key = "(''incremental-root-causes'', ''rolling_all-time'')"
  have grp: "(?key, two_pages) \<in> set (group_pages two_pages [])"
    by (simp add: two_pages_group)
  note good = C9_keeper_and_archival [OF two_pages_built grp surjective_pairing,
      where reports = "[''report'']" and archive_ok = always_ok and write_ok = always_ok]
  note bad = C9_keeper_and_archival [OF two_pages_built grp surjective_pairing,
      where reports = "[''report'']" and archive_ok = never_ok and write_ok = always_ok]
  let ?dups = "[duplicate_of ?key english_page]"
  have "choose_keeper two_pages \<in> set (keeper_pool two_pages)"
    and all: "\<forall>p \<in> set (keeper_pool two_pages).
                page_sort_key p \<le> page_sort_key (choose_keeper two_pages)"
    using good by blast+
  then have pool: "cjk_page \<in> set (keeper_pool two_pages)"
    by (simp only: two_pages_keeper)
  have mx: "page_sort_key cjk_page \<le> page_sort_key cjk_page"
    using all pool by (simp only: two_pages_keeper)
  have ok_ops: "snd (sync_reports_tail two_pages [''report''] always_ok always_ok)
      = map ArchivePage (archive_targets ?dups)
        @ (if list_all always_ok (archive_targets ?dups) then map WriteReport [''report'']
           else [])"
    and ok_rc: "list_all always_ok (archive_targets ?dups) \<longrightarrow>
      fst (sync_reports_tail two_pages [''report''] always_ok always_ok)
        = (if list_all always_ok [''report''] then 0 else 1)"
    using good by blast+
  have s1: "sync_reports_tail two_pages [''report''] always_ok always_ok
       = (0, [ArchivePage ''page-en'', WriteReport ''report''])"
    using ok_ops ok_rc by (simp add: two_pages_targets always_ok_def prod_eq_iff)
  have bad_ops: "snd (sync_reports_tail two_pages [''report''] never_ok always_ok)
      = map ArchivePage (archive_targets ?dups)
        @ (if list_all never_ok (archive_targets ?dups) then map WriteReport [''report'']
           else [])"
    and bad_rc: "\<not> list_all never_ok (archive_targets ?dups) \<longrightarrow>
      fst (sync_reports_tail two_pages [''report''] never_ok always_ok) = 1"
    using bad by blast+
  have s2: "sync_reports_tail two_pages [''report''] never_ok always_ok
       = (1, [ArchivePage ''page-en''])"
    using bad_ops bad_rc by (simp add: two_pages_targets never_ok_def prod_eq_iff)
  show ?thesis using two_pages_built grp two_pages_keeper pool mx s1 s2 by blast
qed


end
